theory Spec2Isabelle
  imports Main "HOL-Library.Sublist"
begin

section \<open>Data model (models package)\<close>

text \<open>
  Go's \<open>int\<close>, \<open>int64\<close>, \<open>uint32\<close>, \<open>uint16\<close> and \<open>uint8\<close> values are
  modelled as \<open>int\<close>; every conversion or multiplication that can wrap is written out
  with the functions below. The two timestamp fields of a record and of a zone play no
  role in any function modelled here and are left out.
\<close>

type_synonym RecordType = string

definition TypeSOA :: RecordType where "TypeSOA = ''SOA''"
definition TypeA :: RecordType where "TypeA = ''A''"
definition TypeAAAA :: RecordType where "TypeAAAA = ''AAAA''"
definition TypeCNAME :: RecordType where "TypeCNAME = ''CNAME''"
definition TypeMX :: RecordType where "TypeMX = ''MX''"
definition TypeNS :: RecordType where "TypeNS = ''NS''"
definition TypePTR :: RecordType where "TypePTR = ''PTR''"
definition TypeSRV :: RecordType where "TypeSRV = ''SRV''"
definition TypeTXT :: RecordType where "TypeTXT = ''TXT''"
definition TypeCAA :: RecordType where "TypeCAA = ''CAA''"

record Zone =
  zone_ID :: int
  zone_Name :: string

record Record =
  ID :: int
  Zone :: string
  Name :: string
  Type :: RecordType
  Content :: string
  TTL :: int
  Priority :: int

record SOARecord =
  Mname :: string
  Rname :: string
  Serial :: int
  Refresh :: int
  Retry :: int
  Expire :: int
  Minimum :: int

record SRVRecord =
  srv_Priority :: int
  srv_Weight :: int
  srv_Port :: int
  srv_Target :: string

record CAARecord =
  caa_Flag :: int
  caa_Tag :: string
  caa_Value :: string

text \<open>Conversions between Go's integer types, with the wrap-around written out.\<close>

definition uint32 :: "int \<Rightarrow> int" where
  "uint32 x = x mod 2 ^ 32"

definition uint16 :: "int \<Rightarrow> int" where
  "uint16 x = x mod 2 ^ 16"

definition wrap64 :: "int \<Rightarrow> int" where
  "wrap64 x = (x + 2 ^ 63) mod 2 ^ 64 - 2 ^ 63"

text \<open>\<open>time.Duration(n) * time.Second\<close>: a signed 64-bit count of nanoseconds.\<close>

definition seconds :: "int \<Rightarrow> int" where
  "seconds n = wrap64 (n * 1000000000)"

section \<open>Configuration (config package)\<close>

record Config =
  soa_PrimaryNameserver :: string
  soa_MailAddress :: string
  soa_Refresh :: int
  soa_Retry :: int
  soa_Expire :: int
  soa_Minimum :: int
  redis_cache_TTL :: int

section \<open>Errors, external libraries, the world\<close>

datatype error =
    StoreUnavailable
  | CacheUnavailable
  | RedisNil
  | JSONError
  | UnsupportedRecordType string
  | Errorf string error

text \<open>
  The functions of \<open>encoding/json\<close>, \<open>net\<close> and \<open>miekg/dns\<close> that the
  repository calls are not part of it; they are parameters of the model. A decoder
  returns \<open>None\<close> where the Go function returns a non-nil error.
\<close>

record lib =
  TypeToString :: "nat \<Rightarrow> string"
  ParseIP :: "string \<Rightarrow> nat list"
  Fqdn :: "string \<Rightarrow> string"
  unmarshal_Record :: "string \<Rightarrow> Record option"
  unmarshal_Records :: "string \<Rightarrow> Record list option"
  unmarshal_SOA :: "string \<Rightarrow> SOARecord option"
  unmarshal_SRV :: "string \<Rightarrow> SRVRecord option"
  unmarshal_CAA :: "string \<Rightarrow> CAARecord option"
  marshal_Record :: "Record \<Rightarrow> string"
  marshal_Records :: "Record list \<Rightarrow> string"
  marshal_SOA :: "SOARecord \<Rightarrow> string"

text \<open>
  Every call to the store (MariaDB) and to the cache (Redis) is an operation. The world
  records the operations issued, in order, and says which operations fail: a failing
  operation returns an error and changes nothing.

  \<open>InitSchema\<close> declares the columns \<open>zones.name\<close>, \<open>records.zone\<close>, \<open>records.name\<close> and
  \<open>records.type\<close> as \<open>VARCHAR\<close> of tables with \<open>DEFAULT CHARSET=utf8mb4\<close> and no
  \<open>COLLATE\<close>. What \<open>=\<close> means on them is therefore the collation the database server
  gives to \<open>utf8mb4\<close>, by default a case-insensitive one. It is a parameter of the world:
  \<open>collation w a b\<close> says that the server holds the strings \<open>a\<close> and \<open>b\<close> equal. Go's own
  \<open>==\<close> and \<open>!=\<close> on strings are equality.
\<close>

datatype op =
    DbGetZone string
  | DbGetRecord string string RecordType
  | DbGetRecordsByNameAndType string string RecordType
  | DbGetRecordByID int
  | DbCreateRecord Record
  | DbUpdateRecord Record
  | DbDeleteRecord int
  | RedisGet string
  | RedisSet string string int
  | RedisDel "string list"
  | RedisPublish string string

datatype log_entry = Warnf string error | Errorf_log string error

record DNSStats =
  Queries :: int
  CacheHits :: int
  CacheMisses :: int
  NXDomain :: int
  ServerFailure :: int

record world =
  collation :: "string \<Rightarrow> string \<Rightarrow> bool"
  zones :: "Zone list"
  records :: "Record list"
  next_id :: int
  kv :: "string \<rightharpoonup> string \<times> int"
  fails :: "op \<Rightarrow> bool"
  trace :: "op list"
  logs :: "log_entry list"
  stats :: DNSStats

definition issue :: "op \<Rightarrow> world \<Rightarrow> world" where
  "issue c w = w\<lparr>trace := trace w @ [c]\<rparr>"

definition logf :: "log_entry \<Rightarrow> world \<Rightarrow> world" where
  "logf e w = w\<lparr>logs := logs w @ [e]\<rparr>"

definition is_db_op :: "op \<Rightarrow> bool" where
  "is_db_op c = (case c of
      RedisGet _ \<Rightarrow> False | RedisSet _ _ _ \<Rightarrow> False | RedisDel _ \<Rightarrow> False
    | RedisPublish _ _ \<Rightarrow> False | _ \<Rightarrow> True)"

definition is_cache_write :: "op \<Rightarrow> bool" where
  "is_cache_write c = (case c of RedisSet _ _ _ \<Rightarrow> True | _ \<Rightarrow> False)"

section \<open>The record store (MariaDBClient)\<close>

text \<open>
  The tables are lists of rows. \<open>WHERE name = ?\<close> compares the column with the argument
  under the collation, \<open>WHERE id = ?\<close> compares integers; \<open>QueryRow\<close> takes the first
  matching row, \<open>Query\<close> all of them in table order. A row is returned as it is stored.
\<close>

definition matches ::
  "(string \<Rightarrow> string \<Rightarrow> bool) \<Rightarrow> string \<Rightarrow> string \<Rightarrow> RecordType \<Rightarrow> Record \<Rightarrow> bool" where
  "matches eq zone name recordType r \<longleftrightarrow>
     eq (Zone r) zone \<and> eq (Name r) name \<and> eq (Type r) recordType"

definition GetZone :: "world \<Rightarrow> string \<Rightarrow> (error + Zone option) \<times> world" where
  "GetZone w name =
     (if fails w (DbGetZone name) then (Inl StoreUnavailable, issue (DbGetZone name) w)
      else (Inr (find (\<lambda>z. collation w (zone_Name z) name) (zones w)),
            issue (DbGetZone name) w))"

definition MariaDB_GetRecord ::
  "world \<Rightarrow> string \<Rightarrow> string \<Rightarrow> RecordType \<Rightarrow> (error + Record option) \<times> world" where
  "MariaDB_GetRecord w zone name recordType =
     (let c = DbGetRecord zone name recordType in
      if fails w c then (Inl StoreUnavailable, issue c w)
      else (Inr (find (matches (collation w) zone name recordType) (records w)), issue c w))"

definition MariaDB_GetRecordsByNameAndType ::
  "world \<Rightarrow> string \<Rightarrow> string \<Rightarrow> RecordType \<Rightarrow> (error + Record list) \<times> world" where
  "MariaDB_GetRecordsByNameAndType w zone name recordType =
     (let c = DbGetRecordsByNameAndType zone name recordType in
      if fails w c then (Inl StoreUnavailable, issue c w)
      else (Inr (filter (matches (collation w) zone name recordType) (records w)), issue c w))"

definition GetRecordByID :: "world \<Rightarrow> int \<Rightarrow> (error + Record option) \<times> world" where
  "GetRecordByID w i =
     (if fails w (DbGetRecordByID i) then (Inl StoreUnavailable, issue (DbGetRecordByID i) w)
      else (Inr (find (\<lambda>r. ID r = i) (records w)), issue (DbGetRecordByID i) w))"

text \<open>
  \<open>CreateRecord\<close> inserts a row under the next auto-increment id and writes the id
  back into the record it was given. The insert is refused when the zone is not in the
  zones table (the foreign key of the schema).
\<close>

definition CreateRecord :: "world \<Rightarrow> Record \<Rightarrow> error option \<times> Record \<times> world" where
  "CreateRecord w r =
     (if fails w (DbCreateRecord r)
           \<or> \<not> (\<exists>z \<in> set (zones w). collation w (zone_Name z) (Zone r))
      then (Some StoreUnavailable, r, issue (DbCreateRecord r) w)
      else (None, r\<lparr>ID := next_id w\<rparr>,
            issue (DbCreateRecord r)
              (w\<lparr>records := records w @ [r\<lparr>ID := next_id w\<rparr>], next_id := next_id w + 1\<rparr>)))"

definition UpdateRecord :: "world \<Rightarrow> Record \<Rightarrow> error option \<times> world" where
  "UpdateRecord w r =
     (if fails w (DbUpdateRecord r) then (Some StoreUnavailable, issue (DbUpdateRecord r) w)
      else (None,
            issue (DbUpdateRecord r)
              (w\<lparr>records :=
                   map (\<lambda>x. if ID x = ID r
                            then x\<lparr>Content := Content r, TTL := TTL r, Priority := Priority r\<rparr>
                            else x) (records w)\<rparr>)))"

definition DeleteRecord :: "world \<Rightarrow> int \<Rightarrow> error option \<times> world" where
  "DeleteRecord w i =
     (if fails w (DbDeleteRecord i) then (Some StoreUnavailable, issue (DbDeleteRecord i) w)
      else (None, issue (DbDeleteRecord i) (w\<lparr>records := filter (\<lambda>x. ID x \<noteq> i) (records w)\<rparr>)))"

section \<open>The zone resolver (DNSHandler.findZone)\<close>

text \<open>\<open>strings.Split(s, ".")\<close>, \<open>strings.Join(parts, ".")\<close> and
  \<open>strings.TrimSuffix(s, ".")\<close>, for a separator of one character.\<close>

fun Split :: "string \<Rightarrow> char \<Rightarrow> string list" where
  "Split [] c = [[]]"
| "Split (x # xs) c =
     (if x = c then [] # Split xs c
      else (case Split xs c of [] \<Rightarrow> [[x]] | p # ps \<Rightarrow> (x # p) # ps))"

fun Join :: "string list \<Rightarrow> char \<Rightarrow> string" where
  "Join [] c = []"
| "Join [p] c = p"
| "Join (p # q # ps) c = p @ c # Join (q # ps) c"

definition TrimSuffix :: "string \<Rightarrow> char \<Rightarrow> string" where
  "TrimSuffix s c = (if s \<noteq> [] \<and> last s = c then butlast s else s)"

text \<open>
  The loop \<open>for i := 0; i < len(parts); i++\<close> probes \<open>parts[i:]\<close>; the recursion
  below runs over that suffix of the parts.
\<close>

fun findZone_from :: "world \<Rightarrow> string list \<Rightarrow> (error + string) \<times> world" where
  "findZone_from w [] = (Inr [], w)"
| "findZone_from w (p # ps) =
     (case GetZone w (Join (p # ps) (CHR ''.'')) of
        (Inl err, w') \<Rightarrow> (Inl err, w')
      | (Inr (Some zone), w') \<Rightarrow> (Inr (zone_Name zone), w')
      | (Inr None, w') \<Rightarrow> findZone_from w' ps)"

definition findZone :: "world \<Rightarrow> string \<Rightarrow> (error + string) \<times> world" where
  "findZone w name = findZone_from w (Split name (CHR ''.''))"

text \<open>The candidate zone names of a query name, in the order they are probed.\<close>

fun candidates_from :: "string list \<Rightarrow> string list" where
  "candidates_from [] = []"
| "candidates_from (p # ps) = Join (p # ps) (CHR ''.'') # candidates_from ps"

definition candidates :: "string \<Rightarrow> string list" where
  "candidates name = candidates_from (Split name (CHR ''.''))"

definition zone_exists :: "world \<Rightarrow> string \<Rightarrow> bool" where
  "zone_exists w name \<longleftrightarrow> (\<exists>z \<in> set (zones w). collation w (zone_Name z) name)"

section \<open>The record cache (RedisClient)\<close>

text \<open>
  A cache entry is the stored string and the expiration it was written with, in
  nanoseconds; expiration 0 is the client library's "no expiration". The passing of time,
  and with it the removal of expired entries, is not modelled.
\<close>

definition Get :: "world \<Rightarrow> string \<Rightarrow> (error + string) \<times> world" where
  "Get w key =
     (if fails w (RedisGet key) then (Inl CacheUnavailable, issue (RedisGet key) w)
      else (case kv w key of
              None \<Rightarrow> (Inl RedisNil, issue (RedisGet key) w)
            | Some (data, _) \<Rightarrow> (Inr data, issue (RedisGet key) w)))"

definition Set :: "world \<Rightarrow> string \<Rightarrow> string \<Rightarrow> int \<Rightarrow> error option \<times> world" where
  "Set w key data expiration =
     (if fails w (RedisSet key data expiration)
      then (Some CacheUnavailable, issue (RedisSet key data expiration) w)
      else (None, issue (RedisSet key data expiration) (w\<lparr>kv := (kv w)(key \<mapsto> (data, expiration))\<rparr>)))"

definition Del :: "world \<Rightarrow> string list \<Rightarrow> error option \<times> world" where
  "Del w keys =
     (if fails w (RedisDel keys) then (Some CacheUnavailable, issue (RedisDel keys) w)
      else (None, issue (RedisDel keys)
                    (w\<lparr>kv := (\<lambda>k. if k \<in> set keys then None else kv w k)\<rparr>)))"

definition Publish :: "world \<Rightarrow> string \<Rightarrow> string \<Rightarrow> error option \<times> world" where
  "Publish w channel payload =
     (if fails w (RedisPublish channel payload)
      then (Some CacheUnavailable, issue (RedisPublish channel payload) w)
      else (None, issue (RedisPublish channel payload) w))"

text \<open>\<open>fmt.Sprintf("dns:records:%s:%s:%s", zone, name, recordType)\<close> and
  \<open>fmt.Sprintf("dns:record:%s:%s:%s", zone, name, recordType)\<close>.\<close>

definition multiCacheKey :: "string \<Rightarrow> string \<Rightarrow> RecordType \<Rightarrow> string" where
  "multiCacheKey zone name recordType =
     ''dns:records:'' @ zone @ '':'' @ name @ '':'' @ recordType"

definition singleCacheKey :: "string \<Rightarrow> string \<Rightarrow> RecordType \<Rightarrow> string" where
  "singleCacheKey zone name recordType =
     ''dns:record:'' @ zone @ '':'' @ name @ '':'' @ recordType"

text \<open>The cache read of a record set returns \<open>(nil, nil)\<close> on every failure of the
  \<open>GET\<close>, a missing key included, and the decoder's error otherwise.\<close>

definition Redis_GetRecordsByNameAndType ::
  "lib \<Rightarrow> world \<Rightarrow> string \<Rightarrow> string \<Rightarrow> RecordType \<Rightarrow> (error + Record list) \<times> world" where
  "Redis_GetRecordsByNameAndType L w zone name recordType =
     (case Get w (multiCacheKey zone name recordType) of
        (Inl err, w') \<Rightarrow> (Inr [], w')
      | (Inr data, w') \<Rightarrow>
          (case unmarshal_Records L data of
             None \<Rightarrow> (Inl JSONError, w')
           | Some rs \<Rightarrow> (Inr rs, w')))"

definition SetRecords :: "lib \<Rightarrow> Config \<Rightarrow> world \<Rightarrow> Record list \<Rightarrow> int \<Rightarrow> error option \<times> world" where
  "SetRecords L cfg w rs ttl =
     (case rs of
        [] \<Rightarrow> (None, w)
      | r # _ \<Rightarrow>
          (let key = multiCacheKey (Zone r) (Name r) (Type r);
               data = marshal_Records L rs
           in if redis_cache_TTL cfg = 0 then Set w key data 0
              else Set w key data (seconds (redis_cache_TTL cfg))))"

definition Redis_GetRecord ::
  "lib \<Rightarrow> world \<Rightarrow> string \<Rightarrow> string \<Rightarrow> RecordType \<Rightarrow> (error + Record option) \<times> world" where
  "Redis_GetRecord L w zone name recordType =
     (case Get w (singleCacheKey zone name recordType) of
        (Inl err, w') \<Rightarrow> (if err = RedisNil then (Inr None, w') else (Inl err, w'))
      | (Inr data, w') \<Rightarrow>
          (case unmarshal_Record L data of
             None \<Rightarrow> (Inl JSONError, w')
           | Some r \<Rightarrow> (Inr (Some r), w')))"

definition SetRecord :: "lib \<Rightarrow> Config \<Rightarrow> world \<Rightarrow> Record \<Rightarrow> int \<Rightarrow> error option \<times> world" where
  "SetRecord L cfg w r ttl =
     (let key = singleCacheKey (Zone r) (Name r) (Type r);
          data = marshal_Record L r
      in if redis_cache_TTL cfg = 0 then Set w key data 0
         else Set w key data (seconds (redis_cache_TTL cfg)))"

definition PublishRecordUpdate :: "lib \<Rightarrow> world \<Rightarrow> Record \<Rightarrow> error option \<times> world" where
  "PublishRecordUpdate L w r = Publish w ''dns:record:update'' (marshal_Record L r)"

text \<open>The channel \<open>SubscribeToRecordUpdates\<close> subscribes to.\<close>

definition SubscribeToRecordUpdates :: string where
  "SubscribeToRecordUpdates = ''dns:record:update''"

section \<open>The answer synthesizer (DNSHandler.addAnswerFromRecord)\<close>

record Question =
  q_Name :: string
  Qtype :: nat
  Qclass :: nat

record RR_Header =
  hdr_Name :: string
  Rrtype :: nat
  Class :: nat
  Ttl :: int

datatype RR =
    dns_A RR_Header "nat list"
  | dns_AAAA RR_Header "nat list"
  | dns_CNAME RR_Header string
  | dns_MX RR_Header int string
  | dns_NS RR_Header string
  | dns_PTR RR_Header string
  | dns_TXT RR_Header "string list"
  | dns_SOA RR_Header string string int int int int int
  | dns_SRV RR_Header int int int string
  | dns_CAA RR_Header int string string

record Msg =
  Questions :: "Question list"
  Answer :: "RR list"
  Rcode :: nat
  Authoritative :: bool

definition ClassINET :: nat where "ClassINET = 1"
definition RcodeSuccess :: nat where "RcodeSuccess = 0"
definition RcodeServerFailure :: nat where "RcodeServerFailure = 2"
definition RcodeNameError :: nat where "RcodeNameError = 3"

definition Hdr :: "Question \<Rightarrow> nat \<Rightarrow> Record \<Rightarrow> RR_Header" where
  "Hdr q rrtype r =
     \<lparr>hdr_Name = q_Name q, Rrtype = rrtype, Class = ClassINET, Ttl = uint32 (TTL r)\<rparr>"

definition append_answer :: "Msg \<Rightarrow> RR \<Rightarrow> Msg" where
  "append_answer m rr = m\<lparr>Answer := Answer m @ [rr]\<rparr>"

text \<open>The \<open>switch record.Type\<close> of \<open>addAnswerFromRecord\<close>: the resource record
  the matching case builds, or the error it returns.\<close>

definition rr_of_record :: "lib \<Rightarrow> Record \<Rightarrow> Question \<Rightarrow> error + RR" where
  "rr_of_record L r q =
     (if Type r = TypeA then Inr (dns_A (Hdr q 1 r) (ParseIP L (Content r)))
      else if Type r = TypeAAAA then Inr (dns_AAAA (Hdr q 28 r) (ParseIP L (Content r)))
      else if Type r = TypeCNAME then Inr (dns_CNAME (Hdr q 5 r) (Fqdn L (Content r)))
      else if Type r = TypeMX then
        Inr (dns_MX (Hdr q 15 r) (uint16 (Priority r)) (Fqdn L (Content r)))
      else if Type r = TypeNS then Inr (dns_NS (Hdr q 2 r) (Fqdn L (Content r)))
      else if Type r = TypePTR then Inr (dns_PTR (Hdr q 12 r) (Fqdn L (Content r)))
      else if Type r = TypeTXT then Inr (dns_TXT (Hdr q 16 r) [Content r])
      else if Type r = TypeSOA then
        (case unmarshal_SOA L (Content r) of
           None \<Rightarrow> Inl (Errorf ''failed to parse SOA record'' JSONError)
         | Some soaData \<Rightarrow>
             Inr (dns_SOA (Hdr q 6 r) (Fqdn L (Mname soaData)) (Fqdn L (Rname soaData))
                    (Serial soaData) (Refresh soaData) (Retry soaData) (Expire soaData)
                    (Minimum soaData)))
      else if Type r = TypeSRV then
        (case unmarshal_SRV L (Content r) of
           None \<Rightarrow> Inl (Errorf ''failed to parse SRV record'' JSONError)
         | Some srv \<Rightarrow>
             Inr (dns_SRV (Hdr q 33 r) (srv_Priority srv) (srv_Weight srv) (srv_Port srv)
                    (Fqdn L (srv_Target srv))))
      else if Type r = TypeCAA then
        (case unmarshal_CAA L (Content r) of
           None \<Rightarrow> Inl (Errorf ''failed to parse CAA record'' JSONError)
         | Some caa \<Rightarrow>
             Inr (dns_CAA (Hdr q 257 r) (caa_Flag caa) (caa_Tag caa) (caa_Value caa)))
      else Inl (UnsupportedRecordType (Type r)))"

text \<open>Every successful case ends in \<open>m.Answer = append(m.Answer, rr)\<close>; an error leaves
  the message as it is.\<close>

definition addAnswerFromRecord :: "lib \<Rightarrow> Msg \<Rightarrow> Record \<Rightarrow> Question \<Rightarrow> error option \<times> Msg" where
  "addAnswerFromRecord L m r q =
     (case rr_of_record L r q of
        Inl err \<Rightarrow> (Some err, m)
      | Inr rr \<Rightarrow> (None, append_answer m rr))"

section \<open>The resolution engine (DNSHandler.handleQuery, DNSHandler.ServeDNS)\<close>

definition count_CacheHit :: "world \<Rightarrow> world" where
  "count_CacheHit w = w\<lparr>stats := (stats w)\<lparr>CacheHits := CacheHits (stats w) + 1\<rparr>\<rparr>"

definition count_CacheMiss :: "world \<Rightarrow> world" where
  "count_CacheMiss w = w\<lparr>stats := (stats w)\<lparr>CacheMisses := CacheMisses (stats w) + 1\<rparr>\<rparr>"

definition count_Query :: "world \<Rightarrow> world" where
  "count_Query w = w\<lparr>stats := (stats w)\<lparr>Queries := Queries (stats w) + 1\<rparr>\<rparr>"

definition count_NXDomain :: "world \<Rightarrow> world" where
  "count_NXDomain w = w\<lparr>stats := (stats w)\<lparr>NXDomain := NXDomain (stats w) + 1\<rparr>\<rparr>"

definition count_ServerFailure :: "world \<Rightarrow> world" where
  "count_ServerFailure w = w\<lparr>stats := (stats w)\<lparr>ServerFailure := ServerFailure (stats w) + 1\<rparr>\<rparr>"

definition warn_if :: "string \<Rightarrow> error option \<Rightarrow> world \<Rightarrow> world" where
  "warn_if msg e w = (case e of None \<Rightarrow> w | Some err \<Rightarrow> logf (Warnf msg err) w)"

text \<open>The loop \<open>for _, record := range records\<close> of the two record-set paths: a
  record whose answer cannot be built is logged and the loop goes on.\<close>

fun add_answers :: "lib \<Rightarrow> Question \<Rightarrow> Record list \<Rightarrow> Msg \<times> world \<Rightarrow> Msg \<times> world" where
  "add_answers L q [] (m, w) = (m, w)"
| "add_answers L q (r # rs) (m, w) =
     (case addAnswerFromRecord L m r q of
        (e, m') \<Rightarrow> add_answers L q rs (m', warn_if ''Failed to add answer from record'' e w))"

text \<open>The block "Try to get a single record for backward compatibility" that ends
  \<open>handleQuery\<close>: the single-record store lookup, and on a find the cache fill under the
  single-record key.\<close>

definition store_single_fallback ::
  "lib \<Rightarrow> Config \<Rightarrow> world \<Rightarrow> Msg \<Rightarrow> Question \<Rightarrow> string \<Rightarrow> string \<Rightarrow> RecordType
     \<Rightarrow> error option \<times> Msg \<times> world" where
  "store_single_fallback L cfg w m q zone name recordType =
     (case MariaDB_GetRecord w zone name recordType of
        (Inl err, w1) \<Rightarrow> (Some err, m, w1)
      | (Inr None, w1) \<Rightarrow> (None, m, w1)
      | (Inr (Some r), w1) \<Rightarrow>
          (case SetRecord L cfg w1 r (seconds (TTL r)) of
             (e, w2) \<Rightarrow>
               (case addAnswerFromRecord L m r q of
                  (e', m') \<Rightarrow> (e', m', warn_if ''Failed to cache record'' e w2))))"

definition handleQuery ::
  "lib \<Rightarrow> Config \<Rightarrow> world \<Rightarrow> Msg \<Rightarrow> Question \<Rightarrow> error option \<times> Msg \<times> world" where
  "handleQuery L cfg w m q =
     (let name = TrimSuffix (q_Name q) (CHR ''.'') in
      case findZone w name of
        (Inl err, w1) \<Rightarrow> (Some err, m, w1)
      | (Inr zone, w1) \<Rightarrow>
          if zone = [] then (None, m, w1)
          else
            (let recordType = TypeToString L (Qtype q) in
             case Redis_GetRecordsByNameAndType L w1 zone name recordType of
               (cached, w2) \<Rightarrow>
                 (let rs = (case cached of Inl _ \<Rightarrow> [] | Inr rs \<Rightarrow> rs) in
                  if rs \<noteq> [] then
                    (case add_answers L q rs (m, count_CacheHit w2) of
                       (m', w3) \<Rightarrow> (None, m', w3))
                  else
                    (case Redis_GetRecord L w2 zone name recordType of
                       (cached1, w3) \<Rightarrow>
                         (case (case cached1 of Inl _ \<Rightarrow> None | Inr x \<Rightarrow> x) of
                            Some r \<Rightarrow>
                              (case addAnswerFromRecord L m r q of
                                 (e, m') \<Rightarrow> (e, m', count_CacheHit w3))
                          | None \<Rightarrow>
                              (case MariaDB_GetRecordsByNameAndType (count_CacheMiss w3)
                                      zone name recordType of
                                 (Inl err, w4) \<Rightarrow> (Some err, m, w4)
                               | (Inr (r # rs'), w4) \<Rightarrow>
                                   (case SetRecords L cfg w4 (r # rs') (seconds (TTL r)) of
                                      (e, w5) \<Rightarrow>
                                        (case add_answers L q (r # rs')
                                                (m, warn_if ''Failed to cache records'' e w5) of
                                           (m', w6) \<Rightarrow> (None, m', w6)))
                               | (Inr [], w4) \<Rightarrow>
                                   store_single_fallback L cfg w4 m q zone name
                                     recordType))))))"

text \<open>The loop over the questions of a request.\<close>

fun serve_questions :: "lib \<Rightarrow> Config \<Rightarrow> Question list \<Rightarrow> Msg \<times> world \<Rightarrow> Msg \<times> world" where
  "serve_questions L cfg [] (m, w) = (m, w)"
| "serve_questions L cfg (q # qs) (m, w) =
     (case handleQuery L cfg w m q of
        (Some err, m', w') \<Rightarrow>
          serve_questions L cfg qs
            (m'\<lparr>Rcode := RcodeServerFailure\<rparr>,
             count_ServerFailure (logf (Errorf_log ''Error handling query'' err) w'))
      | (None, m', w') \<Rightarrow> serve_questions L cfg qs (m', w'))"

text \<open>\<open>ServeDNS\<close> returns the message it hands to \<open>WriteMsg\<close>.\<close>

definition ServeDNS :: "lib \<Rightarrow> Config \<Rightarrow> world \<Rightarrow> Msg \<Rightarrow> Msg \<times> world" where
  "ServeDNS L cfg w r =
     (let m = \<lparr>Questions = Questions r, Answer = [], Rcode = RcodeSuccess, Authoritative = True\<rparr>
      in case serve_questions L cfg (Questions r) (m, count_Query w) of
           (m', w') \<Rightarrow>
             if Answer m' = [] then (m'\<lparr>Rcode := RcodeNameError\<rparr>, count_NXDomain w')
             else (m', w'))"

section \<open>The invalidation subscriber (DNSServer.listenForRecordUpdates)\<close>

text \<open>
  What the \<open>select\<close> of the loop receives, in order: a message of the subscribed channel,
  or the cancellation of the server's context. The result says whether the loop has
  returned; on an exhausted input it is still waiting.
\<close>

datatype event = Message string | Done

text \<open>The block "Invalidate cache for this record" of the loop body.\<close>

definition invalidate :: "world \<Rightarrow> Record \<Rightarrow> world" where
  "invalidate w r =
     (case Del w [singleCacheKey (Zone r) (Name r) (Type r)] of
        (e1, w1) \<Rightarrow>
          (case Del (warn_if ''Failed to invalidate single record cache'' e1 w1)
                  [multiCacheKey (Zone r) (Name r) (Type r)] of
             (e2, w2) \<Rightarrow> warn_if ''Failed to invalidate multiple records cache'' e2 w2))"

fun listenForRecordUpdates :: "lib \<Rightarrow> world \<Rightarrow> event list \<Rightarrow> bool \<times> world" where
  "listenForRecordUpdates L w [] = (False, w)"
| "listenForRecordUpdates L w (Done # es) = (True, w)"
| "listenForRecordUpdates L w (Message payload # es) =
     (case unmarshal_Record L payload of
        None \<Rightarrow>
          listenForRecordUpdates L
            (logf (Errorf_log ''Failed to parse record update'' JSONError) w) es
      | Some r \<Rightarrow> listenForRecordUpdates L (invalidate w r) es)"

section \<open>The SOA serial manager (APIServer.updateZoneSOASerial)\<close>

text \<open>
  \<open>now\<close> is the value of \<open>time.Now().Unix()\<close> at the call: the seconds since the
  epoch, a signed 64-bit integer.
\<close>

definition createDefaultSOARecord ::
  "lib \<Rightarrow> Config \<Rightarrow> int \<Rightarrow> world \<Rightarrow> string \<Rightarrow> error option \<times> world" where
  "createDefaultSOARecord L cfg now w zoneName =
     (let soaData = \<lparr>Mname = soa_PrimaryNameserver cfg, Rname = soa_MailAddress cfg,
                     Serial = uint32 now, Refresh = uint32 (soa_Refresh cfg),
                     Retry = uint32 (soa_Retry cfg), Expire = uint32 (soa_Expire cfg),
                     Minimum = uint32 (soa_Minimum cfg)\<rparr>;
          r = \<lparr>ID = 0, Zone = zoneName, Name = zoneName, Type = TypeSOA,
               Content = marshal_SOA L soaData, TTL = 86400, Priority = 0\<rparr>
      in case CreateRecord w r of
           (Some err, _, w') \<Rightarrow> (Some (Errorf ''failed to create SOA record'' err), w')
         | (None, _, w') \<Rightarrow> (None, w'))"

definition updateZoneSOASerial ::
  "lib \<Rightarrow> Config \<Rightarrow> int \<Rightarrow> world \<Rightarrow> string \<Rightarrow> error option \<times> world" where
  "updateZoneSOASerial L cfg now w zoneName =
     (case MariaDB_GetRecordsByNameAndType w zoneName zoneName TypeSOA of
        (Inl err, w1) \<Rightarrow> (Some (Errorf ''failed to get SOA record'' err), w1)
      | (Inr [], w1) \<Rightarrow> createDefaultSOARecord L cfg now w1 zoneName
      | (Inr (soaRecord # _), w1) \<Rightarrow>
          (case unmarshal_SOA L (Content soaRecord) of
             None \<Rightarrow> (Some (Errorf ''failed to parse SOA record'' JSONError), w1)
           | Some soaData \<Rightarrow>
               (let soaRecord' =
                      soaRecord\<lparr>Content := marshal_SOA L (soaData\<lparr>Serial := uint32 now\<rparr>)\<rparr>
                in case UpdateRecord w1 soaRecord' of
                     (Some err, w2) \<Rightarrow> (Some (Errorf ''failed to update SOA record'' err), w2)
                   | (None, w2) \<Rightarrow>
                       (case Del w2 [singleCacheKey (Zone soaRecord') (Name soaRecord')
                                       (Type soaRecord')] of
                          (_, w3) \<Rightarrow>
                            (case Del w3 [multiCacheKey (Zone soaRecord') (Name soaRecord')
                                            (Type soaRecord')] of
                               (_, w4) \<Rightarrow> (None, w4))))))"

section \<open>The administrative mutation entry points (api package)\<close>

datatype data = NoData | RecordData Record | MessageData string

record Response =
  status :: nat
  Success :: bool
  Data :: data
  Error :: string

definition responseError :: "nat \<Rightarrow> string \<Rightarrow> Response" where
  "responseError st message = \<lparr>status = st, Success = False, Data = NoData, Error = message\<rparr>"

definition responseJSON :: "nat \<Rightarrow> data \<Rightarrow> Response" where
  "responseJSON st d = \<lparr>status = st, Success = True, Data = d, Error = []\<rparr>"

definition StatusOK :: nat where "StatusOK = 200"
definition StatusCreated :: nat where "StatusCreated = 201"
definition StatusBadRequest :: nat where "StatusBadRequest = 400"
definition StatusNotFound :: nat where "StatusNotFound = 404"
definition StatusInternalServerError :: nat where "StatusInternalServerError = 500"

definition validTTLs :: "int list" where
  "validTTLs = [5, 10, 30, 60, 90, 120, 180, 300, 600, 900, 1800, 3600, 7200, 18000, 43200,
                86400, 172800, 432000, 1296000, 2592000]"

definition invalid_TTL_message :: string where
  "invalid_TTL_message = ''Invalid TTL value. TTL must be one of: 5, 10, 30, 60, 90, 120, 180, 300, 600, 900, 1800, 3600, 7200, 18000, 43200, 86400, 172800, 432000, 1296000, 2592000 seconds''"

text \<open>The three steps after the store write: the serial update unless the record is an
  SOA record, on a failure a warning.\<close>

definition bump_unless_SOA ::
  "lib \<Rightarrow> Config \<Rightarrow> int \<Rightarrow> world \<Rightarrow> string \<Rightarrow> Record \<Rightarrow> world" where
  "bump_unless_SOA L cfg now w zoneName r =
     (if Type r \<noteq> TypeSOA then
        (case updateZoneSOASerial L cfg now w zoneName of
           (e, w') \<Rightarrow> warn_if ''Failed to update SOA serial'' e w')
      else w)"

definition invalidate_and_publish :: "lib \<Rightarrow> world \<Rightarrow> Record \<Rightarrow> world" where
  "invalidate_and_publish L w r =
     (case Del w [singleCacheKey (Zone r) (Name r) (Type r)] of
        (_, w1) \<Rightarrow>
          (case Del w1 [multiCacheKey (Zone r) (Name r) (Type r)] of
             (_, w2) \<Rightarrow>
               (case PublishRecordUpdate L w2 r of
                  (e, w3) \<Rightarrow> warn_if ''Failed to publish record update'' e w3)))"

text \<open>
  \<open>body\<close> is what the JSON decoder makes of the request body: \<open>None\<close> when it returns
  an error, and otherwise the decoded value, a missing field being the zero value.
\<close>

text \<open>The block "Handle @ symbol for root domain" of \<open>createRecordHandler\<close>.\<close>

definition qualify_name :: "string \<Rightarrow> Record \<Rightarrow> Record" where
  "qualify_name zoneName r =
     (if Name r = ''@'' then r\<lparr>Name := zoneName\<rparr>
      else if CHR ''.'' \<notin> set (Name r) then r\<lparr>Name := Name r @ ''.'' @ zoneName\<rparr>
      else r)"

text \<open>The block "Set default TTL if not provided" of \<open>createRecordHandler\<close>, for a
  TTL that is not rejected.\<close>

definition default_TTL :: "Record \<Rightarrow> Record" where
  "default_TTL r = (if TTL r \<le> 0 then r\<lparr>TTL := 120\<rparr> else r)"

text \<open>The loop \<open>for _, ttl := range validTTLs\<close> of both handlers.\<close>

definition isValid :: "int \<Rightarrow> bool" where
  "isValid ttl \<longleftrightarrow> ttl \<in> set validTTLs"

definition createRecordHandler ::
  "lib \<Rightarrow> Config \<Rightarrow> int \<Rightarrow> world \<Rightarrow> string \<Rightarrow> Record option \<Rightarrow> Response \<times> world" where
  "createRecordHandler L cfg now w zoneName body =
     (case GetZone w zoneName of
        (Inl err, w1) \<Rightarrow>
          (responseError StatusInternalServerError ''Failed to check for zone'',
           logf (Errorf_log ''Error checking for zone'' err) w1)
      | (Inr None, w1) \<Rightarrow> (responseError StatusNotFound ''Zone not found'', w1)
      | (Inr (Some zone), w1) \<Rightarrow>
          (case body of
             None \<Rightarrow> (responseError StatusBadRequest ''Invalid request body'', w1)
           | Some decoded \<Rightarrow>
               if Name decoded = [] then
                 (responseError StatusBadRequest ''Record name is required'', w1)
               else
                 (let r1 = qualify_name zoneName (decoded\<lparr>Zone := zoneName\<rparr>) in
                  if Type r1 = [] then
                    (responseError StatusBadRequest ''Record type is required'', w1)
                  else if Content r1 = [] then
                    (responseError StatusBadRequest ''Record content is required'', w1)
                  else if 0 < TTL r1 \<and> \<not> isValid (TTL r1) then
                    (responseError StatusBadRequest invalid_TTL_message, w1)
                  else
                    (case CreateRecord w1 (default_TTL r1) of
                       (Some err, _, w2) \<Rightarrow>
                         (responseError StatusInternalServerError ''Failed to create record'',
                          logf (Errorf_log ''Error creating record'' err) w2)
                     | (None, r3, w2) \<Rightarrow>
                         (case PublishRecordUpdate L
                                 (bump_unless_SOA L cfg now w2 zoneName r3) r3 of
                            (e, w4) \<Rightarrow>
                              (responseJSON StatusCreated (RecordData r3),
                               warn_if ''Failed to publish record update'' e w4))))))"

record updateData =
  upd_Name :: string
  upd_Content :: string
  upd_TTL :: int
  upd_Priority :: int

text \<open>\<open>recordID\<close> is the result of \<open>strconv.ParseInt\<close> on the id of the path:
  \<open>None\<close> when it returns an error.\<close>

text \<open>The block "Update record fields" of \<open>updateRecordHandler\<close>, once the requested
  TTL has passed the check.\<close>

definition apply_update :: "updateData \<Rightarrow> Record \<Rightarrow> Record" where
  "apply_update upd r =
     (let r1 = (if upd_Content upd \<noteq> [] then r\<lparr>Content := upd_Content upd\<rparr> else r);
          r2 = (if 0 < upd_TTL upd then r1\<lparr>TTL := upd_TTL upd\<rparr> else r1)
      in r2\<lparr>Priority := upd_Priority upd\<rparr>)"

definition updateRecordHandler ::
  "lib \<Rightarrow> Config \<Rightarrow> int \<Rightarrow> world \<Rightarrow> string \<Rightarrow> int option \<Rightarrow> updateData option
     \<Rightarrow> Response \<times> world" where
  "updateRecordHandler L cfg now w zoneName recordID body =
     (case recordID of
        None \<Rightarrow> (responseError StatusBadRequest ''Invalid record ID'', w)
      | Some i \<Rightarrow>
     (case GetZone w zoneName of
        (Inl err, w1) \<Rightarrow>
          (responseError StatusInternalServerError ''Failed to check for zone'',
           logf (Errorf_log ''Error checking for zone'' err) w1)
      | (Inr None, w1) \<Rightarrow> (responseError StatusNotFound ''Zone not found'', w1)
      | (Inr (Some zone), w1) \<Rightarrow>
     (case body of
        None \<Rightarrow> (responseError StatusBadRequest ''Invalid request body'', w1)
      | Some upd \<Rightarrow>
     (case GetRecordByID w1 i of
        (Inl err, w2) \<Rightarrow>
          (responseError StatusInternalServerError ''Failed to get record'',
           logf (Errorf_log ''Error getting record'' err) w2)
      | (Inr None, w2) \<Rightarrow> (responseError StatusNotFound ''Record not found'', w2)
      | (Inr (Some r0), w2) \<Rightarrow>
          if Zone r0 \<noteq> zoneName then
            (responseError StatusBadRequest ''Record does not belong to the specified zone'', w2)
          else if 0 < upd_TTL upd \<and> \<not> isValid (upd_TTL upd) then
            (responseError StatusBadRequest invalid_TTL_message, w2)
          else
            (case UpdateRecord w2 (apply_update upd r0) of
               (Some err, w3) \<Rightarrow>
                 (responseError StatusInternalServerError ''Failed to update record'',
                  logf (Errorf_log ''Error updating record'' err) w3)
             | (None, w3) \<Rightarrow>
                 (responseJSON StatusOK (RecordData (apply_update upd r0)),
                  invalidate_and_publish L
                    (bump_unless_SOA L cfg now w3 zoneName (apply_update upd r0))
                    (apply_update upd r0)))))))"

definition deleteRecordHandler ::
  "lib \<Rightarrow> Config \<Rightarrow> int \<Rightarrow> world \<Rightarrow> string \<Rightarrow> int option \<Rightarrow> Response \<times> world" where
  "deleteRecordHandler L cfg now w zoneName recordID =
     (case recordID of
        None \<Rightarrow> (responseError StatusBadRequest ''Invalid record ID'', w)
      | Some i \<Rightarrow>
     (case GetZone w zoneName of
        (Inl err, w1) \<Rightarrow>
          (responseError StatusInternalServerError ''Failed to check for zone'',
           logf (Errorf_log ''Error checking for zone'' err) w1)
      | (Inr None, w1) \<Rightarrow> (responseError StatusNotFound ''Zone not found'', w1)
      | (Inr (Some zone), w1) \<Rightarrow>
     (case GetRecordByID w1 i of
        (Inl err, w2) \<Rightarrow>
          (responseError StatusInternalServerError ''Failed to get record'',
           logf (Errorf_log ''Error getting record'' err) w2)
      | (Inr None, w2) \<Rightarrow> (responseError StatusNotFound ''Record not found'', w2)
      | (Inr (Some r), w2) \<Rightarrow>
          (case DeleteRecord w2 i of
             (Some err, w3) \<Rightarrow>
               (responseError StatusInternalServerError ''Failed to delete record'',
                logf (Errorf_log ''Error deleting record'' err) w3)
           | (None, w3) \<Rightarrow>
               (responseJSON StatusOK (MessageData ''Record deleted successfully''),
                invalidate_and_publish L (bump_unless_SOA L cfg now w3 zoneName r) r)))))"

section \<open>Observations used in the statements\<close>

text \<open>What the two cache reads of \<open>handleQuery\<close> yield: the decoded record set, empty on
  a miss, a failure or an undecodable entry; the decoded single record, if any.\<close>

definition cached_set :: "lib \<Rightarrow> world \<Rightarrow> string \<Rightarrow> string \<Rightarrow> RecordType \<Rightarrow> Record list" where
  "cached_set L w zone name recordType =
     (case fst (Redis_GetRecordsByNameAndType L w zone name recordType) of
        Inl _ \<Rightarrow> [] | Inr rs \<Rightarrow> rs)"

definition cached_single :: "lib \<Rightarrow> world \<Rightarrow> string \<Rightarrow> string \<Rightarrow> RecordType \<Rightarrow> Record option" where
  "cached_single L w zone name recordType =
     (case fst (Redis_GetRecord L w zone name recordType) of Inl _ \<Rightarrow> None | Inr x \<Rightarrow> x)"

text \<open>The name, as stored, of the first zone row that the server holds equal to a given
  name: what \<open>GetZone\<close> returns in \<open>zone.Name\<close>.\<close>

definition stored_zone :: "world \<Rightarrow> string \<Rightarrow> string" where
  "stored_zone w name =
     (case find (\<lambda>z. collation w (zone_Name z) name) (zones w) of
        None \<Rightarrow> [] | Some z \<Rightarrow> zone_Name z)"

text \<open>The store's rows for a zone, name and type.\<close>

definition stored_set :: "world \<Rightarrow> string \<Rightarrow> string \<Rightarrow> RecordType \<Rightarrow> Record list" where
  "stored_set w zone name recordType =
     filter (matches (collation w) zone name recordType) (records w)"

text \<open>The answers \<open>addAnswerFromRecord\<close> builds for a list of records, a record it fails
  on contributing none.\<close>

definition answers_of :: "lib \<Rightarrow> Question \<Rightarrow> Record list \<Rightarrow> RR list" where
  "answers_of L q rs =
     concat (map (\<lambda>r. case rr_of_record L r q of Inl _ \<Rightarrow> [] | Inr rr \<Rightarrow> [rr]) rs)"

text \<open>The record \<open>createDefaultSOARecord\<close> hands to the store, and the serial a reader
  finds in a zone's first SOA record.\<close>

definition default_SOA :: "lib \<Rightarrow> Config \<Rightarrow> int \<Rightarrow> string \<Rightarrow> Record" where
  "default_SOA L cfg now zoneName =
     \<lparr>ID = 0, Zone = zoneName, Name = zoneName, Type = TypeSOA,
      Content = marshal_SOA L
        \<lparr>Mname = soa_PrimaryNameserver cfg, Rname = soa_MailAddress cfg, Serial = uint32 now,
         Refresh = uint32 (soa_Refresh cfg), Retry = uint32 (soa_Retry cfg),
         Expire = uint32 (soa_Expire cfg), Minimum = uint32 (soa_Minimum cfg)\<rparr>,
      TTL = 86400, Priority = 0\<rparr>"

definition soa_serial :: "lib \<Rightarrow> world \<Rightarrow> string \<Rightarrow> int option" where
  "soa_serial L w zoneName =
     (case stored_set w zoneName zoneName TypeSOA of
        [] \<Rightarrow> None
      | r # _ \<Rightarrow> map_option Serial (unmarshal_SOA L (Content r)))"

text \<open>Row ids are unique and below the next auto-increment id.\<close>

definition wf_store :: "world \<Rightarrow> bool" where
  "wf_store w \<longleftrightarrow> distinct (map ID (records w)) \<and> list_all (\<lambda>r. ID r < next_id w) (records w)"

section \<open>Example data\<close>

text \<open>The comparison of a case-insensitive collation on names of ASCII letters, digits, dots
  and hyphens: equality after folding the letters \<open>A\<close> to \<open>Z\<close> to lower case.\<close>

definition fold_case :: "char \<Rightarrow> char" where
  "fold_case c =
     (case map_of (zip ''ABCDEFGHIJKLMNOPQRSTUVWXYZ'' ''abcdefghijklmnopqrstuvwxyz'') c of
        None \<Rightarrow> c | Some d \<Rightarrow> d)"

definition general_ci :: "string \<Rightarrow> string \<Rightarrow> bool" where
  "general_ci a b \<longleftrightarrow> map fold_case a = map fold_case b"

definition no_faults :: "op \<Rightarrow> bool" where
  "no_faults c = False"

definition zero_stats :: DNSStats where
  "zero_stats = \<lparr>Queries = 0, CacheHits = 0, CacheMisses = 0, NXDomain = 0, ServerFailure = 0\<rparr>"

definition two_zones :: world where
  "two_zones =
     \<lparr>collation = general_ci,
      zones = [\<lparr>zone_ID = 1, zone_Name = ''example.com''\<rparr>,
               \<lparr>zone_ID = 2, zone_Name = ''sub.example.com''\<rparr>],
      records = [], next_id = 1, kv = Map.empty, fails = no_faults, trace = [], logs = [],
      stats = zero_stats\<rparr>"

definition www_a :: Record where
  "www_a = \<lparr>ID = 1, Zone = ''example.com'', Name = ''www.example.com'', Type = ''A'',
            Content = ''192.0.2.1'', TTL = 3600, Priority = 0\<rparr>"

definition legacy_hinfo :: Record where
  "legacy_hinfo = \<lparr>ID = 9, Zone = ''example.com'', Name = ''legacy.example.com'',
                   Type = ''HINFO'', Content = ''PDP-11 UNIX'', TTL = 300, Priority = 0\<rparr>"

definition demo_soa :: "int \<Rightarrow> SOARecord" where
  "demo_soa n = \<lparr>Mname = ''ns1.example.com'', Rname = ''hostmaster.example.com'', Serial = n,
                 Refresh = 7200, Retry = 3600, Expire = 1209600, Minimum = 180\<rparr>"

definition demo_cfg :: Config where
  "demo_cfg = \<lparr>soa_PrimaryNameserver = ''ns1.example.com'',
               soa_MailAddress = ''hostmaster.example.com'', soa_Refresh = 7200,
               soa_Retry = 3600, soa_Expire = 1209600, soa_Minimum = 180, redis_cache_TTL = 5\<rparr>"

definition demo_lib :: lib where
  "demo_lib =
     \<lparr>TypeToString = (\<lambda>n. if n = 1 then ''A'' else if n = 6 then ''SOA''
                           else if n = 13 then ''HINFO'' else []),
      ParseIP = (\<lambda>s. if s = ''192.0.2.1'' then [192, 0, 2, 1]
                      else if s = ''192.0.2.2'' then [192, 0, 2, 2] else []),
      Fqdn = (\<lambda>s. if s \<noteq> [] \<and> last s = CHR ''.'' then s else s @ ''.''),
      unmarshal_Record = (\<lambda>s. if s = ''record:www.example.com'' then Some www_a
                               else if s = ''record:legacy.example.com'' then Some legacy_hinfo
                               else None),
      unmarshal_Records = (\<lambda>s. if s = ''records:www.example.com'' then Some [www_a] else None),
      unmarshal_SOA = (\<lambda>s. if s = ''soa:5'' then Some (demo_soa 5)
                            else if s = ''soa:7'' then Some (demo_soa 7)
                            else if s = ''soa:8'' then Some (demo_soa 8) else None),
      unmarshal_SRV = (\<lambda>s. None),
      unmarshal_CAA = (\<lambda>s. None),
      marshal_Record = (\<lambda>r. ''record:'' @ Name r),
      marshal_Records = (\<lambda>rs. ''records:'' @ concat (map Name rs)),
      marshal_SOA = (\<lambda>s. if Serial s = 5 then ''soa:5'' else if Serial s = 7 then ''soa:7''
                          else if Serial s = 8 then ''soa:8'' else ''soa:other'')\<rparr>"

definition one_zone :: world where
  "one_zone =
     \<lparr>collation = general_ci,
      zones = [\<lparr>zone_ID = 1, zone_Name = ''example.com''\<rparr>],
      records = [www_a], next_id = 2, kv = Map.empty, fails = no_faults, trace = [], logs = [],
      stats = zero_stats\<rparr>"

definition warm_cache :: world where
  "warm_cache =
     one_zone\<lparr>kv := [''dns:records:example.com:www.example.com:A''
                        \<mapsto> (''records:www.example.com'', 5000000000),
                      ''dns:record:example.com:www.example.com:A''
                        \<mapsto> (''record:www.example.com'', 5000000000)]\<rparr>"

definition new_record :: "int \<Rightarrow> Record" where
  "new_record ttl = \<lparr>ID = 0, Zone = [], Name = ''mail'', Type = ''A'', Content = ''192.0.2.2'',
                     TTL = ttl, Priority = 0\<rparr>"

definition new_ttl :: "int \<Rightarrow> updateData" where
  "new_ttl ttl = \<lparr>upd_Name = [], upd_Content = [], upd_TTL = ttl, upd_Priority = 0\<rparr>"

definition q_www :: Question where
  "q_www = \<lparr>q_Name = ''www.example.com.'', Qtype = 1, Qclass = 1\<rparr>"

definition q_WWW :: Question where
  "q_WWW = \<lparr>q_Name = ''WWW.example.com.'', Qtype = 1, Qclass = 1\<rparr>"

definition q_mail :: Question where
  "q_mail = \<lparr>q_Name = ''mail.example.com.'', Qtype = 1, Qclass = 1\<rparr>"

definition reply :: Msg where
  "reply = \<lparr>Questions = [], Answer = [], Rcode = 0, Authoritative = True\<rparr>"

definition legacy_cache :: world where
  "legacy_cache =
     one_zone\<lparr>kv := [''dns:record:example.com:www.example.com:A''
                        \<mapsto> (''record:www.example.com'', 5000000000)]\<rparr>"

definition www_answer :: RR where
  "www_answer = dns_A \<lparr>hdr_Name = ''www.example.com.'', Rrtype = 1, Class = 1, Ttl = 3600\<rparr>
                  [192, 0, 2, 1]"

definition WWW_answer :: RR where
  "WWW_answer = dns_A \<lparr>hdr_Name = ''WWW.example.com.'', Rrtype = 1, Class = 1, Ttl = 3600\<rparr>
                  [192, 0, 2, 1]"

definition soa_rec :: Record where
  "soa_rec = \<lparr>ID = 2, Zone = ''example.com'', Name = ''example.com'', Type = ''SOA'',
              Content = ''soa:5'', TTL = 86400, Priority = 0\<rparr>"

definition soa_zone :: world where
  "soa_zone = one_zone\<lparr>records := [www_a, soa_rec], next_id := 3\<rparr>"

definition shared_store :: world where
  "shared_store = two_zones\<lparr>records := [www_a, soa_rec], next_id := 3\<rparr>"

definition new_soa :: Record where
  "new_soa = \<lparr>ID = 0, Zone = [], Name = ''@'', Type = ''SOA'', Content = ''soa:5'', TTL = 0,
              Priority = 0\<rparr>"

definition first_create :: world where
  "first_create =
     snd (createRecordHandler demo_lib demo_cfg 7 soa_zone ''example.com'' (Some (new_record 0)))"

definition second_www :: Record where
  "second_www = \<lparr>ID = 0, Zone = [], Name = ''www'', Type = ''A'', Content = ''192.0.2.2'',
                 TTL = 300, Priority = 0\<rparr>"

definition after_create :: world where
  "after_create =
     snd (createRecordHandler demo_lib demo_cfg 7 warm_cache ''example.com'' (Some second_www))"

definition store_down :: world where
  "store_down = one_zone\<lparr>fails := is_db_op\<rparr>"

definition records_down :: world where
  "records_down =
     one_zone\<lparr>fails := (\<lambda>c. c = DbGetRecordsByNameAndType ''example.com'' ''www.example.com'' ''A'')\<rparr>"

definition cache_down :: world where
  "cache_down = one_zone\<lparr>fails := (\<lambda>c. \<not> is_db_op c)\<rparr>"

definition soa_bad :: Record where
  "soa_bad = \<lparr>ID = 3, Zone = ''example.com'', Name = ''example.com'', Type = ''SOA'',
              Content = ''not json'', TTL = 86400, Priority = 0\<rparr>"

definition mixed_soa :: world where
  "mixed_soa = one_zone\<lparr>records := [www_a, soa_bad, soa_rec], next_id := 4\<rparr>"

definition legacy_single :: world where
  "legacy_single =
     warm_cache\<lparr>kv := (kv warm_cache)(''dns:record:example.com:legacy.example.com:HINFO''
                        \<mapsto> (''record:legacy.example.com'', 5000000000))\<rparr>"




definition request :: "Question list \<Rightarrow> Msg" where
  "request qs = \<lparr>Questions = qs, Answer = [], Rcode = RcodeSuccess, Authoritative = False\<rparr>"

section \<open>Basic facts about the world\<close>

lemma issue_fields [simp]:
  "collation (issue c w) = collation w"
  "zones (issue c w) = zones w" "fails (issue c w) = fails w" "records (issue c w) = records w"
  "kv (issue c w) = kv w" "trace (issue c w) = trace w @ [c]" "logs (issue c w) = logs w"
  "stats (issue c w) = stats w" "next_id (issue c w) = next_id w"
  by (simp_all add: issue_def)

lemma logf_fields [simp]:
  "collation (logf e w) = collation w"
  "zones (logf e w) = zones w" "fails (logf e w) = fails w" "records (logf e w) = records w"
  "kv (logf e w) = kv w" "trace (logf e w) = trace w" "logs (logf e w) = logs w @ [e]"
  "stats (logf e w) = stats w" "next_id (logf e w) = next_id w"
  by (simp_all add: logf_def)

lemma warn_if_fields [simp]:
  "collation (warn_if s e w) = collation w"
  "zones (warn_if s e w) = zones w" "fails (warn_if s e w) = fails w"
  "records (warn_if s e w) = records w" "kv (warn_if s e w) = kv w"
  "trace (warn_if s e w) = trace w" "stats (warn_if s e w) = stats w"
  "next_id (warn_if s e w) = next_id w"
  by (simp_all add: warn_if_def split: option.splits)

lemma find_SomeD: "find P xs = Some x \<Longrightarrow> P x \<and> x \<in> set xs"
  by (induction xs) (auto split: if_splits)

text \<open>The example collation, evaluated.\<close>

lemma fold_case_simps [simp]:
  "fold_case (CHR ''a'') = CHR ''a''" "fold_case (CHR ''b'') = CHR ''b''"
  "fold_case (CHR ''c'') = CHR ''c''" "fold_case (CHR ''d'') = CHR ''d''"
  "fold_case (CHR ''e'') = CHR ''e''" "fold_case (CHR ''f'') = CHR ''f''"
  "fold_case (CHR ''g'') = CHR ''g''" "fold_case (CHR ''h'') = CHR ''h''"
  "fold_case (CHR ''i'') = CHR ''i''" "fold_case (CHR ''j'') = CHR ''j''"
  "fold_case (CHR ''k'') = CHR ''k''" "fold_case (CHR ''l'') = CHR ''l''"
  "fold_case (CHR ''m'') = CHR ''m''" "fold_case (CHR ''n'') = CHR ''n''"
  "fold_case (CHR ''o'') = CHR ''o''" "fold_case (CHR ''p'') = CHR ''p''"
  "fold_case (CHR ''q'') = CHR ''q''" "fold_case (CHR ''r'') = CHR ''r''"
  "fold_case (CHR ''s'') = CHR ''s''" "fold_case (CHR ''t'') = CHR ''t''"
  "fold_case (CHR ''u'') = CHR ''u''" "fold_case (CHR ''v'') = CHR ''v''"
  "fold_case (CHR ''w'') = CHR ''w''" "fold_case (CHR ''x'') = CHR ''x''"
  "fold_case (CHR ''y'') = CHR ''y''" "fold_case (CHR ''z'') = CHR ''z''"
  "fold_case (CHR ''0'') = CHR ''0''" "fold_case (CHR ''1'') = CHR ''1''"
  "fold_case (CHR ''2'') = CHR ''2''" "fold_case (CHR ''3'') = CHR ''3''"
  "fold_case (CHR ''4'') = CHR ''4''" "fold_case (CHR ''5'') = CHR ''5''"
  "fold_case (CHR ''6'') = CHR ''6''" "fold_case (CHR ''7'') = CHR ''7''"
  "fold_case (CHR ''8'') = CHR ''8''" "fold_case (CHR ''9'') = CHR ''9''"
  "fold_case (CHR ''.'') = CHR ''.''" "fold_case (CHR ''-'') = CHR ''-''"
  "fold_case (CHR ''@'') = CHR ''@''" "fold_case (CHR '':'') = CHR '':''"
  "fold_case (CHR ''_'') = CHR ''_''" "fold_case (CHR '' '') = CHR '' ''"
  "fold_case (CHR ''A'') = CHR ''a''" "fold_case (CHR ''B'') = CHR ''b''"
  "fold_case (CHR ''C'') = CHR ''c''" "fold_case (CHR ''D'') = CHR ''d''"
  "fold_case (CHR ''E'') = CHR ''e''" "fold_case (CHR ''F'') = CHR ''f''"
  "fold_case (CHR ''G'') = CHR ''g''" "fold_case (CHR ''H'') = CHR ''h''"
  "fold_case (CHR ''I'') = CHR ''i''" "fold_case (CHR ''J'') = CHR ''j''"
  "fold_case (CHR ''K'') = CHR ''k''" "fold_case (CHR ''L'') = CHR ''l''"
  "fold_case (CHR ''M'') = CHR ''m''" "fold_case (CHR ''N'') = CHR ''n''"
  "fold_case (CHR ''O'') = CHR ''o''" "fold_case (CHR ''P'') = CHR ''p''"
  "fold_case (CHR ''Q'') = CHR ''q''" "fold_case (CHR ''R'') = CHR ''r''"
  "fold_case (CHR ''S'') = CHR ''s''" "fold_case (CHR ''T'') = CHR ''t''"
  "fold_case (CHR ''U'') = CHR ''u''" "fold_case (CHR ''V'') = CHR ''v''"
  "fold_case (CHR ''W'') = CHR ''w''" "fold_case (CHR ''X'') = CHR ''x''"
  "fold_case (CHR ''Y'') = CHR ''y''" "fold_case (CHR ''Z'') = CHR ''z''"
  by (simp_all add: fold_case_def)

lemma general_ci_refl [simp]: "general_ci a a"
  by (simp add: general_ci_def)

lemma general_ci_length: "general_ci a b \<Longrightarrow> length a = length b"
  unfolding general_ci_def by (rule map_eq_imp_length_eq)


section \<open>The zone resolver\<close>

lemma Split_nonempty: "Split s c \<noteq> []"
  by (induction s) (auto split: list.splits)

lemma Join_Split: "Join (Split s c) c = s"
proof (induction s)
  case Nil
  show ?case by simp
next
  case (Cons x xs)
  show ?case
  proof (cases "x = c")
    case True
    then show ?thesis using Cons Split_nonempty[of xs c]
      by (cases "Split xs c") auto
  next
    case False
    then show ?thesis using Cons Split_nonempty[of xs c]
      by (cases "Split xs c"; cases "tl (Split xs c)") auto
  qed
qed

lemma zone_exists_issue [simp]: "zone_exists (issue c w) = zone_exists w"
  by (simp add: zone_exists_def fun_eq_iff)

lemma find_zone_None:
  "find (\<lambda>z. collation w (zone_Name z) n) (zones w) = None \<longleftrightarrow> \<not> zone_exists w n"
  by (auto simp: find_None_iff zone_exists_def)

lemma find_zone_Some:
  "find (\<lambda>z. collation w (zone_Name z) n) (zones w) = Some z \<Longrightarrow>
   collation w (zone_Name z) n \<and> z \<in> set (zones w) \<and> zone_exists w n"
  by (auto simp: zone_exists_def dest: find_SomeD)

lemma stored_zone_issue [simp]: "stored_zone (issue c w) = stored_zone w"
  by (simp add: stored_zone_def fun_eq_iff)

lemma stored_zone_exists:
  "zone_exists w c \<Longrightarrow> collation w (stored_zone w c) c \<and> stored_zone w c \<in> zone_Name ` set (zones w)"
proof -
  assume "zone_exists w c"
  then obtain z where z: "find (\<lambda>z. collation w (zone_Name z) c) (zones w) = Some z"
    using find_zone_None[of w c] by (cases "find (\<lambda>z. collation w (zone_Name z) c) (zones w)") auto
  from find_zone_Some[OF z] show ?thesis by (simp add: stored_zone_def z)
qed

lemma findZone_from_first_match:
  "\<forall>c \<in> set (candidates_from ps). \<not> fails w (DbGetZone c) \<Longrightarrow>
   fst (findZone_from w ps) =
     Inr (case find (zone_exists w) (candidates_from ps) of
            None \<Rightarrow> [] | Some c \<Rightarrow> stored_zone w c)"
proof (induction ps arbitrary: w)
  case Nil
  then show ?case by simp
next
  case (Cons p ps)
  let ?c = "Join (p # ps) (CHR ''.'')"
  show ?case
  proof (cases "find (\<lambda>z. collation w (zone_Name z) ?c) (zones w)")
    case None
    then have "\<not> zone_exists w ?c" by (simp add: find_zone_None)
    then show ?thesis
      using Cons.prems None Cons.IH[of "issue (DbGetZone ?c) w"]
      by (simp add: GetZone_def cong: option.case_cong)
  next
    case (Some z)
    then show ?thesis
      using Cons.prems find_zone_Some[OF Some] by (simp add: GetZone_def stored_zone_def)
  qed
qed

lemma candidates_from_suffix:
  "c \<in> set (candidates_from ps) \<Longrightarrow> suffix c (Join ps (CHR ''.''))"
proof (induction ps)
  case Nil
  then show ?case by simp
next
  case (Cons p ps)
  show ?case
  proof (cases ps)
    case Nil
    with Cons.prems show ?thesis by simp
  next
    case (Cons q qs)
    have "suffix (Join ps (CHR ''.'')) (Join (p # ps) (CHR ''.''))"
      using Cons by (simp add: suffix_def)
    then show ?thesis
      using Cons.prems Cons.IH by (auto intro: suffix_order.trans)
  qed
qed

lemma candidates_from_decreasing:
  "sorted_wrt (\<lambda>a b. length b < length a) (candidates_from ps)"
proof (induction ps)
  case Nil
  show ?case by simp
next
  case (Cons p ps)
  have "length c < length (Join (p # ps) (CHR ''.''))" if "c \<in> set (candidates_from ps)" for c
  proof (cases ps)
    case Nil
    with that show ?thesis by simp
  next
    case (Cons q qs)
    have "length c \<le> length (Join ps (CHR ''.''))"
      using candidates_from_suffix[OF that] by (rule suffix_length_le)
    then show ?thesis using Cons by simp
  qed
  then show ?case using Cons by simp
qed

lemma candidates_from_drop:
  "candidates_from ps = map (\<lambda>i. Join (drop i ps) (CHR ''.'')) [0..<length ps]"
proof (induction ps)
  case Nil
  show ?case by simp
next
  case (Cons p ps)
  have "[0..<length (p # ps)] = 0 # map Suc [0..<length ps]"
    by (simp add: upt_conv_Cons map_Suc_upt del: upt_Suc)
  then show ?case using Cons by (simp add: comp_def del: upt_Suc)
qed

lemma candidates_head: "\<exists>cs. candidates name = name # cs"
  using Split_nonempty[of name "CHR ''.''"] Join_Split[of name "CHR ''.''"]
  by (cases "Split name (CHR ''.'')") (auto simp: candidates_def)

lemma candidates_suffix: "c \<in> set (candidates name) \<Longrightarrow> suffix c name"
  using candidates_from_suffix[of c "Split name (CHR ''.'')"]
  by (simp add: candidates_def Join_Split)

lemma find_first_longest:
  "sorted_wrt (\<lambda>a b. length b < length a) cs \<Longrightarrow> find P cs = Some z \<Longrightarrow> c \<in> set cs \<Longrightarrow>
   P c \<Longrightarrow> length c \<le> length z"
  by (induction cs) (auto split: if_splits)

text \<open>
  C3. The candidates of a query name are the joined suffixes \<open>parts[i:]\<close> of its
  dot-separated labels, the full name first, each a proper shortening of the one before.
  When no probe fails, \<open>findZone\<close> returns the zone found for the first candidate that the
  store holds equal to the name of a stored zone, under the name the zone is stored with;
  that candidate is the longest among the candidates with a stored zone. It returns the empty
  string, without an error, when no candidate has a stored zone.
\<close>

theorem findZone_longest_suffix_match:
  assumes up: "\<forall>c \<in> set (candidates name). \<not> fails w (DbGetZone c)"
  shows "candidates name =
           map (\<lambda>i. Join (drop i (Split name (CHR ''.''))) (CHR ''.''))
             [0..<length (Split name (CHR ''.''))]
         \<and> (\<exists>cs. candidates name = name # cs)
         \<and> (\<forall>c \<in> set (candidates name). suffix c name)
         \<and> sorted_wrt (\<lambda>a b. length b < length a) (candidates name)
         \<and> (\<exists>z. fst (findZone w name) = Inr z
              \<and> z = (case find (zone_exists w) (candidates name) of
                       None \<Rightarrow> [] | Some c \<Rightarrow> stored_zone w c)
              \<and> ((\<forall>c \<in> set (candidates name). \<not> zone_exists w c) \<longrightarrow> z = [])
              \<and> (\<forall>c \<in> set (candidates name). zone_exists w c \<longrightarrow>
                    z \<in> zone_Name ` set (zones w)
                    \<and> (\<exists>c0 \<in> set (candidates name).
                          collation w z c0 \<and> length c \<le> length c0)))"
proof -
  let ?cs = "candidates name"
  let ?z = "case find (zone_exists w) ?cs of None \<Rightarrow> [] | Some c \<Rightarrow> stored_zone w c"
  have sorted: "sorted_wrt (\<lambda>a b. length b < length a) ?cs"
    by (simp add: candidates_def candidates_from_decreasing)
  have res: "fst (findZone w name) = Inr ?z"
    using up by (simp add: findZone_def candidates_def findZone_from_first_match)
  have none: "?z = []" if "\<forall>c \<in> set ?cs. \<not> zone_exists w c"
    using that by (simp add: find_None_iff[THEN iffD2])
  have some: "?z \<in> zone_Name ` set (zones w)
              \<and> (\<exists>c0 \<in> set ?cs. collation w ?z c0 \<and> length c \<le> length c0)"
    if "c \<in> set ?cs" "zone_exists w c" for c
  proof (cases "find (zone_exists w) ?cs")
    case None
    with that show ?thesis by (auto simp: find_None_iff)
  next
    case (Some c0)
    have c0: "zone_exists w c0" "c0 \<in> set ?cs" using find_SomeD[OF Some] by simp_all
    have "length c \<le> length c0" by (rule find_first_longest[OF sorted Some that])
    then show ?thesis
      using stored_zone_exists[OF c0(1)] c0(2) by (auto simp add: Some)
  qed
  have "candidates name =
          map (\<lambda>i. Join (drop i (Split name (CHR ''.''))) (CHR ''.''))
            [0..<length (Split name (CHR ''.''))]"
    by (simp add: candidates_def candidates_from_drop)
  moreover have "\<forall>c \<in> set ?cs. suffix c name"
    by (simp add: candidates_suffix)
  ultimately show ?thesis
    using sorted res none some candidates_head[of name] by blast
qed

lemma two_zones_fields [simp]:
  "collation two_zones = general_ci" "\<not> fails two_zones c"
  "zones two_zones = [\<lparr>zone_ID = 1, zone_Name = ''example.com''\<rparr>,
                      \<lparr>zone_ID = 2, zone_Name = ''sub.example.com''\<rparr>]"
  by (simp_all add: two_zones_def no_faults_def)

theorem findZone_longest_suffix_match_witness:
  "list_all (\<lambda>c. \<not> fails two_zones (DbGetZone c)) (candidates ''host.SUB.example.com'')
   \<and> candidates ''host.SUB.example.com'' =
       [''host.SUB.example.com'', ''SUB.example.com'', ''example.com'', ''com'']
   \<and> zone_exists two_zones ''example.com'' \<and> zone_exists two_zones ''SUB.example.com''
   \<and> fst (findZone two_zones ''host.SUB.example.com'') = Inr ''sub.example.com''
   \<and> fst (findZone two_zones ''host.sub.example.com'') = Inr ''sub.example.com''
   \<and> fst (findZone two_zones ''www.example.org'') = Inr []"
proof -
  have cs: "candidates ''host.SUB.example.com'' =
      [''host.SUB.example.com'', ''SUB.example.com'', ''example.com'', ''com'']"
    "candidates ''host.sub.example.com'' =
      [''host.sub.example.com'', ''sub.example.com'', ''example.com'', ''com'']"
    "candidates ''www.example.org'' = [''www.example.org'', ''example.org'', ''org'']"
    by (simp_all add: candidates_def)
  have up: "\<forall>c \<in> set (candidates n). \<not> fails two_zones (DbGetZone c)" for n
    by simp
  have ex: "zone_exists two_zones c \<longleftrightarrow>
              general_ci ''example.com'' c \<or> general_ci ''sub.example.com'' c" for c
    by (simp add: zone_exists_def)
  have st: "stored_zone two_zones ''SUB.example.com'' = ''sub.example.com''"
    "stored_zone two_zones ''sub.example.com'' = ''sub.example.com''"
    by (simp_all add: stored_zone_def general_ci_def)
  show ?thesis
    using findZone_longest_suffix_match[OF up, of "''host.SUB.example.com''"]
          findZone_longest_suffix_match[OF up, of "''host.sub.example.com''"]
          findZone_longest_suffix_match[OF up, of "''www.example.org''"]
          up[of "''host.SUB.example.com''"]
    by (simp add: cs ex st list_all_iff general_ci_def)
qed

section \<open>Primitive operations: result and world\<close>

lemma GetZone_fst: "fst (GetZone w n) =
    (if fails w (DbGetZone n) then Inl StoreUnavailable
     else Inr (find (\<lambda>z. collation w (zone_Name z) n) (zones w)))"
  and GetZone_snd: "snd (GetZone w n) = issue (DbGetZone n) w"
  by (simp_all add: GetZone_def)

lemma GetRecordByID_fst: "fst (GetRecordByID w i) =
    (if fails w (DbGetRecordByID i) then Inl StoreUnavailable
     else Inr (find (\<lambda>r. ID r = i) (records w)))"
  and GetRecordByID_snd: "snd (GetRecordByID w i) = issue (DbGetRecordByID i) w"
  by (simp_all add: GetRecordByID_def)

lemma MariaDB_GetRecord_fst: "fst (MariaDB_GetRecord w z n t) =
    (if fails w (DbGetRecord z n t) then Inl StoreUnavailable
     else Inr (find (matches (collation w) z n t) (records w)))"
  and MariaDB_GetRecord_snd: "snd (MariaDB_GetRecord w z n t) = issue (DbGetRecord z n t) w"
  by (simp_all add: MariaDB_GetRecord_def Let_def)

lemma MariaDB_GetRecordsByNameAndType_fst: "fst (MariaDB_GetRecordsByNameAndType w z n t) =
    (if fails w (DbGetRecordsByNameAndType z n t) then Inl StoreUnavailable
     else Inr (filter (matches (collation w) z n t) (records w)))"
  and MariaDB_GetRecordsByNameAndType_snd:
    "snd (MariaDB_GetRecordsByNameAndType w z n t) = issue (DbGetRecordsByNameAndType z n t) w"
  by (simp_all add: MariaDB_GetRecordsByNameAndType_def Let_def)

lemma CreateRecord_trace [simp]:
  "trace (snd (snd (CreateRecord w r))) = trace w @ [DbCreateRecord r]"
  and CreateRecord_kv [simp]: "kv (snd (snd (CreateRecord w r))) = kv w"
  and CreateRecord_fails [simp]: "fails (snd (snd (CreateRecord w r))) = fails w"
  and CreateRecord_zones [simp]: "zones (snd (snd (CreateRecord w r))) = zones w"
  and CreateRecord_collation [simp]: "collation (snd (snd (CreateRecord w r))) = collation w"
  by (simp_all add: CreateRecord_def)

lemma UpdateRecord_trace [simp]: "trace (snd (UpdateRecord w r)) = trace w @ [DbUpdateRecord r]"
  and UpdateRecord_kv [simp]: "kv (snd (UpdateRecord w r)) = kv w"
  and UpdateRecord_fails [simp]: "fails (snd (UpdateRecord w r)) = fails w"
  and UpdateRecord_zones [simp]: "zones (snd (UpdateRecord w r)) = zones w"
  and UpdateRecord_collation [simp]: "collation (snd (UpdateRecord w r)) = collation w"
  by (simp_all add: UpdateRecord_def)

lemma DeleteRecord_trace [simp]: "trace (snd (DeleteRecord w i)) = trace w @ [DbDeleteRecord i]"
  and DeleteRecord_kv [simp]: "kv (snd (DeleteRecord w i)) = kv w"
  and DeleteRecord_fails [simp]: "fails (snd (DeleteRecord w i)) = fails w"
  and DeleteRecord_zones [simp]: "zones (snd (DeleteRecord w i)) = zones w"
  and DeleteRecord_collation [simp]: "collation (snd (DeleteRecord w i)) = collation w"
  by (simp_all add: DeleteRecord_def)

lemma Del_trace [simp]: "trace (snd (Del w ks)) = trace w @ [RedisDel ks]"
  and Del_records [simp]: "records (snd (Del w ks)) = records w"
  and Del_zones [simp]: "zones (snd (Del w ks)) = zones w"
  and Del_collation [simp]: "collation (snd (Del w ks)) = collation w"
  and Del_fails [simp]: "fails (snd (Del w ks)) = fails w"
  and Del_next_id [simp]: "next_id (snd (Del w ks)) = next_id w"
  and Del_kv: "kv (snd (Del w ks)) =
        (if fails w (RedisDel ks) then kv w else (\<lambda>k. if k \<in> set ks then None else kv w k))"
  by (simp_all add: Del_def)

lemma Set_trace [simp]: "trace (snd (Set w k d e)) = trace w @ [RedisSet k d e]"
  and Set_records [simp]: "records (snd (Set w k d e)) = records w"
  and Set_zones [simp]: "zones (snd (Set w k d e)) = zones w"
  and Set_collation [simp]: "collation (snd (Set w k d e)) = collation w"
  and Set_fails [simp]: "fails (snd (Set w k d e)) = fails w"
  and Set_next_id [simp]: "next_id (snd (Set w k d e)) = next_id w"
  and Set_kv: "kv (snd (Set w k d e)) =
        (if fails w (RedisSet k d e) then kv w else (kv w)(k \<mapsto> (d, e)))"
  by (simp_all add: Set_def)

lemma Get_fst: "fst (Get w k) =
     (if fails w (RedisGet k) then Inl CacheUnavailable
      else case kv w k of None \<Rightarrow> Inl RedisNil | Some (d, _) \<Rightarrow> Inr d)"
  and Get_snd [simp]: "snd (Get w k) = issue (RedisGet k) w"
  by (simp_all add: Get_def split: option.splits)

lemma PublishRecordUpdate_snd [simp]:
  "snd (PublishRecordUpdate L w r) = issue (RedisPublish ''dns:record:update'' (marshal_Record L r)) w"
  by (simp add: PublishRecordUpdate_def Publish_def)

section \<open>Traces only grow\<close>

lemma in_prefix: "x \<in> set t \<Longrightarrow> prefix t t' \<Longrightarrow> x \<in> set t'"
  by (auto simp: prefix_def)

lemma createDefaultSOARecord_trace:
  "trace (snd (createDefaultSOARecord L cfg now w z)) =
     trace w @ [DbCreateRecord \<lparr>ID = 0, Zone = z, Name = z, Type = TypeSOA,
          Content = marshal_SOA L \<lparr>Mname = soa_PrimaryNameserver cfg, Rname = soa_MailAddress cfg,
                     Serial = uint32 now, Refresh = uint32 (soa_Refresh cfg),
                     Retry = uint32 (soa_Retry cfg), Expire = uint32 (soa_Expire cfg),
                     Minimum = uint32 (soa_Minimum cfg)\<rparr>, TTL = 86400, Priority = 0\<rparr>]"
  by (simp add: createDefaultSOARecord_def CreateRecord_def Let_def)

lemma updateZoneSOASerial_trace:
  "\<exists>ops. trace (snd (updateZoneSOASerial L cfg now w z)) =
     trace w @ DbGetRecordsByNameAndType z z TypeSOA # ops"
  unfolding updateZoneSOASerial_def
  by (simp add: case_prod_beta MariaDB_GetRecordsByNameAndType_fst MariaDB_GetRecordsByNameAndType_snd
       createDefaultSOARecord_trace Let_def
      split: sum.splits list.splits option.splits)

lemma bump_unless_SOA_trace:
  "prefix (trace w) (trace (bump_unless_SOA L cfg now w z r))"
  using updateZoneSOASerial_trace[of L cfg now w z]
  by (auto simp add: bump_unless_SOA_def case_prod_beta)

lemma invalidate_and_publish_trace:
  "trace (invalidate_and_publish L w r) = trace w @
     [RedisDel [singleCacheKey (Zone r) (Name r) (Type r)],
      RedisDel [multiCacheKey (Zone r) (Name r) (Type r)],
      RedisPublish ''dns:record:update'' (marshal_Record L r)]"
  by (simp add: invalidate_and_publish_def case_prod_beta)

lemma in_trace_bump [simp]:
  "c \<in> set (trace w) \<Longrightarrow> c \<in> set (trace (bump_unless_SOA L cfg now w z r))"
  by (rule in_prefix[OF _ bump_unless_SOA_trace])

section \<open>TTL validation of the administrative API\<close>

lemma validTTLs_values:
  "length validTTLs = 20 \<and> distinct validTTLs \<and>
   set validTTLs = {5, 10, 30, 60, 90, 120, 180, 300, 600, 900, 1800, 3600, 7200, 18000, 43200,
                86400, 172800, 432000, 1296000, 2592000}"
  by (simp add: validTTLs_def)

lemma qualify_name_fields [simp]:
  "TTL (qualify_name z r) = TTL r" "Type (qualify_name z r) = Type r"
  "Content (qualify_name z r) = Content r" "ID (qualify_name z r) = ID r"
  "Zone (qualify_name z r) = Zone r" "Priority (qualify_name z r) = Priority r"
  by (simp_all add: qualify_name_def)

lemma apply_update_fields [simp]:
  "TTL (apply_update upd r) = (if 0 < upd_TTL upd then upd_TTL upd else TTL r)"
  "Type (apply_update upd r) = Type r" "ID (apply_update upd r) = ID r"
  "Zone (apply_update upd r) = Zone r" "Name (apply_update upd r) = Name r"
  "Priority (apply_update upd r) = upd_Priority upd"
  "Content (apply_update upd r) = (if upd_Content upd \<noteq> [] then upd_Content upd else Content r)"
  by (simp_all add: apply_update_def Let_def)

lemma response_fields [simp]:
  "Success (responseError st msg) = False" "Success (responseJSON st d) = True"
  "status (responseError st msg) = st" "status (responseJSON st d) = st"
  "Data (responseError st msg) = NoData" "Data (responseJSON st d) = d"
  by (simp_all add: responseError_def responseJSON_def)

lemma default_TTL_fields [simp]:
  "TTL (default_TTL r) = (if TTL r \<le> 0 then 120 else TTL r)" "Type (default_TTL r) = Type r"
  "Content (default_TTL r) = Content r" "ID (default_TTL r) = ID r"
  "Zone (default_TTL r) = Zone r" "Priority (default_TTL r) = Priority r"
  "Name (default_TTL r) = Name r"
  by (simp_all add: default_TTL_def)

lemma GetZone_found:
  "\<not> fails w (DbGetZone z) \<Longrightarrow> zone_exists w z \<Longrightarrow>
   \<exists>zn. fst (GetZone w z) = Inr (Some zn)"
  using find_zone_None[of w z] by (auto simp: GetZone_fst)

lemma GetZone_found_iff:
  "(\<exists>zn. fst (GetZone w z) = Inr (Some zn)) \<longleftrightarrow> \<not> fails w (DbGetZone z) \<and> zone_exists w z"
  using find_zone_None[of w z] by (auto simp: GetZone_fst)

lemma CreateRecord_fst:
  "fst (CreateRecord w r) =
     (if fails w (DbCreateRecord r) \<or> \<not> zone_exists w (Zone r) then Some StoreUnavailable else None)"
  by (simp add: CreateRecord_def zone_exists_def)

lemma CreateRecord_result:
  "fst (CreateRecord w r) = None \<Longrightarrow> fst (snd (CreateRecord w r)) = r\<lparr>ID := next_id w\<rparr>"
  by (auto simp add: CreateRecord_def split: if_splits)

lemma CreateRecord_records:
  "records (snd (snd (CreateRecord w r))) =
     (if fst (CreateRecord w r) = None then records w @ [r\<lparr>ID := next_id w\<rparr>] else records w)"
  "next_id (snd (snd (CreateRecord w r))) =
     (if fst (CreateRecord w r) = None then next_id w + 1 else next_id w)"
  by (auto simp add: CreateRecord_def split: if_splits)

text \<open>The record \<open>createRecordHandler\<close> hands to the store.\<close>

lemma createRecordHandler_success_iff:
  "Success (fst (createRecordHandler L cfg now w z (Some r))) \<longleftrightarrow>
     (\<exists>zn. fst (GetZone w z) = Inr (Some zn)) \<and> Name r \<noteq> [] \<and> Type r \<noteq> [] \<and> Content r \<noteq> []
     \<and> (TTL r \<le> 0 \<or> isValid (TTL r))
     \<and> fst (CreateRecord (issue (DbGetZone z) w) (default_TTL (qualify_name z (r\<lparr>Zone := z\<rparr>)))) = None"
  by (auto simp add: createRecordHandler_def case_prod_beta Let_def GetZone_snd
        split: option.splits sum.splits)

lemma createRecordHandler_success:
  assumes "Success (fst (createRecordHandler L cfg now w z (Some r)))"
  defines "r2 \<equiv> default_TTL (qualify_name z (r\<lparr>Zone := z\<rparr>))"
  defines "r3 \<equiv> r2\<lparr>ID := next_id w\<rparr>"
  defines "w2 \<equiv> snd (snd (CreateRecord (issue (DbGetZone z) w) r2))"
  shows "createRecordHandler L cfg now w z (Some r) =
        (responseJSON StatusCreated (RecordData r3),
         warn_if ''Failed to publish record update''
           (fst (PublishRecordUpdate L (bump_unless_SOA L cfg now w2 z r3) r3))
           (issue (RedisPublish ''dns:record:update'' (marshal_Record L r3))
              (bump_unless_SOA L cfg now w2 z r3)))"
proof -
  have c: "(\<exists>zn. fst (GetZone w z) = Inr (Some zn))" "Name r \<noteq> []" "Type r \<noteq> []" "Content r \<noteq> []"
     "TTL r \<le> 0 \<or> isValid (TTL r)"
     and ok: "fst (CreateRecord (issue (DbGetZone z) w) r2) = None"
    using assms(1) unfolding createRecordHandler_success_iff r2_def by blast+
  from c(1) obtain zn where zn: "fst (GetZone w z) = Inr (Some zn)" by blast
  show ?thesis
    using c(2-) zn ok CreateRecord_result[OF ok]
    unfolding createRecordHandler_def r3_def w2_def r2_def
    by (auto simp add: case_prod_beta Let_def GetZone_snd)
qed

lemma create_rejects_bad_TTL:
  assumes "0 < TTL r" "\<not> isValid (TTL r)"
  shows "\<not> Success (fst (createRecordHandler L cfg now w z (Some r)))
       \<and> records (snd (createRecordHandler L cfg now w z (Some r))) = records w
       \<and> zones (snd (createRecordHandler L cfg now w z (Some r))) = zones w
       \<and> next_id (snd (createRecordHandler L cfg now w z (Some r))) = next_id w"
  using assms
  by (simp add: createRecordHandler_def case_prod_beta GetZone_snd Let_def
        split: option.splits sum.splits)

lemma create_bad_TTL_400:
  assumes "0 < TTL r" "\<not> isValid (TTL r)"
    and "zone_exists w z" "\<not> fails w (DbGetZone z)" "Name r \<noteq> []" "Type r \<noteq> []" "Content r \<noteq> []"
  shows "status (fst (createRecordHandler L cfg now w z (Some r))) = StatusBadRequest"
proof -
  obtain zn where "fst (GetZone w z) = Inr (Some zn)"
    using GetZone_found assms by blast
  then show ?thesis using assms
    by (simp add: createRecordHandler_def Let_def case_prod_beta)
qed

lemma create_success_TTL:
  assumes "Success (fst (createRecordHandler L cfg now w z (Some r)))"
  shows "\<exists>r3. Data (fst (createRecordHandler L cfg now w z (Some r))) = RecordData r3
            \<and> DbCreateRecord (r3\<lparr>ID := ID r\<rparr>) \<in> set (trace (snd (createRecordHandler L cfg now w z (Some r))))
            \<and> TTL r3 = (if TTL r \<le> 0 then 120 else TTL r)
            \<and> isValid (TTL r3)"
proof -
  let ?r2 = "default_TTL (qualify_name z (r\<lparr>Zone := z\<rparr>))"
  have valid: "TTL r \<le> 0 \<or> isValid (TTL r)"
    using assms unfolding createRecordHandler_success_iff by blast
  have id: "(?r2\<lparr>ID := next_id w\<rparr>)\<lparr>ID := ID r\<rparr> = ?r2" by simp
  have "120 \<in> set validTTLs" by (simp add: validTTLs_def)
  then show ?thesis
    unfolding createRecordHandler_success[OF assms] using valid
    by (auto simp add: id isValid_def)
qed


lemma UpdateRecord_fst:
  "fst (UpdateRecord w r) = (if fails w (DbUpdateRecord r) then Some StoreUnavailable else None)"
  by (simp add: UpdateRecord_def)

lemma UpdateRecord_records:
  "records (snd (UpdateRecord w r)) =
     (if fails w (DbUpdateRecord r) then records w
      else map (\<lambda>x. if ID x = ID r
                     then x\<lparr>Content := Content r, TTL := TTL r, Priority := Priority r\<rparr>
                     else x) (records w))"
  "next_id (snd (UpdateRecord w r)) = next_id w"
  by (simp_all add: UpdateRecord_def)

lemma updateRecordHandler_success_iff:
  "Success (fst (updateRecordHandler L cfg now w z (Some i) (Some upd))) \<longleftrightarrow>
     (\<exists>zn. fst (GetZone w z) = Inr (Some zn))
     \<and> (\<exists>r0. fst (GetRecordByID (issue (DbGetZone z) w) i) = Inr (Some r0) \<and> Zone r0 = z
          \<and> (upd_TTL upd \<le> 0 \<or> isValid (upd_TTL upd))
          \<and> fst (UpdateRecord (issue (DbGetRecordByID i) (issue (DbGetZone z) w))
                  (apply_update upd r0)) = None)"
  by (auto simp add: updateRecordHandler_def case_prod_beta Let_def GetZone_snd GetRecordByID_snd
        split: option.splits sum.splits)

lemma updateRecordHandler_success:
  assumes "Success (fst (updateRecordHandler L cfg now w z (Some i) (Some upd)))"
  shows "\<exists>r0. fst (GetRecordByID (issue (DbGetZone z) w) i) = Inr (Some r0) \<and> Zone r0 = z \<and>
      updateRecordHandler L cfg now w z (Some i) (Some upd) =
        (responseJSON StatusOK (RecordData (apply_update upd r0)),
         invalidate_and_publish L
           (bump_unless_SOA L cfg now
              (snd (UpdateRecord (issue (DbGetRecordByID i) (issue (DbGetZone z) w))
                     (apply_update upd r0))) z (apply_update upd r0))
           (apply_update upd r0))"
proof -
  from assms obtain zn r0 where zn: "fst (GetZone w z) = Inr (Some zn)"
    and r0: "fst (GetRecordByID (issue (DbGetZone z) w) i) = Inr (Some r0)" "Zone r0 = z"
    and v: "upd_TTL upd \<le> 0 \<or> isValid (upd_TTL upd)"
    and ok: "fst (UpdateRecord (issue (DbGetRecordByID i) (issue (DbGetZone z) w))
                  (apply_update upd r0)) = None"
    unfolding updateRecordHandler_success_iff by blast
  have "updateRecordHandler L cfg now w z (Some i) (Some upd) =
        (responseJSON StatusOK (RecordData (apply_update upd r0)),
         invalidate_and_publish L
           (bump_unless_SOA L cfg now
              (snd (UpdateRecord (issue (DbGetRecordByID i) (issue (DbGetZone z) w))
                     (apply_update upd r0))) z (apply_update upd r0))
           (apply_update upd r0))"
    using zn r0 v ok unfolding updateRecordHandler_def
    by (auto simp add: case_prod_beta Let_def GetZone_snd GetRecordByID_snd)
  with r0 show ?thesis by blast
qed

lemma update_rejects_bad_TTL:
  assumes "0 < upd_TTL upd" "\<not> isValid (upd_TTL upd)"
  shows "\<not> Success (fst (updateRecordHandler L cfg now w z i (Some upd)))
       \<and> records (snd (updateRecordHandler L cfg now w z i (Some upd))) = records w
       \<and> zones (snd (updateRecordHandler L cfg now w z i (Some upd))) = zones w
       \<and> next_id (snd (updateRecordHandler L cfg now w z i (Some upd))) = next_id w"
  using assms
  by (simp add: updateRecordHandler_def case_prod_beta GetZone_snd GetRecordByID_snd Let_def
        split: option.splits sum.splits)

lemma update_bad_TTL_400:
  assumes "0 < upd_TTL upd" "\<not> isValid (upd_TTL upd)"
    and "zone_exists w z" "\<not> fails w (DbGetZone z)" "\<not> fails w (DbGetRecordByID i)"
    and "find (\<lambda>r. ID r = i) (records w) = Some r0" "Zone r0 = z"
  shows "status (fst (updateRecordHandler L cfg now w z (Some i) (Some upd))) = StatusBadRequest"
proof -
  obtain zn where "fst (GetZone w z) = Inr (Some zn)"
    using GetZone_found assms by blast
  then show ?thesis using assms
    by (simp add: updateRecordHandler_def Let_def case_prod_beta GetZone_snd GetRecordByID_fst)
qed

lemma update_success_TTL:
  assumes "Success (fst (updateRecordHandler L cfg now w z (Some i) (Some upd)))"
  shows "\<exists>r0 r3. find (\<lambda>r. ID r = i) (records w) = Some r0
            \<and> Data (fst (updateRecordHandler L cfg now w z (Some i) (Some upd))) = RecordData r3
            \<and> DbUpdateRecord r3 \<in> set (trace (snd (updateRecordHandler L cfg now w z (Some i) (Some upd))))
            \<and> TTL r3 = (if upd_TTL upd \<le> 0 then TTL r0 else upd_TTL upd)
            \<and> (0 < upd_TTL upd \<longrightarrow> isValid (upd_TTL upd))"
proof -
  from updateRecordHandler_success[OF assms] obtain r0 where
    r0: "fst (GetRecordByID (issue (DbGetZone z) w) i) = Inr (Some r0)" and
    res: "updateRecordHandler L cfg now w z (Some i) (Some upd) =
        (responseJSON StatusOK (RecordData (apply_update upd r0)),
         invalidate_and_publish L
           (bump_unless_SOA L cfg now
              (snd (UpdateRecord (issue (DbGetRecordByID i) (issue (DbGetZone z) w))
                     (apply_update upd r0))) z (apply_update upd r0))
           (apply_update upd r0))" by blast
  have f: "find (\<lambda>r. ID r = i) (records w) = Some r0"
    using r0 by (simp add: GetRecordByID_fst split: if_splits)
  have v: "upd_TTL upd \<le> 0 \<or> isValid (upd_TTL upd)"
    using assms unfolding updateRecordHandler_success_iff by blast
  show ?thesis unfolding res using f v
    by (auto simp: invalidate_and_publish_trace)
qed

text \<open>
  C10. The whitelist has the 20 listed values. A create or update request whose TTL is
  positive and not in the whitelist is not successful and leaves the store as it was; when
  the request gets as far as the TTL check (the zone exists and is read without a failure,
  and, for a create, name, type and content are present, for an update, the record exists
  in the zone) the answer is a bad request. A successful create hands the store a record
  whose TTL is 120 when the requested TTL is at most zero and the requested, whitelisted
  TTL otherwise; a successful update hands the store the record's old TTL when the
  requested TTL is at most zero and the requested, whitelisted TTL otherwise.
\<close>

theorem ttl_validation:
  fixes r :: Record and upd :: updateData and L cfg now w z i
  defines "created \<equiv> createRecordHandler L cfg now w z (Some r)"
  defines "updated \<equiv> updateRecordHandler L cfg now w z (Some i) (Some upd)"
  shows "length validTTLs = 20 \<and> distinct validTTLs
     \<and> set validTTLs = {5, 10, 30, 60, 90, 120, 180, 300, 600, 900, 1800, 3600, 7200, 18000,
                         43200, 86400, 172800, 432000, 1296000, 2592000}
     \<and> (0 < TTL r \<and> TTL r \<notin> set validTTLs \<longrightarrow>
          \<not> Success (fst created) \<and> records (snd created) = records w
          \<and> zones (snd created) = zones w \<and> next_id (snd created) = next_id w
          \<and> (zone_exists w z \<and> \<not> fails w (DbGetZone z) \<and> Name r \<noteq> [] \<and> Type r \<noteq> []
               \<and> Content r \<noteq> [] \<longrightarrow> status (fst created) = StatusBadRequest))
     \<and> (Success (fst created) \<longrightarrow>
          (\<exists>r3. Data (fst created) = RecordData r3
             \<and> DbCreateRecord (r3\<lparr>ID := ID r\<rparr>) \<in> set (trace (snd created))
             \<and> TTL r3 = (if TTL r \<le> 0 then 120 else TTL r)
             \<and> TTL r3 \<in> set validTTLs))
     \<and> (0 < upd_TTL upd \<and> upd_TTL upd \<notin> set validTTLs \<longrightarrow>
          \<not> Success (fst updated) \<and> records (snd updated) = records w
          \<and> zones (snd updated) = zones w \<and> next_id (snd updated) = next_id w
          \<and> (zone_exists w z \<and> \<not> fails w (DbGetZone z) \<and> \<not> fails w (DbGetRecordByID i)
               \<and> (\<exists>r0. find (\<lambda>x. ID x = i) (records w) = Some r0 \<and> Zone r0 = z)
               \<longrightarrow> status (fst updated) = StatusBadRequest))
     \<and> (Success (fst updated) \<longrightarrow>
          (\<exists>r0 r3. find (\<lambda>x. ID x = i) (records w) = Some r0
             \<and> Data (fst updated) = RecordData r3
             \<and> DbUpdateRecord r3 \<in> set (trace (snd updated))
             \<and> TTL r3 = (if upd_TTL upd \<le> 0 then TTL r0 else upd_TTL upd)
             \<and> (0 < upd_TTL upd \<longrightarrow> upd_TTL upd \<in> set validTTLs)))"
proof -
  have c1: "0 < TTL r \<and> TTL r \<notin> set validTTLs \<longrightarrow>
          \<not> Success (fst created) \<and> records (snd created) = records w
          \<and> zones (snd created) = zones w \<and> next_id (snd created) = next_id w
          \<and> (zone_exists w z \<and> \<not> fails w (DbGetZone z) \<and> Name r \<noteq> [] \<and> Type r \<noteq> []
               \<and> Content r \<noteq> [] \<longrightarrow> status (fst created) = StatusBadRequest)"
    unfolding created_def
    using create_rejects_bad_TTL[of r L cfg now w z] create_bad_TTL_400[of r w z L cfg now]
    by (simp add: isValid_def)
  have c2: "Success (fst created) \<longrightarrow>
          (\<exists>r3. Data (fst created) = RecordData r3
             \<and> DbCreateRecord (r3\<lparr>ID := ID r\<rparr>) \<in> set (trace (snd created))
             \<and> TTL r3 = (if TTL r \<le> 0 then 120 else TTL r)
             \<and> TTL r3 \<in> set validTTLs)"
    unfolding created_def using create_success_TTL[of L cfg now w z r]
    by (simp add: isValid_def)
  have u1: "0 < upd_TTL upd \<and> upd_TTL upd \<notin> set validTTLs \<longrightarrow>
          \<not> Success (fst updated) \<and> records (snd updated) = records w
          \<and> zones (snd updated) = zones w \<and> next_id (snd updated) = next_id w
          \<and> (zone_exists w z \<and> \<not> fails w (DbGetZone z) \<and> \<not> fails w (DbGetRecordByID i)
               \<and> (\<exists>r0. find (\<lambda>x. ID x = i) (records w) = Some r0 \<and> Zone r0 = z)
               \<longrightarrow> status (fst updated) = StatusBadRequest)"
    unfolding updated_def
    using update_rejects_bad_TTL[of upd L cfg now w z "Some i"]
          update_bad_TTL_400[of upd w z i _ L cfg now]
    by (auto simp add: isValid_def)
  have u2: "Success (fst updated) \<longrightarrow>
          (\<exists>r0 r3. find (\<lambda>x. ID x = i) (records w) = Some r0
             \<and> Data (fst updated) = RecordData r3
             \<and> DbUpdateRecord r3 \<in> set (trace (snd updated))
             \<and> TTL r3 = (if upd_TTL upd \<le> 0 then TTL r0 else upd_TTL upd)
             \<and> (0 < upd_TTL upd \<longrightarrow> upd_TTL upd \<in> set validTTLs))"
    unfolding updated_def using update_success_TTL[of L cfg now w z i upd]
    by (simp add: isValid_def)
  note v1 = validTTLs_values[THEN conjunct1]
    and v2 = validTTLs_values[THEN conjunct2, THEN conjunct1]
    and v3 = validTTLs_values[THEN conjunct2, THEN conjunct2]
  show ?thesis
    by (intro conjI v1 v2 v3 c1 c2 u1 u2)
qed

lemma one_zone_fields [simp]:
  "collation one_zone = general_ci"
  "zones one_zone = [\<lparr>zone_ID = 1, zone_Name = ''example.com''\<rparr>]"
  "records one_zone = [www_a]" "next_id one_zone = 2" "\<not> fails one_zone c"
  "trace one_zone = []" "kv one_zone = Map.empty"
  by (simp_all add: one_zone_def no_faults_def)

lemma one_zone_exists [simp]: "zone_exists one_zone z \<longleftrightarrow> general_ci ''example.com'' z"
  by (simp add: zone_exists_def)

theorem ttl_validation_witness:
  "\<not> Success (fst (createRecordHandler demo_lib demo_cfg 7 one_zone ''example.com''
                  (Some (new_record 7))))
   \<and> status (fst (createRecordHandler demo_lib demo_cfg 7 one_zone ''example.com''
                  (Some (new_record 7)))) = StatusBadRequest
   \<and> records (snd (createRecordHandler demo_lib demo_cfg 7 one_zone ''example.com''
                  (Some (new_record 7)))) = records one_zone
   \<and> Success (fst (createRecordHandler demo_lib demo_cfg 7 one_zone ''example.com''
                  (Some (new_record 0))))
   \<and> (\<exists>r3. Data (fst (createRecordHandler demo_lib demo_cfg 7 one_zone ''example.com''
                  (Some (new_record 0)))) = RecordData r3 \<and> TTL r3 = 120)
   \<and> status (fst (updateRecordHandler demo_lib demo_cfg 7 one_zone ''example.com'' (Some 1)
                  (Some (new_ttl 7)))) = StatusBadRequest
   \<and> records (snd (updateRecordHandler demo_lib demo_cfg 7 one_zone ''example.com'' (Some 1)
                  (Some (new_ttl 7)))) = records one_zone
   \<and> Success (fst (updateRecordHandler demo_lib demo_cfg 7 one_zone ''example.com'' (Some 1)
                  (Some (new_ttl 0))))
   \<and> (\<exists>r3. Data (fst (updateRecordHandler demo_lib demo_cfg 7 one_zone ''example.com'' (Some 1)
                  (Some (new_ttl 0)))) = RecordData r3 \<and> TTL r3 = 3600)"
proof -
  note t7 = ttl_validation[where r="new_record 7" and upd="new_ttl 7" and L=demo_lib
      and cfg=demo_cfg and now=7 and w=one_zone and z="''example.com''" and i=1]
  note t0 = ttl_validation[where r="new_record 0" and upd="new_ttl 0" and L=demo_lib
      and cfg=demo_cfg and now=7 and w=one_zone and z="''example.com''" and i=1]
  note tail = conjunct2[THEN conjunct2, THEN conjunct2]
  have bad: "0 < TTL (new_record 7) \<and> TTL (new_record 7) \<notin> set validTTLs"
    "0 < upd_TTL (new_ttl 7) \<and> upd_TTL (new_ttl 7) \<notin> set validTTLs"
    by (simp_all add: new_record_def new_ttl_def validTTLs_def)
  have reach: "zone_exists one_zone ''example.com'' \<and> \<not> fails one_zone (DbGetZone ''example.com'')
       \<and> Name (new_record 7) \<noteq> [] \<and> Type (new_record 7) \<noteq> [] \<and> Content (new_record 7) \<noteq> []"
    "zone_exists one_zone ''example.com'' \<and> \<not> fails one_zone (DbGetZone ''example.com'')
       \<and> \<not> fails one_zone (DbGetRecordByID 1)
       \<and> (\<exists>r0. find (\<lambda>x. ID x = 1) (records one_zone) = Some r0 \<and> Zone r0 = ''example.com'')"
    by (simp_all add: new_record_def www_a_def)
  have ok: "Success (fst (createRecordHandler demo_lib demo_cfg 7 one_zone ''example.com''
                  (Some (new_record 0))))"
     "Success (fst (updateRecordHandler demo_lib demo_cfg 7 one_zone ''example.com'' (Some 1)
                  (Some (new_ttl 0))))"
    by (simp_all add: createRecordHandler_success_iff updateRecordHandler_success_iff
         GetZone_fst GetRecordByID_fst CreateRecord_fst UpdateRecord_fst new_record_def
         new_ttl_def www_a_def isValid_def)
  have f: "find (\<lambda>x. ID x = 1) (records one_zone) = Some www_a"
    by (simp add: www_a_def)
  note c7 = t7[THEN tail, THEN conjunct1, THEN mp, OF bad(1)]
  note u7 = t7[THEN tail, THEN conjunct2, THEN conjunct2, THEN conjunct1, THEN mp, OF bad(2)]
  note c0 = t0[THEN tail, THEN conjunct2, THEN conjunct1, THEN mp, OF ok(1)]
  note u0 = t0[THEN tail, THEN conjunct2, THEN conjunct2, THEN conjunct2, THEN mp, OF ok(2)]
  have 1: "\<exists>r3. Data (fst (createRecordHandler demo_lib demo_cfg 7 one_zone ''example.com''
                  (Some (new_record 0)))) = RecordData r3 \<and> TTL r3 = 120"
    using c0 by (auto simp: new_record_def)
  have 2: "\<exists>r3. Data (fst (updateRecordHandler demo_lib demo_cfg 7 one_zone ''example.com'' (Some 1)
                  (Some (new_ttl 0)))) = RecordData r3 \<and> TTL r3 = 3600"
    using u0 unfolding f by (auto simp: new_ttl_def www_a_def)
  show ?thesis
    using c7 u7 reach ok 1 2 by blast
qed

section \<open>The invalidation subscriber\<close>

lemma invalidate_fields [simp]:
  "fails (invalidate w r) = fails w" "records (invalidate w r) = records w"
  "zones (invalidate w r) = zones w" "next_id (invalidate w r) = next_id w"
  "trace (invalidate w r) = trace w @ [RedisDel [singleCacheKey (Zone r) (Name r) (Type r)],
                                       RedisDel [multiCacheKey (Zone r) (Name r) (Type r)]]"
  by (simp_all add: invalidate_def case_prod_beta)

lemma invalidate_kv:
  "kv (invalidate w r) k =
     (if k = singleCacheKey (Zone r) (Name r) (Type r)
         \<and> \<not> fails w (RedisDel [singleCacheKey (Zone r) (Name r) (Type r)]) then None
      else if k = multiCacheKey (Zone r) (Name r) (Type r)
         \<and> \<not> fails w (RedisDel [multiCacheKey (Zone r) (Name r) (Type r)]) then None
      else kv w k)"
  by (simp add: invalidate_def case_prod_beta Del_kv)

lemma listen_returns: "fst (listenForRecordUpdates L w es) \<longleftrightarrow> Done \<in> set es"
proof (induction es arbitrary: w)
  case Nil
  show ?case by simp
next
  case (Cons e es)
  show ?case by (cases e) (auto simp add: Cons split: option.splits)
qed

lemma listen_fails [simp]: "fails (snd (listenForRecordUpdates L w es)) = fails w"
proof (induction es arbitrary: w)
  case Nil
  show ?case by simp
next
  case (Cons e es)
  show ?case by (cases e) (simp_all add: Cons split: option.splits)
qed

lemma listen_store [simp]:
  "records (snd (listenForRecordUpdates L w es)) = records w
   \<and> zones (snd (listenForRecordUpdates L w es)) = zones w"
proof (induction es arbitrary: w)
  case Nil
  show ?case by simp
next
  case (Cons e es)
  show ?case by (cases e) (simp_all add: Cons split: option.splits)
qed

lemma listen_trace_mono:
  "c \<in> set (trace w) \<Longrightarrow> c \<in> set (trace (snd (listenForRecordUpdates L w es)))"
proof (induction es arbitrary: w)
  case Nil
  then show ?case by simp
next
  case (Cons e es)
  then show ?case by (cases e) (simp_all split: option.splits)
qed

lemma listen_kv_mono:
  "kv w k = None \<Longrightarrow> kv (snd (listenForRecordUpdates L w es)) k = None"
proof (induction es arbitrary: w)
  case Nil
  then show ?case by simp
next
  case (Cons e es)
  then show ?case by (cases e) (simp_all add: invalidate_kv split: option.splits)
qed

lemma listen_deletes:
  "Message p \<in> set (takeWhile (\<lambda>e. e \<noteq> Done) es) \<Longrightarrow> unmarshal_Record L p = Some r \<Longrightarrow>
   RedisDel [singleCacheKey (Zone r) (Name r) (Type r)]
     \<in> set (trace (snd (listenForRecordUpdates L w es)))
   \<and> RedisDel [multiCacheKey (Zone r) (Name r) (Type r)]
     \<in> set (trace (snd (listenForRecordUpdates L w es)))
   \<and> (\<not> fails w (RedisDel [singleCacheKey (Zone r) (Name r) (Type r)]) \<longrightarrow>
        kv (snd (listenForRecordUpdates L w es)) (singleCacheKey (Zone r) (Name r) (Type r)) = None)
   \<and> (\<not> fails w (RedisDel [multiCacheKey (Zone r) (Name r) (Type r)]) \<longrightarrow>
        kv (snd (listenForRecordUpdates L w es)) (multiCacheKey (Zone r) (Name r) (Type r)) = None)"
proof (induction es arbitrary: w)
  case Nil
  then show ?case by simp
next
  case (Cons e es)
  show ?case
  proof (cases e)
    case Done
    with Cons.prems show ?thesis by simp
  next
    case (Message payload)
    show ?thesis
    proof (cases "payload = p")
      case True
      then show ?thesis using Cons.prems(2) Message
        by (simp add: listen_trace_mono listen_kv_mono invalidate_kv)
    next
      case False
      then have "Message p \<in> set (takeWhile (\<lambda>e. e \<noteq> Done) es)"
        using Cons.prems(1) Message by simp
      then show ?thesis using Cons.IH Cons.prems(2) Message
        by (cases "unmarshal_Record L payload") simp_all
    qed
  qed
qed

lemma listen_cong:
  "kv w1 = kv w2 \<Longrightarrow> fails w1 = fails w2 \<Longrightarrow> trace w1 = trace w2 \<Longrightarrow>
   fst (listenForRecordUpdates L w1 es) = fst (listenForRecordUpdates L w2 es)
   \<and> kv (snd (listenForRecordUpdates L w1 es)) = kv (snd (listenForRecordUpdates L w2 es))
   \<and> trace (snd (listenForRecordUpdates L w1 es)) = trace (snd (listenForRecordUpdates L w2 es))"
proof (induction es arbitrary: w1 w2)
  case Nil
  then show ?case by simp
next
  case (Cons e es)
  show ?case
  proof (cases e)
    case Done
    with Cons.prems show ?thesis by simp
  next
    case (Message payload)
    show ?thesis
    proof (cases "unmarshal_Record L payload")
      case None
      let ?l = "logf (Errorf_log ''Failed to parse record update'' JSONError)"
      have "kv (?l w1) = kv (?l w2)" "fails (?l w1) = fails (?l w2)"
        "trace (?l w1) = trace (?l w2)"
        using Cons.prems by simp_all
      from Cons.IH[OF this] show ?thesis using None Message by simp
    next
      case (Some r)
      have "kv (invalidate w1 r) = kv (invalidate w2 r)"
        "fails (invalidate w1 r) = fails (invalidate w2 r)"
        "trace (invalidate w1 r) = trace (invalidate w2 r)"
        using Cons.prems by (simp_all add: fun_eq_iff invalidate_kv)
      from Cons.IH[OF this] show ?thesis using Some Message by simp
    qed
  qed
qed

lemma listen_skips_malformed:
  assumes "unmarshal_Record L p = None"
  shows "fst (listenForRecordUpdates L w (Message p # es)) = fst (listenForRecordUpdates L w es)
   \<and> kv (snd (listenForRecordUpdates L w (Message p # es))) = kv (snd (listenForRecordUpdates L w es))
   \<and> trace (snd (listenForRecordUpdates L w (Message p # es))) = trace (snd (listenForRecordUpdates L w es))"
  using assms listen_cong[of "logf (Errorf_log ''Failed to parse record update'' JSONError) w" w L es]
  by simp

text \<open>
  C9. The record-set key is \<open>dns:records:{zone}:{name}:{type}\<close>, the single-record key
  \<open>dns:record:{zone}:{name}:{type}\<close>; a record update is published, serialized, on the
  channel \<open>dns:record:update\<close>, the channel the subscriber listens on. The subscriber loop
  returns exactly when the cancellation arrives. For every message received before it that
  decodes to a record, the loop issues the deletion of both keys of the record's zone, name
  and type, and a key whose deletion does not fail is absent afterwards. A message that
  does not decode is skipped: the loop goes on as if it had not been received.
\<close>

theorem invalidation_protocol:
  fixes L :: lib and w w0 :: world and es :: "event list" and p q :: string and r r0 :: Record
    and zone name ty :: string
  defines "w' \<equiv> snd (listenForRecordUpdates L w es)"
  shows "multiCacheKey zone name ty = ''dns:records:'' @ zone @ '':'' @ name @ '':'' @ ty
     \<and> singleCacheKey zone name ty = ''dns:record:'' @ zone @ '':'' @ name @ '':'' @ ty
     \<and> snd (PublishRecordUpdate L w0 r0) =
         issue (RedisPublish ''dns:record:update'' (marshal_Record L r0)) w0
     \<and> SubscribeToRecordUpdates = ''dns:record:update''
     \<and> (fst (listenForRecordUpdates L w es) \<longleftrightarrow> Done \<in> set es)
     \<and> (Message p \<in> set (takeWhile (\<lambda>e. e \<noteq> Done) es) \<and> unmarshal_Record L p = Some r \<longrightarrow>
          RedisDel [singleCacheKey (Zone r) (Name r) (Type r)] \<in> set (trace w')
          \<and> RedisDel [multiCacheKey (Zone r) (Name r) (Type r)] \<in> set (trace w')
          \<and> (\<not> fails w (RedisDel [singleCacheKey (Zone r) (Name r) (Type r)]) \<longrightarrow>
               kv w' (singleCacheKey (Zone r) (Name r) (Type r)) = None)
          \<and> (\<not> fails w (RedisDel [multiCacheKey (Zone r) (Name r) (Type r)]) \<longrightarrow>
               kv w' (multiCacheKey (Zone r) (Name r) (Type r)) = None))
     \<and> (unmarshal_Record L q = None \<longrightarrow>
          fst (listenForRecordUpdates L w (Message q # es)) = fst (listenForRecordUpdates L w es)
          \<and> kv (snd (listenForRecordUpdates L w (Message q # es))) = kv w'
          \<and> trace (snd (listenForRecordUpdates L w (Message q # es))) = trace w')"
proof -
  have d: "Message p \<in> set (takeWhile (\<lambda>e. e \<noteq> Done) es) \<and> unmarshal_Record L p = Some r \<longrightarrow>
          RedisDel [singleCacheKey (Zone r) (Name r) (Type r)] \<in> set (trace w')
          \<and> RedisDel [multiCacheKey (Zone r) (Name r) (Type r)] \<in> set (trace w')
          \<and> (\<not> fails w (RedisDel [singleCacheKey (Zone r) (Name r) (Type r)]) \<longrightarrow>
               kv w' (singleCacheKey (Zone r) (Name r) (Type r)) = None)
          \<and> (\<not> fails w (RedisDel [multiCacheKey (Zone r) (Name r) (Type r)]) \<longrightarrow>
               kv w' (multiCacheKey (Zone r) (Name r) (Type r)) = None)"
    unfolding w'_def using listen_deletes[of p es L r w] by blast
  have m: "unmarshal_Record L q = None \<longrightarrow>
          fst (listenForRecordUpdates L w (Message q # es)) = fst (listenForRecordUpdates L w es)
          \<and> kv (snd (listenForRecordUpdates L w (Message q # es))) = kv w'
          \<and> trace (snd (listenForRecordUpdates L w (Message q # es))) = trace w'"
    unfolding w'_def using listen_skips_malformed[of L q w es] by blast
  show ?thesis
    by (intro conjI d m listen_returns PublishRecordUpdate_snd)
       (simp_all add: multiCacheKey_def singleCacheKey_def SubscribeToRecordUpdates_def)
qed

lemma warm_cache_fields [simp]:
  "\<not> fails warm_cache c" "records warm_cache = [www_a]"
  "zones warm_cache = [\<lparr>zone_ID = 1, zone_Name = ''example.com''\<rparr>]"
  "trace warm_cache = []"
  by (simp_all add: warm_cache_def)

theorem invalidation_protocol_witness:
  "kv warm_cache (singleCacheKey ''example.com'' ''www.example.com'' ''A'') \<noteq> None
   \<and> kv warm_cache (multiCacheKey ''example.com'' ''www.example.com'' ''A'') \<noteq> None
   \<and> fst (listenForRecordUpdates demo_lib warm_cache
            [Message ''garbage'', Message ''record:www.example.com'', Done])
   \<and> kv (snd (listenForRecordUpdates demo_lib warm_cache
            [Message ''garbage'', Message ''record:www.example.com'', Done]))
        (singleCacheKey ''example.com'' ''www.example.com'' ''A'') = None
   \<and> kv (snd (listenForRecordUpdates demo_lib warm_cache
            [Message ''garbage'', Message ''record:www.example.com'', Done]))
        (multiCacheKey ''example.com'' ''www.example.com'' ''A'') = None
   \<and> \<not> fst (listenForRecordUpdates demo_lib warm_cache [Message ''garbage''])"
proof -
  let ?es = "[Message ''garbage'', Message ''record:www.example.com'', Done]"
  note t = invalidation_protocol[where L=demo_lib and w=warm_cache and es="?es"
      and p="''record:www.example.com''" and r=www_a and q="''garbage''"]
  note t2 = invalidation_protocol[where L=demo_lib and w=warm_cache and es="[]"
      and q="''garbage''"]
  note tail = conjunct2[THEN conjunct2, THEN conjunct2, THEN conjunct2]
  have h: "Message ''record:www.example.com'' \<in> set (takeWhile (\<lambda>e. e \<noteq> Done) ?es)
      \<and> unmarshal_Record demo_lib ''record:www.example.com'' = Some www_a"
    by (simp add: demo_lib_def)
  have g: "unmarshal_Record demo_lib ''garbage'' = None"
    by (simp add: demo_lib_def)
  have z: "Zone www_a = ''example.com''" "Name www_a = ''www.example.com''" "Type www_a = ''A''"
    by (simp_all add: www_a_def)
  have k: "kv warm_cache (singleCacheKey ''example.com'' ''www.example.com'' ''A'') \<noteq> None"
    "kv warm_cache (multiCacheKey ''example.com'' ''www.example.com'' ''A'') \<noteq> None"
    by (simp_all add: warm_cache_def singleCacheKey_def multiCacheKey_def)
  note r1 = t[THEN tail, THEN conjunct1]
  note r2 = t[THEN tail, THEN conjunct2, THEN conjunct1, THEN mp, OF h, unfolded z]
  note r3 = t2[THEN tail, THEN conjunct2, THEN conjunct2, THEN mp, OF g]
  show ?thesis
    using k r1 r2 r3 by simp
qed

section \<open>The resolution engine\<close>

lemma count_fields [simp]:
  "collation (count_CacheHit w) = collation w" "collation (count_CacheMiss w) = collation w"
  "collation (count_Query w) = collation w" "collation (count_NXDomain w) = collation w"
  "collation (count_ServerFailure w) = collation w"
  "trace (count_CacheHit w) = trace w" "kv (count_CacheHit w) = kv w"
  "fails (count_CacheHit w) = fails w" "records (count_CacheHit w) = records w"
  "zones (count_CacheHit w) = zones w" "next_id (count_CacheHit w) = next_id w"
  "trace (count_CacheMiss w) = trace w" "kv (count_CacheMiss w) = kv w"
  "fails (count_CacheMiss w) = fails w" "records (count_CacheMiss w) = records w"
  "zones (count_CacheMiss w) = zones w" "next_id (count_CacheMiss w) = next_id w"
  "trace (count_Query w) = trace w" "kv (count_Query w) = kv w"
  "fails (count_Query w) = fails w" "records (count_Query w) = records w"
  "zones (count_Query w) = zones w" "next_id (count_Query w) = next_id w"
  "trace (count_NXDomain w) = trace w" "kv (count_NXDomain w) = kv w"
  "fails (count_NXDomain w) = fails w" "records (count_NXDomain w) = records w"
  "zones (count_NXDomain w) = zones w" "next_id (count_NXDomain w) = next_id w"
  "trace (count_ServerFailure w) = trace w" "kv (count_ServerFailure w) = kv w"
  "fails (count_ServerFailure w) = fails w" "records (count_ServerFailure w) = records w"
  "zones (count_ServerFailure w) = zones w" "next_id (count_ServerFailure w) = next_id w"
  by (simp_all add: count_CacheHit_def count_CacheMiss_def count_Query_def count_NXDomain_def
      count_ServerFailure_def)

lemma addAnswerFromRecord_error:
  "fst (addAnswerFromRecord L m r q) \<noteq> None \<Longrightarrow> snd (addAnswerFromRecord L m r q) = m"
  by (simp add: addAnswerFromRecord_def split: sum.splits)


lemma addAnswerFromRecord_answers:
  "snd (addAnswerFromRecord L m r q) = m\<lparr>Answer := Answer m @ answers_of L q [r]\<rparr>"
  by (simp add: addAnswerFromRecord_def answers_of_def append_answer_def split: sum.splits)

lemma answers_of_Cons: "answers_of L q (r # rs) = answers_of L q [r] @ answers_of L q rs"
  by (simp add: answers_of_def)

lemma add_answers_fst:
  "fst (add_answers L q rs (m, w)) = m\<lparr>Answer := Answer m @ answers_of L q rs\<rparr>"
proof (induction rs arbitrary: m w)
  case Nil
  show ?case by (simp add: answers_of_def)
next
  case (Cons r rs)
  show ?case
    by (simp add: case_prod_beta Cons addAnswerFromRecord_answers answers_of_Cons[of L q r rs])
qed

lemma add_answers_snd [simp]:
  "trace (snd (add_answers L q rs (m, w))) = trace w \<and> kv (snd (add_answers L q rs (m, w))) = kv w
   \<and> fails (snd (add_answers L q rs (m, w))) = fails w
   \<and> records (snd (add_answers L q rs (m, w))) = records w
   \<and> zones (snd (add_answers L q rs (m, w))) = zones w
   \<and> stats (snd (add_answers L q rs (m, w))) = stats w
   \<and> collation (snd (add_answers L q rs (m, w))) = collation w"
proof (induction rs arbitrary: m w)
  case Nil
  show ?case by simp
next
  case (Cons r rs)
  show ?case by (simp add: case_prod_beta Cons)
qed

declare add_answers.simps [simp del]

lemma findZone_from_fields:
  "kv (snd (findZone_from w ps)) = kv w \<and> fails (snd (findZone_from w ps)) = fails w
   \<and> records (snd (findZone_from w ps)) = records w \<and> zones (snd (findZone_from w ps)) = zones w
   \<and> stats (snd (findZone_from w ps)) = stats w \<and> logs (snd (findZone_from w ps)) = logs w
   \<and> next_id (snd (findZone_from w ps)) = next_id w
   \<and> collation (snd (findZone_from w ps)) = collation w"
proof (induction ps arbitrary: w)
  case Nil
  show ?case by simp
next
  case (Cons p ps)
  show ?case
    by (simp add: case_prod_beta GetZone_snd Cons split: sum.splits option.splits)
qed

lemma findZone_fields [simp]:
  "kv (snd (findZone w n)) = kv w" "fails (snd (findZone w n)) = fails w"
  "records (snd (findZone w n)) = records w" "zones (snd (findZone w n)) = zones w"
  "stats (snd (findZone w n)) = stats w" "logs (snd (findZone w n)) = logs w"
  "next_id (snd (findZone w n)) = next_id w" "collation (snd (findZone w n)) = collation w"
  by (simp_all add: findZone_def findZone_from_fields)

lemma findZone_from_trace:
  "\<exists>ops. trace (snd (findZone_from w ps)) = trace w @ ops \<and> list_all is_db_op ops"
proof (induction ps arbitrary: w)
  case Nil
  show ?case by simp
next
  case (Cons p ps)
  let ?c = "DbGetZone (Join (p # ps) (CHR ''.''))"
  from Cons[of "issue ?c w"] obtain ops where
    ops: "trace (snd (findZone_from (issue ?c w) ps)) = trace w @ ?c # ops" "list_all is_db_op ops"
    by auto
  have db: "is_db_op ?c" by (simp add: is_db_op_def)
  have "trace (snd (findZone_from w (p # ps))) = trace w @ [?c]
      \<or> trace (snd (findZone_from w (p # ps))) = trace w @ ?c # ops"
    using ops(1) by (simp add: case_prod_beta GetZone_snd split: sum.splits option.splits)
  then show ?case
  proof
    assume "trace (snd (findZone_from w (p # ps))) = trace w @ [?c]"
    then show ?thesis using db by (intro exI[of _ "[?c]"]) simp
  next
    assume "trace (snd (findZone_from w (p # ps))) = trace w @ ?c # ops"
    then show ?thesis using db ops(2) by (intro exI[of _ "?c # ops"]) simp
  qed
qed


lemma Redis_GetRecordsByNameAndType_snd [simp]:
  "snd (Redis_GetRecordsByNameAndType L w z n t) = issue (RedisGet (multiCacheKey z n t)) w"
  by (simp add: Redis_GetRecordsByNameAndType_def Get_def split: option.splits sum.splits)

lemma Redis_GetRecord_snd [simp]:
  "snd (Redis_GetRecord L w z n t) = issue (RedisGet (singleCacheKey z n t)) w"
  by (simp add: Redis_GetRecord_def Get_def split: option.splits sum.splits)

lemma cached_set_eq:
  "cached_set L w z n t =
     (if fails w (RedisGet (multiCacheKey z n t)) then []
      else case kv w (multiCacheKey z n t) of
             None \<Rightarrow> []
           | Some (d, _) \<Rightarrow> (case unmarshal_Records L d of None \<Rightarrow> [] | Some rs \<Rightarrow> rs))"
  by (simp add: cached_set_def Redis_GetRecordsByNameAndType_def Get_def split: option.splits)

lemma cached_single_eq:
  "cached_single L w z n t =
     (if fails w (RedisGet (singleCacheKey z n t)) then None
      else case kv w (singleCacheKey z n t) of
             None \<Rightarrow> None
           | Some (d, _) \<Rightarrow> unmarshal_Record L d)"
  by (simp add: cached_single_def Redis_GetRecord_def Get_def split: option.splits)

lemma cached_cong:
  "kv w1 = kv w2 \<Longrightarrow> fails w1 = fails w2 \<Longrightarrow>
   cached_set L w1 z n t = cached_set L w2 z n t \<and> cached_single L w1 z n t = cached_single L w2 z n t"
  by (simp add: cached_set_eq cached_single_eq)

lemma cached_issue [simp]:
  "cached_set L (issue c w) z n t = cached_set L w z n t"
  "cached_single L (issue c w) z n t = cached_single L w z n t"
  by (simp_all add: cached_set_eq cached_single_eq)

lemma cached_fold [simp]:
  "(case fst (Redis_GetRecordsByNameAndType L w z n t) of Inl _ \<Rightarrow> [] | Inr rs \<Rightarrow> rs)
     = cached_set L w z n t"
  "(case fst (Redis_GetRecord L w z n t) of Inl _ \<Rightarrow> None | Inr x \<Rightarrow> x) = cached_single L w z n t"
  by (simp_all add: cached_set_def cached_single_def)

lemma SetRecords_Cons:
  "SetRecords L cfg w (r # rs) ttl =
     Set w (multiCacheKey (Zone r) (Name r) (Type r)) (marshal_Records L (r # rs))
       (if redis_cache_TTL cfg = 0 then 0 else seconds (redis_cache_TTL cfg))"
  by (simp add: SetRecords_def Let_def)

lemma SetRecord_eq:
  "SetRecord L cfg w r ttl =
     Set w (singleCacheKey (Zone r) (Name r) (Type r)) (marshal_Record L r)
       (if redis_cache_TTL cfg = 0 then 0 else seconds (redis_cache_TTL cfg))"
  by (simp add: SetRecord_def Let_def)

lemma stored_set_Cons_matches:
  "stored_set w z n t = r # rs \<Longrightarrow>
   collation w (Zone r) z \<and> collation w (Name r) n \<and> collation w (Type r) t"
  by (metis filter_eq_ConsD matches_def stored_set_def)

lemma find_matches_None: "stored_set w z n t = [] \<Longrightarrow> find (matches (collation w) z n t) (records w) = None"
  by (simp add: stored_set_def find_None_iff filter_empty_conv)

lemma hq_no_zone:
  assumes "fst (findZone w (TrimSuffix (q_Name q) (CHR ''.''))) = Inr []"
  shows "handleQuery L cfg w m q = (None, m, snd (findZone w (TrimSuffix (q_Name q) (CHR ''.''))))"
  using assms by (simp add: handleQuery_def Let_def case_prod_beta)

lemma hq_zone_error:
  assumes "fst (findZone w (TrimSuffix (q_Name q) (CHR ''.''))) = Inl err"
  shows "handleQuery L cfg w m q = (Some err, m, snd (findZone w (TrimSuffix (q_Name q) (CHR ''.''))))"
  using assms by (simp add: handleQuery_def Let_def case_prod_beta)

lemma hq_set_hit:
  assumes "findZone w (TrimSuffix (q_Name q) (CHR ''.'')) = (Inr zone, w1)" "zone \<noteq> []"
    and "name = TrimSuffix (q_Name q) (CHR ''.'')" "ty = TypeToString L (Qtype q)"
    and "cached_set L w1 zone name ty \<noteq> []"
  shows "handleQuery L cfg w m q =
     (None, m\<lparr>Answer := Answer m @ answers_of L q (cached_set L w1 zone name ty)\<rparr>,
      snd (add_answers L q (cached_set L w1 zone name ty)
             (m, count_CacheHit (issue (RedisGet (multiCacheKey zone name ty)) w1))))"
  using assms
  by (simp add: handleQuery_def Let_def case_prod_beta add_answers_fst prod_eq_iff)

lemma hq_single_hit:
  assumes "findZone w (TrimSuffix (q_Name q) (CHR ''.'')) = (Inr zone, w1)" "zone \<noteq> []"
    and "name = TrimSuffix (q_Name q) (CHR ''.'')" "ty = TypeToString L (Qtype q)"
    and "cached_set L w1 zone name ty = []" "cached_single L w1 zone name ty = Some r"
  shows "handleQuery L cfg w m q =
     (fst (addAnswerFromRecord L m r q), m\<lparr>Answer := Answer m @ answers_of L q [r]\<rparr>,
      count_CacheHit (issue (RedisGet (singleCacheKey zone name ty))
                        (issue (RedisGet (multiCacheKey zone name ty)) w1)))"
  using assms
  by (simp add: handleQuery_def Let_def case_prod_beta addAnswerFromRecord_answers prod_eq_iff)

lemma hq_store_error:
  assumes "findZone w (TrimSuffix (q_Name q) (CHR ''.'')) = (Inr zone, w1)" "zone \<noteq> []"
    and "name = TrimSuffix (q_Name q) (CHR ''.'')" "ty = TypeToString L (Qtype q)"
    and "cached_set L w1 zone name ty = []" "cached_single L w1 zone name ty = None"
    and "fails w1 (DbGetRecordsByNameAndType zone name ty)"
  shows "handleQuery L cfg w m q =
     (Some StoreUnavailable, m,
      issue (DbGetRecordsByNameAndType zone name ty)
        (count_CacheMiss (issue (RedisGet (singleCacheKey zone name ty))
                        (issue (RedisGet (multiCacheKey zone name ty)) w1))))"
  using assms
  by (simp add: handleQuery_def Let_def case_prod_beta MariaDB_GetRecordsByNameAndType_fst
      MariaDB_GetRecordsByNameAndType_snd)

lemma hq_store_set:
  fixes L :: lib and cfg :: Config
  assumes "findZone w (TrimSuffix (q_Name q) (CHR ''.'')) = (Inr zone, w1)" "zone \<noteq> []"
    and "name = TrimSuffix (q_Name q) (CHR ''.'')" "ty = TypeToString L (Qtype q)"
    and "cached_set L w1 zone name ty = []" "cached_single L w1 zone name ty = None"
    and "\<not> fails w1 (DbGetRecordsByNameAndType zone name ty)"
    and "stored_set w1 zone name ty = r # rs"
  defines "w4 \<equiv> issue (DbGetRecordsByNameAndType zone name ty)
        (count_CacheMiss (issue (RedisGet (singleCacheKey zone name ty))
                        (issue (RedisGet (multiCacheKey zone name ty)) w1)))"
  defines "st \<equiv> Set w4 (multiCacheKey (Zone r) (Name r) (Type r)) (marshal_Records L (r # rs))
       (if redis_cache_TTL cfg = 0 then 0 else seconds (redis_cache_TTL cfg))"
  shows "handleQuery L cfg w m q =
     (None, m\<lparr>Answer := Answer m @ answers_of L q (r # rs)\<rparr>,
      snd (add_answers L q (r # rs) (m, warn_if ''Failed to cache records'' (fst st) (snd st))))"
  using assms(1-8) unfolding st_def w4_def
  by (simp add: handleQuery_def Let_def case_prod_beta MariaDB_GetRecordsByNameAndType_fst
      MariaDB_GetRecordsByNameAndType_snd stored_set_def[symmetric] SetRecords_Cons
      add_answers_fst prod_eq_iff del: add_answers.simps)

lemma hq_store_empty:
  assumes "findZone w (TrimSuffix (q_Name q) (CHR ''.'')) = (Inr zone, w1)" "zone \<noteq> []"
    and "name = TrimSuffix (q_Name q) (CHR ''.'')" "ty = TypeToString L (Qtype q)"
    and "cached_set L w1 zone name ty = []" "cached_single L w1 zone name ty = None"
    and "\<not> fails w1 (DbGetRecordsByNameAndType zone name ty)"
    and "stored_set w1 zone name ty = []"
  shows "handleQuery L cfg w m q =
     store_single_fallback L cfg
       (issue (DbGetRecordsByNameAndType zone name ty)
        (count_CacheMiss (issue (RedisGet (singleCacheKey zone name ty))
                        (issue (RedisGet (multiCacheKey zone name ty)) w1)))) m q zone name ty"
  using assms
  by (simp add: handleQuery_def Let_def case_prod_beta MariaDB_GetRecordsByNameAndType_fst
      MariaDB_GetRecordsByNameAndType_snd stored_set_def[symmetric])

lemma fallback_error:
  "fails v (DbGetRecord zone name ty) \<Longrightarrow>
   store_single_fallback L cfg v m q zone name ty =
     (Some StoreUnavailable, m, issue (DbGetRecord zone name ty) v)"
  by (simp add: store_single_fallback_def case_prod_beta MariaDB_GetRecord_fst MariaDB_GetRecord_snd)

lemma fallback_none:
  "\<not> fails v (DbGetRecord zone name ty) \<Longrightarrow> find (matches (collation v) zone name ty) (records v) = None \<Longrightarrow>
   store_single_fallback L cfg v m q zone name ty = (None, m, issue (DbGetRecord zone name ty) v)"
  by (simp add: store_single_fallback_def case_prod_beta MariaDB_GetRecord_fst MariaDB_GetRecord_snd)

lemma fallback_found:
  fixes L :: lib and cfg :: Config
  assumes "\<not> fails v (DbGetRecord zone name ty)" "find (matches (collation v) zone name ty) (records v) = Some r"
  defines "st \<equiv> Set (issue (DbGetRecord zone name ty) v)
       (singleCacheKey (Zone r) (Name r) (Type r))
       (marshal_Record L r) (if redis_cache_TTL cfg = 0 then 0 else seconds (redis_cache_TTL cfg))"
  shows "store_single_fallback L cfg v m q zone name ty =
     (fst (addAnswerFromRecord L m r q), m\<lparr>Answer := Answer m @ answers_of L q [r]\<rparr>,
      warn_if ''Failed to cache record'' (fst st) (snd st))"
  using assms(1,2) unfolding st_def
  by (simp add: store_single_fallback_def case_prod_beta MariaDB_GetRecord_fst
      MariaDB_GetRecord_snd SetRecord_eq addAnswerFromRecord_answers prod_eq_iff)


lemma stored_set_findZone [simp]:
  "stored_set (snd (findZone w n)) z n' t = stored_set w z n' t"
  by (simp add: stored_set_def)

lemma cached_findZone [simp]:
  "cached_set L (snd (findZone w n)) z n' t = cached_set L w z n' t"
  "cached_single L (snd (findZone w n)) z n' t = cached_single L w z n' t"
  by (simp_all add: cached_set_eq cached_single_eq)

text \<open>
  C1, as amended. Once the zone resolver has found a zone for the query name, \<open>handleQuery\<close>
  goes on in this order, the first success ending it: a non-empty record set under the
  record-set cache key of the zone found, the name asked and the type asked is answered from,
  with one cache read and nothing else; else a record under the single-record key is answered
  from, with the two cache reads and nothing else; else the store is asked for all matching
  records, and a non-empty result is answered from and written under the record-set key made
  of the first returned record's zone, name and type as they are stored, which the store
  holds equal to those of the query and which give the key looked up when they are spelled
  the same; else the block of the single-record store lookup runs, which in any world where
  the lookup finds a record writes it under the single-record key of that record's stored
  zone, name and type and answers from it, and which after an empty record-set read finds
  nothing and leaves the answer empty. The cache is left as it was on both kinds of hit. (The
  zone resolver itself reads the store on every query; the operations listed are those after
  it.)
\<close>

theorem handleQuery_resolution_order:
  fixes L :: lib and cfg :: Config and w v :: world and m :: Msg and q :: Question
    and zone :: string and r :: Record
  defines "name \<equiv> TrimSuffix (q_Name q) (CHR ''.'')"
  defines "ty \<equiv> TypeToString L (Qtype q)"
  defines "w1 \<equiv> snd (findZone w name)"
  defines "mk \<equiv> multiCacheKey zone name ty"
  defines "sk \<equiv> singleCacheKey zone name ty"
  defines "exp \<equiv> (if redis_cache_TTL cfg = 0 then 0 else seconds (redis_cache_TTL cfg))"
  defines "res \<equiv> handleQuery L cfg w m q"
  defines "fb \<equiv> store_single_fallback L cfg v m q zone name ty"
  defines "rs \<equiv> stored_set w zone name ty"
  defines "wk \<equiv> multiCacheKey (Zone (hd rs)) (Name (hd rs)) (Type (hd rs))"
  assumes found: "fst (findZone w name) = Inr zone" "zone \<noteq> []"
  shows "(cached_set L w zone name ty \<noteq> [] \<longrightarrow>
            fst res = None
          \<and> fst (snd res) = m\<lparr>Answer := Answer m @ answers_of L q (cached_set L w zone name ty)\<rparr>
          \<and> trace (snd (snd res)) = trace w1 @ [RedisGet mk]
          \<and> kv (snd (snd res)) = kv w)
       \<and> (cached_set L w zone name ty = [] \<and> cached_single L w zone name ty = Some r \<longrightarrow>
            fst res = fst (addAnswerFromRecord L m r q)
          \<and> fst (snd res) = m\<lparr>Answer := Answer m @ answers_of L q [r]\<rparr>
          \<and> trace (snd (snd res)) = trace w1 @ [RedisGet mk, RedisGet sk]
          \<and> kv (snd (snd res)) = kv w)
       \<and> (cached_set L w zone name ty = [] \<and> cached_single L w zone name ty = None
          \<and> \<not> fails w (DbGetRecordsByNameAndType zone name ty) \<and> rs \<noteq> [] \<longrightarrow>
            fst res = None
          \<and> fst (snd res) = m\<lparr>Answer := Answer m @ answers_of L q rs\<rparr>
          \<and> trace (snd (snd res)) =
              trace w1 @ [RedisGet mk, RedisGet sk, DbGetRecordsByNameAndType zone name ty,
                          RedisSet wk (marshal_Records L rs) exp]
          \<and> kv (snd (snd res)) =
              (if fails w (RedisSet wk (marshal_Records L rs) exp) then kv w
               else (kv w)(wk \<mapsto> (marshal_Records L rs, exp)))
          \<and> collation w (Zone (hd rs)) zone \<and> collation w (Name (hd rs)) name
          \<and> collation w (Type (hd rs)) ty
          \<and> (Zone (hd rs) = zone \<and> Name (hd rs) = name \<and> Type (hd rs) = ty \<longrightarrow> wk = mk))
       \<and> (cached_set L w zone name ty = [] \<and> cached_single L w zone name ty = None
          \<and> \<not> fails w (DbGetRecordsByNameAndType zone name ty) \<and> rs = [] \<longrightarrow>
            res = store_single_fallback L cfg
                    (issue (DbGetRecordsByNameAndType zone name ty)
                       (count_CacheMiss (issue (RedisGet sk) (issue (RedisGet mk) w1))))
                    m q zone name ty
          \<and> (\<not> fails w (DbGetRecord zone name ty) \<longrightarrow>
                fst res = None \<and> fst (snd res) = m
              \<and> trace (snd (snd res)) =
                  trace w1 @ [RedisGet mk, RedisGet sk, DbGetRecordsByNameAndType zone name ty,
                              DbGetRecord zone name ty]
              \<and> kv (snd (snd res)) = kv w))
       \<and> (\<not> fails v (DbGetRecord zone name ty)
          \<and> find (matches (collation v) zone name ty) (records v) = Some r \<longrightarrow>
            fst fb = fst (addAnswerFromRecord L m r q)
          \<and> fst (snd fb) = m\<lparr>Answer := Answer m @ answers_of L q [r]\<rparr>
          \<and> trace (snd (snd fb)) =
              trace v @ [DbGetRecord zone name ty,
                         RedisSet (singleCacheKey (Zone r) (Name r) (Type r)) (marshal_Record L r)
                           exp]
          \<and> kv (snd (snd fb)) =
              (if fails v (RedisSet (singleCacheKey (Zone r) (Name r) (Type r))
                             (marshal_Record L r) exp) then kv v
               else (kv v)(singleCacheKey (Zone r) (Name r) (Type r) \<mapsto>
                             (marshal_Record L r, exp))))"
proof -
  have fz: "findZone w (TrimSuffix (q_Name q) (CHR ''.'')) = (Inr zone, w1)"
    using found(1) by (simp add: w1_def name_def prod_eq_iff)
  note nm = name_def[THEN meta_eq_to_obj_eq] and tm = ty_def[THEN meta_eq_to_obj_eq]
  have c1: "cached_set L w1 zone name ty = cached_set L w zone name ty"
    "cached_single L w1 zone name ty = cached_single L w zone name ty"
    "stored_set w1 zone name ty = stored_set w zone name ty"
    "fails w1 = fails w" "kv w1 = kv w"
    by (simp_all add: w1_def)
  have p1: "cached_set L w zone name ty \<noteq> [] \<longrightarrow>
            fst res = None
          \<and> fst (snd res) = m\<lparr>Answer := Answer m @ answers_of L q (cached_set L w zone name ty)\<rparr>
          \<and> trace (snd (snd res)) = trace w1 @ [RedisGet mk]
          \<and> kv (snd (snd res)) = kv w"
  proof
    assume "cached_set L w zone name ty \<noteq> []"
    then have "cached_set L w1 zone name ty \<noteq> []" by (simp add: c1)
    from hq_set_hit[OF fz found(2) nm tm this, of cfg m] show "fst res = None
          \<and> fst (snd res) = m\<lparr>Answer := Answer m @ answers_of L q (cached_set L w zone name ty)\<rparr>
          \<and> trace (snd (snd res)) = trace w1 @ [RedisGet mk]
          \<and> kv (snd (snd res)) = kv w"
      by (simp add: res_def c1 mk_def)
  qed
  have p2: "cached_set L w zone name ty = [] \<and> cached_single L w zone name ty = Some r \<longrightarrow>
            fst res = fst (addAnswerFromRecord L m r q)
          \<and> fst (snd res) = m\<lparr>Answer := Answer m @ answers_of L q [r]\<rparr>
          \<and> trace (snd (snd res)) = trace w1 @ [RedisGet mk, RedisGet sk]
          \<and> kv (snd (snd res)) = kv w"
  proof
    assume a: "cached_set L w zone name ty = [] \<and> cached_single L w zone name ty = Some r"
    then have "cached_set L w1 zone name ty = []" "cached_single L w1 zone name ty = Some r"
      by (simp_all add: c1)
    from hq_single_hit[OF fz found(2) nm tm this, of cfg m] show "fst res = fst (addAnswerFromRecord L m r q)
          \<and> fst (snd res) = m\<lparr>Answer := Answer m @ answers_of L q [r]\<rparr>
          \<and> trace (snd (snd res)) = trace w1 @ [RedisGet mk, RedisGet sk]
          \<and> kv (snd (snd res)) = kv w"
      by (simp add: res_def c1 mk_def sk_def)
  qed
  have p3: "cached_set L w zone name ty = [] \<and> cached_single L w zone name ty = None
          \<and> \<not> fails w (DbGetRecordsByNameAndType zone name ty) \<and> rs \<noteq> [] \<longrightarrow>
            fst res = None
          \<and> fst (snd res) = m\<lparr>Answer := Answer m @ answers_of L q rs\<rparr>
          \<and> trace (snd (snd res)) =
              trace w1 @ [RedisGet mk, RedisGet sk, DbGetRecordsByNameAndType zone name ty,
                          RedisSet wk (marshal_Records L rs) exp]
          \<and> kv (snd (snd res)) =
              (if fails w (RedisSet wk (marshal_Records L rs) exp) then kv w
               else (kv w)(wk \<mapsto> (marshal_Records L rs, exp)))
          \<and> collation w (Zone (hd rs)) zone \<and> collation w (Name (hd rs)) name
          \<and> collation w (Type (hd rs)) ty
          \<and> (Zone (hd rs) = zone \<and> Name (hd rs) = name \<and> Type (hd rs) = ty \<longrightarrow> wk = mk)"
  proof
    assume a: "cached_set L w zone name ty = [] \<and> cached_single L w zone name ty = None
          \<and> \<not> fails w (DbGetRecordsByNameAndType zone name ty) \<and> rs \<noteq> []"
    then obtain x xs where xs: "stored_set w zone name ty = x # xs"
      unfolding rs_def by (cases "stored_set w zone name ty") auto
    have h: "cached_set L w1 zone name ty = []" "cached_single L w1 zone name ty = None"
      "\<not> fails w1 (DbGetRecordsByNameAndType zone name ty)" "stored_set w1 zone name ty = x # xs"
      using a xs by (simp_all add: c1)
    have k: "collation w (Zone (hd rs)) zone \<and> collation w (Name (hd rs)) name
          \<and> collation w (Type (hd rs)) ty
          \<and> (Zone (hd rs) = zone \<and> Name (hd rs) = name \<and> Type (hd rs) = ty \<longrightarrow> wk = mk)"
      using stored_set_Cons_matches[OF xs] by (simp add: rs_def xs wk_def mk_def)
    from hq_store_set[OF fz found(2) nm tm h, of cfg m]
    have h1: "fst res = None
          \<and> fst (snd res) = m\<lparr>Answer := Answer m @ answers_of L q rs\<rparr>
          \<and> trace (snd (snd res)) =
              trace w1 @ [RedisGet mk, RedisGet sk, DbGetRecordsByNameAndType zone name ty,
                          RedisSet wk (marshal_Records L rs) exp]
          \<and> kv (snd (snd res)) =
              (if fails w (RedisSet wk (marshal_Records L rs) exp) then kv w
               else (kv w)(wk \<mapsto> (marshal_Records L rs, exp)))"
      by (simp add: res_def c1 mk_def sk_def wk_def rs_def xs exp_def Set_kv)
    show "fst res = None
          \<and> fst (snd res) = m\<lparr>Answer := Answer m @ answers_of L q rs\<rparr>
          \<and> trace (snd (snd res)) =
              trace w1 @ [RedisGet mk, RedisGet sk, DbGetRecordsByNameAndType zone name ty,
                          RedisSet wk (marshal_Records L rs) exp]
          \<and> kv (snd (snd res)) =
              (if fails w (RedisSet wk (marshal_Records L rs) exp) then kv w
               else (kv w)(wk \<mapsto> (marshal_Records L rs, exp)))
          \<and> collation w (Zone (hd rs)) zone \<and> collation w (Name (hd rs)) name
          \<and> collation w (Type (hd rs)) ty
          \<and> (Zone (hd rs) = zone \<and> Name (hd rs) = name \<and> Type (hd rs) = ty \<longrightarrow> wk = mk)"
      by (intro conjI h1[THEN conjunct1] h1[THEN conjunct2, THEN conjunct1]
          h1[THEN conjunct2, THEN conjunct2, THEN conjunct1]
          h1[THEN conjunct2, THEN conjunct2, THEN conjunct2]
          k[THEN conjunct1] k[THEN conjunct2, THEN conjunct1]
          k[THEN conjunct2, THEN conjunct2, THEN conjunct1]
          k[THEN conjunct2, THEN conjunct2, THEN conjunct2])
  qed
  have p4: "cached_set L w zone name ty = [] \<and> cached_single L w zone name ty = None
          \<and> \<not> fails w (DbGetRecordsByNameAndType zone name ty) \<and> rs = [] \<longrightarrow>
            res = store_single_fallback L cfg
                    (issue (DbGetRecordsByNameAndType zone name ty)
                       (count_CacheMiss (issue (RedisGet sk) (issue (RedisGet mk) w1))))
                    m q zone name ty
          \<and> (\<not> fails w (DbGetRecord zone name ty) \<longrightarrow>
                fst res = None \<and> fst (snd res) = m
              \<and> trace (snd (snd res)) =
                  trace w1 @ [RedisGet mk, RedisGet sk, DbGetRecordsByNameAndType zone name ty,
                              DbGetRecord zone name ty]
              \<and> kv (snd (snd res)) = kv w)"
  proof
    assume a: "cached_set L w zone name ty = [] \<and> cached_single L w zone name ty = None
          \<and> \<not> fails w (DbGetRecordsByNameAndType zone name ty) \<and> rs = []"
    let ?w4 = "issue (DbGetRecordsByNameAndType zone name ty)
                       (count_CacheMiss (issue (RedisGet sk) (issue (RedisGet mk) w1)))"
    have h: "cached_set L w1 zone name ty = []" "cached_single L w1 zone name ty = None"
      "\<not> fails w1 (DbGetRecordsByNameAndType zone name ty)" "stored_set w1 zone name ty = []"
      using a by (simp_all add: c1 rs_def)
    have e: "res = store_single_fallback L cfg ?w4 m q zone name ty"
      using hq_store_empty[OF fz found(2) nm tm h, of cfg m] by (simp add: res_def mk_def sk_def)
    have n: "find (matches (collation ?w4) zone name ty) (records ?w4) = None"
      using a find_matches_None[of w zone name ty] by (simp add: w1_def rs_def)
    have "fst res = None \<and> fst (snd res) = m
              \<and> trace (snd (snd res)) =
                  trace w1 @ [RedisGet mk, RedisGet sk, DbGetRecordsByNameAndType zone name ty,
                              DbGetRecord zone name ty]
              \<and> kv (snd (snd res)) = kv w" if "\<not> fails w (DbGetRecord zone name ty)"
      unfolding e using fallback_none[of ?w4 zone name ty L cfg m q] that n
      by (simp add: c1)
    with e show "res = store_single_fallback L cfg ?w4 m q zone name ty
          \<and> (\<not> fails w (DbGetRecord zone name ty) \<longrightarrow>
                fst res = None \<and> fst (snd res) = m
              \<and> trace (snd (snd res)) =
                  trace w1 @ [RedisGet mk, RedisGet sk, DbGetRecordsByNameAndType zone name ty,
                              DbGetRecord zone name ty]
              \<and> kv (snd (snd res)) = kv w)" by blast
  qed
  have p5: "\<not> fails v (DbGetRecord zone name ty)
          \<and> find (matches (collation v) zone name ty) (records v) = Some r \<longrightarrow>
            fst fb = fst (addAnswerFromRecord L m r q)
          \<and> fst (snd fb) = m\<lparr>Answer := Answer m @ answers_of L q [r]\<rparr>
          \<and> trace (snd (snd fb)) =
              trace v @ [DbGetRecord zone name ty,
                         RedisSet (singleCacheKey (Zone r) (Name r) (Type r)) (marshal_Record L r)
                           exp]
          \<and> kv (snd (snd fb)) =
              (if fails v (RedisSet (singleCacheKey (Zone r) (Name r) (Type r))
                             (marshal_Record L r) exp) then kv v
               else (kv v)(singleCacheKey (Zone r) (Name r) (Type r) \<mapsto>
                             (marshal_Record L r, exp)))"
  proof
    assume a: "\<not> fails v (DbGetRecord zone name ty)
          \<and> find (matches (collation v) zone name ty) (records v) = Some r"
    from fallback_found[OF a[THEN conjunct1] a[THEN conjunct2], of L cfg m q]
    show "fst fb = fst (addAnswerFromRecord L m r q)
          \<and> fst (snd fb) = m\<lparr>Answer := Answer m @ answers_of L q [r]\<rparr>
          \<and> trace (snd (snd fb)) =
              trace v @ [DbGetRecord zone name ty,
                         RedisSet (singleCacheKey (Zone r) (Name r) (Type r)) (marshal_Record L r)
                           exp]
          \<and> kv (snd (snd fb)) =
              (if fails v (RedisSet (singleCacheKey (Zone r) (Name r) (Type r))
                             (marshal_Record L r) exp) then kv v
               else (kv v)(singleCacheKey (Zone r) (Name r) (Type r) \<mapsto>
                             (marshal_Record L r, exp)))"
      by (simp add: fb_def exp_def Set_kv)
  qed
  show ?thesis by (intro conjI p1 p2 p3 p4 p5)
qed

lemma legacy_cache_fields [simp]:
  "collation legacy_cache = general_ci"
  "\<not> fails legacy_cache c" "records legacy_cache = [www_a]"
  "zones legacy_cache = [\<lparr>zone_ID = 1, zone_Name = ''example.com''\<rparr>]"
  "trace legacy_cache = []"
  by (simp_all add: legacy_cache_def)

lemma findZone_example:
  assumes "collation w = general_ci" "zones w = [\<lparr>zone_ID = 1, zone_Name = ''example.com''\<rparr>]"
    and "\<And>c. \<not> fails w c"
  shows "fst (findZone w ''www.example.com'') = Inr ''example.com''"
    and "fst (findZone w ''mail.example.com'') = Inr ''example.com''"
    and "trace (snd (findZone w ''www.example.com'')) =
           trace w @ [DbGetZone ''www.example.com'', DbGetZone ''example.com'']"
    and "trace (snd (findZone w ''mail.example.com'')) =
           trace w @ [DbGetZone ''mail.example.com'', DbGetZone ''example.com'']"
    and "fst (findZone w ''WWW.example.com'') = Inr ''example.com''"
    and "trace (snd (findZone w ''WWW.example.com'')) =
           trace w @ [DbGetZone ''WWW.example.com'', DbGetZone ''example.com'']"
  using assms by (simp_all add: findZone_def GetZone_def general_ci_def)

lemma demo_query [simp]:
  "TrimSuffix (q_Name q_www) (CHR ''.'') = ''www.example.com''"
  "TrimSuffix (q_Name q_mail) (CHR ''.'') = ''mail.example.com''"
  "TrimSuffix (q_Name q_WWW) (CHR ''.'') = ''WWW.example.com''"
  "TypeToString demo_lib (Qtype q_www) = ''A''" "TypeToString demo_lib (Qtype q_mail) = ''A''"
  "TypeToString demo_lib (Qtype q_WWW) = ''A''"
  by (simp_all add: q_www_def q_mail_def q_WWW_def TrimSuffix_def demo_lib_def)

lemma demo_keys [simp]:
  "multiCacheKey ''example.com'' ''www.example.com'' ''A'' = ''dns:records:example.com:www.example.com:A''"
  "singleCacheKey ''example.com'' ''www.example.com'' ''A'' = ''dns:record:example.com:www.example.com:A''"
  "multiCacheKey ''example.com'' ''mail.example.com'' ''A'' = ''dns:records:example.com:mail.example.com:A''"
  "singleCacheKey ''example.com'' ''mail.example.com'' ''A'' = ''dns:record:example.com:mail.example.com:A''"
  "multiCacheKey ''example.com'' ''WWW.example.com'' ''A'' = ''dns:records:example.com:WWW.example.com:A''"
  "singleCacheKey ''example.com'' ''WWW.example.com'' ''A'' = ''dns:record:example.com:WWW.example.com:A''"
  by (simp_all add: multiCacheKey_def singleCacheKey_def)

lemma demo_answers [simp]:
  "answers_of demo_lib q_www [www_a] = [www_answer]"
  "answers_of demo_lib q_WWW [www_a] = [WWW_answer]"
  by (simp_all add: answers_of_def rr_of_record_def www_a_def TypeA_def Hdr_def q_www_def
      q_WWW_def ClassINET_def uint32_def demo_lib_def www_answer_def WWW_answer_def)

lemma demo_cached [simp]:
  "cached_set demo_lib warm_cache ''example.com'' ''www.example.com'' ''A'' = [www_a]"
  "cached_set demo_lib legacy_cache ''example.com'' ''www.example.com'' ''A'' = []"
  "cached_single demo_lib legacy_cache ''example.com'' ''www.example.com'' ''A'' = Some www_a"
  "cached_set demo_lib one_zone ''example.com'' n ''A'' = []"
  "cached_single demo_lib one_zone ''example.com'' n ''A'' = None"
  by (simp_all add: cached_set_eq cached_single_eq warm_cache_def legacy_cache_def demo_lib_def)

lemma www_a_fields [simp]:
  "Zone www_a = ''example.com''" "Name www_a = ''www.example.com''" "Type www_a = ''A''"
  by (simp_all add: www_a_def)

lemma demo_stored [simp]:
  "stored_set one_zone ''example.com'' ''www.example.com'' ''A'' = [www_a]"
  "stored_set one_zone ''example.com'' ''WWW.example.com'' ''A'' = [www_a]"
  "stored_set one_zone ''example.com'' ''mail.example.com'' ''A'' = []"
  "find (matches (collation one_zone) ''example.com'' ''www.example.com'' ''A'') (records one_zone) = Some www_a"
  by (simp_all add: stored_set_def matches_def general_ci_def)

lemma demo_marshal [simp]:
  "marshal_Records demo_lib [www_a] = ''records:www.example.com''"
  "marshal_Record demo_lib www_a = ''record:www.example.com''"
  by (simp_all add: demo_lib_def)

lemma demo_expiration [simp]:
  "(if redis_cache_TTL demo_cfg = 0 then 0 else seconds (redis_cache_TTL demo_cfg)) = 5000000000"
  by (simp add: demo_cfg_def seconds_def wrap64_def)

text \<open>The store's fill of the record-set cache after a miss.\<close>

lemma store_fill:
  fixes L :: lib and cfg :: Config
  defines "exp \<equiv> (if redis_cache_TTL cfg = 0 then 0 else seconds (redis_cache_TTL cfg))"
  assumes "fst (findZone w (TrimSuffix (q_Name q) (CHR ''.''))) = Inr zone" "zone \<noteq> []"
    and "name = TrimSuffix (q_Name q) (CHR ''.'')" "ty = TypeToString L (Qtype q)"
    and "cached_set L w zone name ty = []" "cached_single L w zone name ty = None"
    and "\<not> fails w (DbGetRecordsByNameAndType zone name ty)"
    and "stored_set w zone name ty = x # xs"
  shows "trace (snd (snd (handleQuery L cfg w m q))) =
           trace (snd (findZone w name)) @
             [RedisGet (multiCacheKey zone name ty), RedisGet (singleCacheKey zone name ty),
              DbGetRecordsByNameAndType zone name ty,
              RedisSet (multiCacheKey (Zone x) (Name x) (Type x)) (marshal_Records L (x # xs)) exp]"
    and "kv (snd (snd (handleQuery L cfg w m q))) =
           (if fails w (RedisSet (multiCacheKey (Zone x) (Name x) (Type x))
                          (marshal_Records L (x # xs)) exp)
            then kv w
            else (kv w)(multiCacheKey (Zone x) (Name x) (Type x) \<mapsto>
                          (marshal_Records L (x # xs), exp)))"
    and "fst (snd (handleQuery L cfg w m q)) = m\<lparr>Answer := Answer m @ answers_of L q (x # xs)\<rparr>"
proof -
  let ?w1 = "snd (findZone w name)"
  have fz: "findZone w (TrimSuffix (q_Name q) (CHR ''.'')) = (Inr zone, ?w1)"
    using assms(2,4) by (simp add: prod_eq_iff)
  have h: "cached_set L ?w1 zone name ty = []" "cached_single L ?w1 zone name ty = None"
      "\<not> fails ?w1 (DbGetRecordsByNameAndType zone name ty)" "stored_set ?w1 zone name ty = x # xs"
    using assms(6-9) by simp_all
  note e = hq_store_set[OF fz assms(3,4,5) h, of cfg m]
  show "trace (snd (snd (handleQuery L cfg w m q))) =
           trace (snd (findZone w name)) @
             [RedisGet (multiCacheKey zone name ty), RedisGet (singleCacheKey zone name ty),
              DbGetRecordsByNameAndType zone name ty,
              RedisSet (multiCacheKey (Zone x) (Name x) (Type x)) (marshal_Records L (x # xs)) exp]"
    by (subst e) (simp add: exp_def)
  show "kv (snd (snd (handleQuery L cfg w m q))) =
           (if fails w (RedisSet (multiCacheKey (Zone x) (Name x) (Type x))
                          (marshal_Records L (x # xs)) exp)
            then kv w
            else (kv w)(multiCacheKey (Zone x) (Name x) (Type x) \<mapsto>
                          (marshal_Records L (x # xs), exp)))"
    by (subst e) (simp add: exp_def Set_kv)
  show "fst (snd (handleQuery L cfg w m q)) = m\<lparr>Answer := Answer m @ answers_of L q (x # xs)\<rparr>"
    by (subst e) simp
qed

text \<open>C1 as stated fails on the key of the write: the store holds the name
  \<open>www.example.com\<close>, the query asks for \<open>WWW.example.com\<close>; the record set is looked up
  under the key of the name asked and written under the key of the name stored, and the key
  looked up is still empty after the query.\<close>

theorem handleQuery_resolution_order_counterexample:
  "trace (snd (snd (handleQuery demo_lib demo_cfg one_zone reply q_WWW))) =
       [DbGetZone ''WWW.example.com'', DbGetZone ''example.com'',
        RedisGet ''dns:records:example.com:WWW.example.com:A'',
        RedisGet ''dns:record:example.com:WWW.example.com:A'',
        DbGetRecordsByNameAndType ''example.com'' ''WWW.example.com'' ''A'',
        RedisSet ''dns:records:example.com:www.example.com:A'' ''records:www.example.com''
          5000000000]
   \<and> fst (snd (handleQuery demo_lib demo_cfg one_zone reply q_WWW)) =
       reply\<lparr>Answer := [WWW_answer]\<rparr>
   \<and> kv (snd (snd (handleQuery demo_lib demo_cfg one_zone reply q_WWW)))
        ''dns:records:example.com:WWW.example.com:A'' = None
   \<and> kv (snd (snd (handleQuery demo_lib demo_cfg one_zone reply q_WWW)))
        ''dns:records:example.com:www.example.com:A'' =
       Some (''records:www.example.com'', 5000000000)"
proof -
  have f: "fst (findZone one_zone (TrimSuffix (q_Name q_WWW) (CHR ''.''))) = Inr ''example.com''"
    by (simp add: findZone_example)
  have s: "stored_set one_zone ''example.com'' ''WWW.example.com'' (TypeToString demo_lib (Qtype q_WWW))
             = www_a # []" by simp
  note t = store_fill[where L=demo_lib and cfg=demo_cfg and m=reply and q=q_WWW and w=one_zone,
      OF f _ demo_query(3)[symmetric] refl _ _ _ s]
  have 1: "trace (snd (snd (handleQuery demo_lib demo_cfg one_zone reply q_WWW))) =
       [DbGetZone ''WWW.example.com'', DbGetZone ''example.com'',
        RedisGet ''dns:records:example.com:WWW.example.com:A'',
        RedisGet ''dns:record:example.com:WWW.example.com:A'',
        DbGetRecordsByNameAndType ''example.com'' ''WWW.example.com'' ''A'',
        RedisSet ''dns:records:example.com:www.example.com:A'' ''records:www.example.com''
          5000000000]"
    by (subst t(1)) (simp_all add: findZone_example)
  have 2: "fst (snd (handleQuery demo_lib demo_cfg one_zone reply q_WWW)) =
       reply\<lparr>Answer := [WWW_answer]\<rparr>"
    by (subst t(3)) (simp_all add: reply_def)
  have 3: "kv (snd (snd (handleQuery demo_lib demo_cfg one_zone reply q_WWW)))
        ''dns:records:example.com:WWW.example.com:A'' = None"
    by (subst t(2)) simp_all
  have 4: "kv (snd (snd (handleQuery demo_lib demo_cfg one_zone reply q_WWW)))
        ''dns:records:example.com:www.example.com:A'' =
       Some (''records:www.example.com'', 5000000000)"
    by (subst t(2)) simp_all
  show ?thesis by (intro conjI 1 2 3 4)
qed

theorem handleQuery_resolution_order_witness:
  "handleQuery demo_lib demo_cfg warm_cache reply q_www =
     (None, reply\<lparr>Answer := [www_answer]\<rparr>,
      snd (snd (handleQuery demo_lib demo_cfg warm_cache reply q_www)))
   \<and> trace (snd (snd (handleQuery demo_lib demo_cfg warm_cache reply q_www))) =
       [DbGetZone ''www.example.com'', DbGetZone ''example.com'',
        RedisGet ''dns:records:example.com:www.example.com:A'']
   \<and> fst (snd (handleQuery demo_lib demo_cfg legacy_cache reply q_www)) =
       reply\<lparr>Answer := [www_answer]\<rparr>
   \<and> trace (snd (snd (handleQuery demo_lib demo_cfg legacy_cache reply q_www))) =
       [DbGetZone ''www.example.com'', DbGetZone ''example.com'',
        RedisGet ''dns:records:example.com:www.example.com:A'',
        RedisGet ''dns:record:example.com:www.example.com:A'']
   \<and> fst (snd (handleQuery demo_lib demo_cfg one_zone reply q_www)) =
       reply\<lparr>Answer := [www_answer]\<rparr>
   \<and> trace (snd (snd (handleQuery demo_lib demo_cfg one_zone reply q_www))) =
       [DbGetZone ''www.example.com'', DbGetZone ''example.com'',
        RedisGet ''dns:records:example.com:www.example.com:A'',
        RedisGet ''dns:record:example.com:www.example.com:A'',
        DbGetRecordsByNameAndType ''example.com'' ''www.example.com'' ''A'',
        RedisSet ''dns:records:example.com:www.example.com:A'' ''records:www.example.com''
          5000000000]
   \<and> kv (snd (snd (handleQuery demo_lib demo_cfg one_zone reply q_www)))
        ''dns:records:example.com:www.example.com:A'' =
       Some (''records:www.example.com'', 5000000000)
   \<and> trace (snd (snd (handleQuery demo_lib demo_cfg one_zone reply q_WWW))) =
       [DbGetZone ''WWW.example.com'', DbGetZone ''example.com'',
        RedisGet ''dns:records:example.com:WWW.example.com:A'',
        RedisGet ''dns:record:example.com:WWW.example.com:A'',
        DbGetRecordsByNameAndType ''example.com'' ''WWW.example.com'' ''A'',
        RedisSet ''dns:records:example.com:www.example.com:A'' ''records:www.example.com''
          5000000000]
   \<and> fst (snd (handleQuery demo_lib demo_cfg one_zone reply q_mail)) = reply
   \<and> trace (snd (snd (handleQuery demo_lib demo_cfg one_zone reply q_mail))) =
       [DbGetZone ''mail.example.com'', DbGetZone ''example.com'',
        RedisGet ''dns:records:example.com:mail.example.com:A'',
        RedisGet ''dns:record:example.com:mail.example.com:A'',
        DbGetRecordsByNameAndType ''example.com'' ''mail.example.com'' ''A'',
        DbGetRecord ''example.com'' ''mail.example.com'' ''A'']
   \<and> trace (snd (snd (store_single_fallback demo_lib demo_cfg one_zone reply q_www
                         ''example.com'' ''www.example.com'' ''A''))) =
       [DbGetRecord ''example.com'' ''www.example.com'' ''A'',
        RedisSet ''dns:record:example.com:www.example.com:A'' ''record:www.example.com''
          5000000000]"
proof -
  have z: "''example.com'' \<noteq> []" by simp
  have c: "collation warm_cache = general_ci" by (simp add: warm_cache_def)
  have f: "fst (findZone warm_cache (TrimSuffix (q_Name q_www) (CHR ''.''))) = Inr ''example.com''"
    "fst (findZone legacy_cache (TrimSuffix (q_Name q_www) (CHR ''.''))) = Inr ''example.com''"
    "fst (findZone one_zone (TrimSuffix (q_Name q_www) (CHR ''.''))) = Inr ''example.com''"
    "fst (findZone one_zone (TrimSuffix (q_Name q_mail) (CHR ''.''))) = Inr ''example.com''"
    "fst (findZone one_zone (TrimSuffix (q_Name q_WWW) (CHR ''.''))) = Inr ''example.com''"
    by (simp_all add: findZone_example c)
  have tz: "trace (snd (findZone warm_cache ''www.example.com'')) =
        [DbGetZone ''www.example.com'', DbGetZone ''example.com'']"
    "trace (snd (findZone legacy_cache ''www.example.com'')) =
        [DbGetZone ''www.example.com'', DbGetZone ''example.com'']"
    "trace (snd (findZone one_zone ''www.example.com'')) =
        [DbGetZone ''www.example.com'', DbGetZone ''example.com'']"
    "trace (snd (findZone one_zone ''mail.example.com'')) =
        [DbGetZone ''mail.example.com'', DbGetZone ''example.com'']"
    "trace (snd (findZone one_zone ''WWW.example.com'')) =
        [DbGetZone ''WWW.example.com'', DbGetZone ''example.com'']"
    by (simp_all add: findZone_example c)
  note t1 = handleQuery_resolution_order[where L=demo_lib and cfg=demo_cfg and w=warm_cache
      and m=reply and q=q_www and r=www_a and v=one_zone, OF f(1) z]
  note t2 = handleQuery_resolution_order[where L=demo_lib and cfg=demo_cfg and w=legacy_cache
      and m=reply and q=q_www and r=www_a and v=one_zone, OF f(2) z]
  note t3 = handleQuery_resolution_order[where L=demo_lib and cfg=demo_cfg and w=one_zone
      and m=reply and q=q_www and r=www_a and v=one_zone, OF f(3) z]
  note t4 = handleQuery_resolution_order[where L=demo_lib and cfg=demo_cfg and w=one_zone
      and m=reply and q=q_mail and r=www_a and v=one_zone, OF f(4) z]
  note t5 = handleQuery_resolution_order[where L=demo_lib and cfg=demo_cfg and w=one_zone
      and m=reply and q=q_WWW and r=www_a and v=one_zone, OF f(5) z]
  have a: "Answer reply = []" by (simp add: reply_def)
  have 1: "handleQuery demo_lib demo_cfg warm_cache reply q_www =
     (None, reply\<lparr>Answer := [www_answer]\<rparr>,
      snd (snd (handleQuery demo_lib demo_cfg warm_cache reply q_www)))
   \<and> trace (snd (snd (handleQuery demo_lib demo_cfg warm_cache reply q_www))) =
       [DbGetZone ''www.example.com'', DbGetZone ''example.com'',
        RedisGet ''dns:records:example.com:www.example.com:A'']"
    using t1[THEN conjunct1] by (simp add: tz a prod_eq_iff)
  have 2: "fst (snd (handleQuery demo_lib demo_cfg legacy_cache reply q_www)) =
       reply\<lparr>Answer := [www_answer]\<rparr>
   \<and> trace (snd (snd (handleQuery demo_lib demo_cfg legacy_cache reply q_www))) =
       [DbGetZone ''www.example.com'', DbGetZone ''example.com'',
        RedisGet ''dns:records:example.com:www.example.com:A'',
        RedisGet ''dns:record:example.com:www.example.com:A'']"
    using t2[THEN conjunct2, THEN conjunct1] by (simp add: tz a)
  have 3: "fst (snd (handleQuery demo_lib demo_cfg one_zone reply q_www)) =
       reply\<lparr>Answer := [www_answer]\<rparr>
   \<and> trace (snd (snd (handleQuery demo_lib demo_cfg one_zone reply q_www))) =
       [DbGetZone ''www.example.com'', DbGetZone ''example.com'',
        RedisGet ''dns:records:example.com:www.example.com:A'',
        RedisGet ''dns:record:example.com:www.example.com:A'',
        DbGetRecordsByNameAndType ''example.com'' ''www.example.com'' ''A'',
        RedisSet ''dns:records:example.com:www.example.com:A'' ''records:www.example.com''
          5000000000]
   \<and> kv (snd (snd (handleQuery demo_lib demo_cfg one_zone reply q_www)))
        ''dns:records:example.com:www.example.com:A'' =
       Some (''records:www.example.com'', 5000000000)"
    using t3[THEN conjunct2, THEN conjunct2, THEN conjunct1]
    by (simp add: tz a)
  have 6: "trace (snd (snd (handleQuery demo_lib demo_cfg one_zone reply q_WWW))) =
       [DbGetZone ''WWW.example.com'', DbGetZone ''example.com'',
        RedisGet ''dns:records:example.com:WWW.example.com:A'',
        RedisGet ''dns:record:example.com:WWW.example.com:A'',
        DbGetRecordsByNameAndType ''example.com'' ''WWW.example.com'' ''A'',
        RedisSet ''dns:records:example.com:www.example.com:A'' ''records:www.example.com''
          5000000000]"
    using t5[THEN conjunct2, THEN conjunct2, THEN conjunct1]
    by (simp add: tz a)
  have 4: "fst (snd (handleQuery demo_lib demo_cfg one_zone reply q_mail)) = reply
   \<and> trace (snd (snd (handleQuery demo_lib demo_cfg one_zone reply q_mail))) =
       [DbGetZone ''mail.example.com'', DbGetZone ''example.com'',
        RedisGet ''dns:records:example.com:mail.example.com:A'',
        RedisGet ''dns:record:example.com:mail.example.com:A'',
        DbGetRecordsByNameAndType ''example.com'' ''mail.example.com'' ''A'',
        DbGetRecord ''example.com'' ''mail.example.com'' ''A'']"
  proof -
    have h: "cached_set demo_lib one_zone ''example.com'' (TrimSuffix (q_Name q_mail) (CHR ''.''))
          (TypeToString demo_lib (Qtype q_mail)) = []
       \<and> cached_single demo_lib one_zone ''example.com'' (TrimSuffix (q_Name q_mail) (CHR ''.''))
          (TypeToString demo_lib (Qtype q_mail)) = None
       \<and> \<not> fails one_zone (DbGetRecordsByNameAndType ''example.com''
             (TrimSuffix (q_Name q_mail) (CHR ''.'')) (TypeToString demo_lib (Qtype q_mail)))
       \<and> stored_set one_zone ''example.com'' (TrimSuffix (q_Name q_mail) (CHR ''.''))
          (TypeToString demo_lib (Qtype q_mail)) = []"
      by simp
    from t4[THEN conjunct2, THEN conjunct2, THEN conjunct2, THEN conjunct1, THEN mp, OF h,
            THEN conjunct2]
    show ?thesis by (simp add: tz)
  qed
  have 5: "trace (snd (snd (store_single_fallback demo_lib demo_cfg one_zone reply q_www
                         ''example.com'' ''www.example.com'' ''A''))) =
       [DbGetRecord ''example.com'' ''www.example.com'' ''A'',
        RedisSet ''dns:record:example.com:www.example.com:A'' ''record:www.example.com''
          5000000000]"
  proof -
    have h: "\<not> fails one_zone (DbGetRecord ''example.com''
             (TrimSuffix (q_Name q_www) (CHR ''.'')) (TypeToString demo_lib (Qtype q_www)))
       \<and> find (matches (collation one_zone) ''example.com'' (TrimSuffix (q_Name q_www) (CHR ''.''))
                (TypeToString demo_lib (Qtype q_www))) (records one_zone) = Some www_a"
      by (simp add: matches_def)
    from t3[THEN conjunct2, THEN conjunct2, THEN conjunct2, THEN conjunct2, THEN mp, OF h]
    show ?thesis by simp
  qed
  show ?thesis using 1 2 3 6 4 5 by blast
qed

section \<open>Expiration of a cache fill\<close>

lemma seconds_small: "0 \<le> n \<Longrightarrow> n \<le> 9223372036 \<Longrightarrow> seconds n = n * 1000000000"
  by (simp add: seconds_def wrap64_def)

text \<open>
  C2, as amended. When a cache-miss read obtains one or more records from the store,
  \<open>handleQuery\<close> issues exactly one cache write, the record set under the record-set
  key of the first record, and the expiration of the write is, for every configured cache
  TTL other than 0, the duration \<open>time.Duration(ttl) * time.Second\<close> of the configured
  TTL, whatever the TTL of the records (the TTL \<open>handleQuery\<close> derives from the first record
  is passed to \<open>SetRecords\<close>, which does not use it); this duration is the configured number
  of seconds as long as the product does not leave the 64-bit range. A configured TTL of 0
  writes the entry with no expiration.
\<close>

theorem cache_fill_expiration:
  fixes L :: lib and cfg :: Config and w :: world and m :: Msg and q :: Question
    and zone :: string
  defines "name \<equiv> TrimSuffix (q_Name q) (CHR ''.'')"
  defines "ty \<equiv> TypeToString L (Qtype q)"
  defines "rs \<equiv> stored_set w zone name ty"
  defines "wk \<equiv> multiCacheKey (Zone (hd rs)) (Name (hd rs)) (Type (hd rs))"
  defines "w' \<equiv> snd (snd (handleQuery L cfg w m q))"
  assumes "fst (findZone w name) = Inr zone" "zone \<noteq> []"
    and "cached_set L w zone name ty = []" "cached_single L w zone name ty = None"
    and "\<not> fails w (DbGetRecordsByNameAndType zone name ty)"
    and "rs \<noteq> []"
  shows "(redis_cache_TTL cfg = 0 \<longrightarrow>
            filter is_cache_write (drop (length (trace (snd (findZone w name)))) (trace w')) =
              [RedisSet wk (marshal_Records L rs) 0]
          \<and> (\<not> fails w (RedisSet wk (marshal_Records L rs) 0) \<longrightarrow>
               kv w' wk = Some (marshal_Records L rs, 0)))
       \<and> (redis_cache_TTL cfg \<noteq> 0 \<longrightarrow>
            filter is_cache_write (drop (length (trace (snd (findZone w name)))) (trace w')) =
              [RedisSet wk (marshal_Records L rs) (seconds (redis_cache_TTL cfg))]
          \<and> (\<not> fails w (RedisSet wk (marshal_Records L rs) (seconds (redis_cache_TTL cfg))) \<longrightarrow>
               kv w' wk = Some (marshal_Records L rs, seconds (redis_cache_TTL cfg))))
       \<and> (0 < redis_cache_TTL cfg \<and> redis_cache_TTL cfg \<le> 9223372036 \<longrightarrow>
            seconds (redis_cache_TTL cfg) = redis_cache_TTL cfg * 1000000000)"
proof -
  from assms(11) obtain x xs where xs: "stored_set w zone name ty = x # xs"
    unfolding rs_def by (cases "stored_set w zone name ty") auto
  note f = store_fill[OF assms(6)[unfolded name_def] assms(7) name_def[THEN meta_eq_to_obj_eq]
      ty_def[THEN meta_eq_to_obj_eq] assms(8-10) xs, of cfg m]
  have k: "wk = multiCacheKey (Zone x) (Name x) (Type x)" "rs = x # xs"
    by (simp_all add: wk_def rs_def xs)
  have 1: "redis_cache_TTL cfg = 0 \<longrightarrow>
            filter is_cache_write (drop (length (trace (snd (findZone w name)))) (trace w')) =
              [RedisSet wk (marshal_Records L rs) 0]
          \<and> (\<not> fails w (RedisSet wk (marshal_Records L rs) 0) \<longrightarrow>
               kv w' wk = Some (marshal_Records L rs, 0))"
    using f(1,2) by (simp add: w'_def k is_cache_write_def)
  have 2: "redis_cache_TTL cfg \<noteq> 0 \<longrightarrow>
            filter is_cache_write (drop (length (trace (snd (findZone w name)))) (trace w')) =
              [RedisSet wk (marshal_Records L rs) (seconds (redis_cache_TTL cfg))]
          \<and> (\<not> fails w (RedisSet wk (marshal_Records L rs) (seconds (redis_cache_TTL cfg))) \<longrightarrow>
               kv w' wk = Some (marshal_Records L rs, seconds (redis_cache_TTL cfg)))"
    using f(1,2) by (simp add: w'_def k is_cache_write_def)
  have 3: "0 < redis_cache_TTL cfg \<and> redis_cache_TTL cfg \<le> 9223372036 \<longrightarrow>
            seconds (redis_cache_TTL cfg) = redis_cache_TTL cfg * 1000000000"
    by (simp add: seconds_small)
  show ?thesis by (intro conjI 1 2 3)
qed

lemma demo_fill:
  "kv (snd (snd (handleQuery demo_lib demo_cfg one_zone reply q_www)))
        ''dns:records:example.com:www.example.com:A'' =
       Some (''records:www.example.com'', 5000000000)"
proof -
  have f: "fst (findZone one_zone (TrimSuffix (q_Name q_www) (CHR ''.''))) = Inr ''example.com''"
    by (simp add: findZone_example)
  have s: "stored_set one_zone ''example.com'' ''www.example.com'' (TypeToString demo_lib (Qtype q_www))
             = www_a # []" by simp
  from store_fill(2)[where cfg=demo_cfg and m=reply, OF f _ demo_query(1)[symmetric] refl _ _ _ s]
  show ?thesis by simp
qed

text \<open>C2 as stated fails: with the configured TTL 5 and a first record of TTL 3600
  the entry expires after 5 seconds.\<close>

theorem cache_fill_expiration_counterexample:
  "stored_set one_zone ''example.com'' ''www.example.com'' ''A'' = [www_a]
   \<and> TTL www_a = 3600 \<and> redis_cache_TTL demo_cfg = 5
   \<and> kv (snd (snd (handleQuery demo_lib demo_cfg one_zone reply q_www)))
        ''dns:records:example.com:www.example.com:A'' =
       Some (''records:www.example.com'', seconds 5)
   \<and> seconds 5 \<noteq> seconds (TTL www_a)"
  using demo_fill by (simp add: www_a_def demo_cfg_def seconds_def wrap64_def)

theorem cache_fill_expiration_witness:
  "kv (snd (snd (handleQuery demo_lib demo_cfg one_zone reply q_www)))
        ''dns:records:example.com:www.example.com:A'' =
       Some (''records:www.example.com'', 5 * 1000000000)
   \<and> filter is_cache_write (drop 2 (trace (snd (snd (handleQuery demo_lib demo_cfg one_zone reply q_www)))))
       = [RedisSet ''dns:records:example.com:www.example.com:A'' ''records:www.example.com''
            5000000000]
   \<and> filter is_cache_write
        (drop 2 (trace (snd (snd (handleQuery demo_lib (demo_cfg\<lparr>redis_cache_TTL := 0\<rparr>)
                                    one_zone reply q_www)))))
       = [RedisSet ''dns:records:example.com:www.example.com:A'' ''records:www.example.com'' 0]
   \<and> filter is_cache_write
        (drop 2 (trace (snd (snd (handleQuery demo_lib (demo_cfg\<lparr>redis_cache_TTL := - 1\<rparr>)
                                    one_zone reply q_www)))))
       = [RedisSet ''dns:records:example.com:www.example.com:A'' ''records:www.example.com''
            (- 1000000000)]"
proof -
  have f: "fst (findZone one_zone (TrimSuffix (q_Name q_www) (CHR ''.''))) = Inr ''example.com''"
    by (simp add: findZone_example)
  have h: "''example.com'' \<noteq> []"
    "cached_set demo_lib one_zone ''example.com'' (TrimSuffix (q_Name q_www) (CHR ''.''))
       (TypeToString demo_lib (Qtype q_www)) = []"
    "cached_single demo_lib one_zone ''example.com'' (TrimSuffix (q_Name q_www) (CHR ''.''))
       (TypeToString demo_lib (Qtype q_www)) = None"
    "\<not> fails one_zone (DbGetRecordsByNameAndType ''example.com''
       (TrimSuffix (q_Name q_www) (CHR ''.'')) (TypeToString demo_lib (Qtype q_www)))"
    "stored_set one_zone ''example.com'' (TrimSuffix (q_Name q_www) (CHR ''.''))
       (TypeToString demo_lib (Qtype q_www)) \<noteq> []"
    by simp_all
  have c: "redis_cache_TTL demo_cfg = 5" "seconds 5 = 5000000000" "seconds (- 1) = - 1000000000"
    by (simp_all add: demo_cfg_def seconds_def wrap64_def)
  note t = cache_fill_expiration[where m=reply, OF f h]
  have 1: "kv (snd (snd (handleQuery demo_lib demo_cfg one_zone reply q_www)))
        ''dns:records:example.com:www.example.com:A'' =
       Some (''records:www.example.com'', 5 * 1000000000)
   \<and> filter is_cache_write (drop 2 (trace (snd (snd (handleQuery demo_lib demo_cfg one_zone reply q_www)))))
       = [RedisSet ''dns:records:example.com:www.example.com:A'' ''records:www.example.com''
            5000000000]"
    using t[where cfg=demo_cfg] by (simp add: findZone_example numeral_2_eq_2 c)
  have 2: "filter is_cache_write
        (drop 2 (trace (snd (snd (handleQuery demo_lib (demo_cfg\<lparr>redis_cache_TTL := 0\<rparr>)
                                    one_zone reply q_www)))))
       = [RedisSet ''dns:records:example.com:www.example.com:A'' ''records:www.example.com'' 0]"
    using t[where cfg="demo_cfg\<lparr>redis_cache_TTL := 0\<rparr>"]
    by (simp add: findZone_example numeral_2_eq_2)
  have 3: "filter is_cache_write
        (drop 2 (trace (snd (snd (handleQuery demo_lib (demo_cfg\<lparr>redis_cache_TTL := - 1\<rparr>)
                                    one_zone reply q_www)))))
       = [RedisSet ''dns:records:example.com:www.example.com:A'' ''records:www.example.com''
            (- 1000000000)]"
    using t[where cfg="demo_cfg\<lparr>redis_cache_TTL := - 1\<rparr>"]
    by (simp add: findZone_example numeral_2_eq_2 c)
  show ?thesis by (intro conjI 1[THEN conjunct1] 1[THEN conjunct2] 2 3)
qed

section \<open>The SOA serial manager\<close>

lemma createDefaultSOARecord_eq:
  "createDefaultSOARecord L cfg now w z =
     (case fst (CreateRecord w (default_SOA L cfg now z)) of
        Some err \<Rightarrow> Some (Errorf ''failed to create SOA record'' err)
      | None \<Rightarrow> None,
      snd (snd (CreateRecord w (default_SOA L cfg now z))))"
  by (simp add: createDefaultSOARecord_def default_SOA_def Let_def case_prod_beta
      split: option.splits)

lemma stored_set_issue [simp]: "stored_set (issue c w) z n t = stored_set w z n t"
  by (simp add: stored_set_def)

lemma zone_exists_cong:
  "zones w1 = zones w2 \<Longrightarrow> collation w1 = collation w2 \<Longrightarrow> zone_exists w1 z = zone_exists w2 z"
  by (simp add: zone_exists_def)

lemma serial_update_no_SOA:
  assumes "\<not> fails w (DbGetRecordsByNameAndType z z TypeSOA)" "stored_set w z z TypeSOA = []"
  shows "updateZoneSOASerial L cfg now w z =
           createDefaultSOARecord L cfg now (issue (DbGetRecordsByNameAndType z z TypeSOA) w) z"
    and "trace (snd (updateZoneSOASerial L cfg now w z)) =
           trace w @ [DbGetRecordsByNameAndType z z TypeSOA, DbCreateRecord (default_SOA L cfg now z)]"
    and "kv (snd (updateZoneSOASerial L cfg now w z)) = kv w"
    and "\<not> fails w (DbCreateRecord (default_SOA L cfg now z)) \<Longrightarrow> zone_exists w z \<Longrightarrow>
           fst (updateZoneSOASerial L cfg now w z) = None
         \<and> records (snd (updateZoneSOASerial L cfg now w z)) =
             records w @ [(default_SOA L cfg now z)\<lparr>ID := next_id w\<rparr>]
         \<and> next_id (snd (updateZoneSOASerial L cfg now w z)) = next_id w + 1"
proof -
  show e: "updateZoneSOASerial L cfg now w z =
           createDefaultSOARecord L cfg now (issue (DbGetRecordsByNameAndType z z TypeSOA) w) z"
    using assms
    by (simp add: updateZoneSOASerial_def case_prod_beta MariaDB_GetRecordsByNameAndType_fst
        MariaDB_GetRecordsByNameAndType_snd stored_set_def[symmetric])
  show "trace (snd (updateZoneSOASerial L cfg now w z)) =
           trace w @ [DbGetRecordsByNameAndType z z TypeSOA, DbCreateRecord (default_SOA L cfg now z)]"
    by (simp add: e createDefaultSOARecord_eq)
  show "kv (snd (updateZoneSOASerial L cfg now w z)) = kv w"
    by (simp add: e createDefaultSOARecord_eq)
  show "fst (updateZoneSOASerial L cfg now w z) = None
         \<and> records (snd (updateZoneSOASerial L cfg now w z)) =
             records w @ [(default_SOA L cfg now z)\<lparr>ID := next_id w\<rparr>]
         \<and> next_id (snd (updateZoneSOASerial L cfg now w z)) = next_id w + 1"
    if "\<not> fails w (DbCreateRecord (default_SOA L cfg now z))" "zone_exists w z"
  proof -
    have "zone_exists (issue (DbGetRecordsByNameAndType z z TypeSOA) w) (Zone (default_SOA L cfg now z))"
      using that(2) by (simp add: default_SOA_def)
    then have "fst (CreateRecord (issue (DbGetRecordsByNameAndType z z TypeSOA) w) (default_SOA L cfg now z)) = None"
      using that(1) by (simp add: CreateRecord_fst)
    then show ?thesis
      by (simp add: e createDefaultSOARecord_eq CreateRecord_records)
  qed
qed

lemma serial_update_existing:
  fixes L :: lib and now :: int and cfg :: Config
  assumes "\<not> fails w (DbGetRecordsByNameAndType z z TypeSOA)"
    and "stored_set w z z TypeSOA = soa # rest" "unmarshal_SOA L (Content soa) = Some d"
  defines "soa' \<equiv> soa\<lparr>Content := marshal_SOA L (d\<lparr>Serial := uint32 now\<rparr>)\<rparr>"
  defines "k1 \<equiv> singleCacheKey (Zone soa) (Name soa) (Type soa)"
  defines "k2 \<equiv> multiCacheKey (Zone soa) (Name soa) (Type soa)"
  shows "fails w (DbUpdateRecord soa') \<Longrightarrow>
           fst (updateZoneSOASerial L cfg now w z) \<noteq> None
         \<and> trace (snd (updateZoneSOASerial L cfg now w z)) =
             trace w @ [DbGetRecordsByNameAndType z z TypeSOA, DbUpdateRecord soa']
         \<and> records (snd (updateZoneSOASerial L cfg now w z)) = records w
         \<and> kv (snd (updateZoneSOASerial L cfg now w z)) = kv w"
    and "\<not> fails w (DbUpdateRecord soa') \<Longrightarrow>
           fst (updateZoneSOASerial L cfg now w z) = None
         \<and> trace (snd (updateZoneSOASerial L cfg now w z)) =
             trace w @ [DbGetRecordsByNameAndType z z TypeSOA, DbUpdateRecord soa',
                        RedisDel [k1], RedisDel [k2]]
         \<and> records (snd (updateZoneSOASerial L cfg now w z)) =
             map (\<lambda>x. if ID x = ID soa
                       then x\<lparr>Content := Content soa', TTL := TTL soa, Priority := Priority soa\<rparr>
                       else x) (records w)
         \<and> next_id (snd (updateZoneSOASerial L cfg now w z)) = next_id w
         \<and> kv (snd (updateZoneSOASerial L cfg now w z)) =
             (\<lambda>k. if k = k1 \<and> \<not> fails w (RedisDel [k1]) \<or> k = k2 \<and> \<not> fails w (RedisDel [k2])
                   then None else kv w k)"
proof -
  have g: "fst (MariaDB_GetRecordsByNameAndType w z z TypeSOA) = Inr (soa # rest)"
    using assms(1,2) by (simp add: MariaDB_GetRecordsByNameAndType_fst stored_set_def)
  show "fst (updateZoneSOASerial L cfg now w z) \<noteq> None
         \<and> trace (snd (updateZoneSOASerial L cfg now w z)) =
             trace w @ [DbGetRecordsByNameAndType z z TypeSOA, DbUpdateRecord soa']
         \<and> records (snd (updateZoneSOASerial L cfg now w z)) = records w
         \<and> kv (snd (updateZoneSOASerial L cfg now w z)) = kv w" if "fails w (DbUpdateRecord soa')"
    using that g assms(3) unfolding soa'_def
    by (simp add: updateZoneSOASerial_def case_prod_beta Let_def UpdateRecord_fst
        MariaDB_GetRecordsByNameAndType_snd UpdateRecord_records)
  show "fst (updateZoneSOASerial L cfg now w z) = None
         \<and> trace (snd (updateZoneSOASerial L cfg now w z)) =
             trace w @ [DbGetRecordsByNameAndType z z TypeSOA, DbUpdateRecord soa',
                        RedisDel [k1], RedisDel [k2]]
         \<and> records (snd (updateZoneSOASerial L cfg now w z)) =
             map (\<lambda>x. if ID x = ID soa
                       then x\<lparr>Content := Content soa', TTL := TTL soa, Priority := Priority soa\<rparr>
                       else x) (records w)
         \<and> next_id (snd (updateZoneSOASerial L cfg now w z)) = next_id w
         \<and> kv (snd (updateZoneSOASerial L cfg now w z)) =
             (\<lambda>k. if k = k1 \<and> \<not> fails w (RedisDel [k1]) \<or> k = k2 \<and> \<not> fails w (RedisDel [k2])
                   then None else kv w k)" if "\<not> fails w (DbUpdateRecord soa')"
    using that g assms(3) unfolding soa'_def k1_def k2_def
    by (auto simp add: updateZoneSOASerial_def case_prod_beta Let_def UpdateRecord_fst
        MariaDB_GetRecordsByNameAndType_snd UpdateRecord_records Del_kv fun_eq_iff)
qed


lemma updateZoneSOASerial_fields [simp]:
  "collation (snd (updateZoneSOASerial L cfg now w z)) = collation w"
  "fails (snd (updateZoneSOASerial L cfg now w z)) = fails w"
  "zones (snd (updateZoneSOASerial L cfg now w z)) = zones w"
  by (simp_all add: updateZoneSOASerial_def case_prod_beta Let_def createDefaultSOARecord_eq
      MariaDB_GetRecordsByNameAndType_snd split: sum.splits list.splits option.splits)

lemma bump_SOA [simp]: "Type r = TypeSOA \<Longrightarrow> bump_unless_SOA L cfg now w z r = w"
  by (simp add: bump_unless_SOA_def)

lemma bump_not_SOA:
  assumes "Type r \<noteq> TypeSOA"
  shows "trace (bump_unless_SOA L cfg now w z r) = trace (snd (updateZoneSOASerial L cfg now w z))"
    and "records (bump_unless_SOA L cfg now w z r) = records (snd (updateZoneSOASerial L cfg now w z))"
    and "kv (bump_unless_SOA L cfg now w z r) = kv (snd (updateZoneSOASerial L cfg now w z))"
    and "next_id (bump_unless_SOA L cfg now w z r) = next_id (snd (updateZoneSOASerial L cfg now w z))"
  using assms by (simp_all add: bump_unless_SOA_def case_prod_beta)

lemma bump_fields [simp]:
  "collation (bump_unless_SOA L cfg now w z r) = collation w"
  "fails (bump_unless_SOA L cfg now w z r) = fails w"
  "zones (bump_unless_SOA L cfg now w z r) = zones w"
  by (simp_all add: bump_unless_SOA_def case_prod_beta)

lemma invalidate_and_publish_fields [simp]:
  "collation (invalidate_and_publish L w r) = collation w"
  "records (invalidate_and_publish L w r) = records w"
  "zones (invalidate_and_publish L w r) = zones w"
  "fails (invalidate_and_publish L w r) = fails w"
  "next_id (invalidate_and_publish L w r) = next_id w"
  by (simp_all add: invalidate_and_publish_def case_prod_beta)

lemma invalidate_and_publish_kv:
  "kv (invalidate_and_publish L w r) =
     (\<lambda>k. if k = singleCacheKey (Zone r) (Name r) (Type r)
              \<and> \<not> fails w (RedisDel [singleCacheKey (Zone r) (Name r) (Type r)])
            \<or> k = multiCacheKey (Zone r) (Name r) (Type r)
              \<and> \<not> fails w (RedisDel [multiCacheKey (Zone r) (Name r) (Type r)])
           then None else kv w k)"
  by (auto simp add: invalidate_and_publish_def case_prod_beta Del_kv fun_eq_iff)

lemma DeleteRecord_fst:
  "fst (DeleteRecord w i) = (if fails w (DbDeleteRecord i) then Some StoreUnavailable else None)"
  by (simp add: DeleteRecord_def)

lemma DeleteRecord_records:
  "records (snd (DeleteRecord w i)) =
     (if fails w (DbDeleteRecord i) then records w else filter (\<lambda>x. ID x \<noteq> i) (records w))"
  "next_id (snd (DeleteRecord w i)) = next_id w"
  by (simp_all add: DeleteRecord_def)

lemma deleteRecordHandler_success_iff:
  "Success (fst (deleteRecordHandler L cfg now w z (Some i))) \<longleftrightarrow>
     (\<exists>zn. fst (GetZone w z) = Inr (Some zn))
     \<and> (\<exists>r0. fst (GetRecordByID (issue (DbGetZone z) w) i) = Inr (Some r0))
     \<and> fst (DeleteRecord (issue (DbGetRecordByID i) (issue (DbGetZone z) w)) i) = None"
  by (auto simp add: deleteRecordHandler_def case_prod_beta GetZone_snd GetRecordByID_snd
        split: option.splits sum.splits)

lemma deleteRecordHandler_success:
  assumes "Success (fst (deleteRecordHandler L cfg now w z (Some i)))"
  shows "\<exists>r0. find (\<lambda>r. ID r = i) (records w) = Some r0 \<and>
      deleteRecordHandler L cfg now w z (Some i) =
        (responseJSON StatusOK (MessageData ''Record deleted successfully''),
         invalidate_and_publish L
           (bump_unless_SOA L cfg now
              (snd (DeleteRecord (issue (DbGetRecordByID i) (issue (DbGetZone z) w)) i)) z r0) r0)"
proof -
  from assms obtain zn r0 where zn: "fst (GetZone w z) = Inr (Some zn)"
    and r0: "fst (GetRecordByID (issue (DbGetZone z) w) i) = Inr (Some r0)"
    and ok: "fst (DeleteRecord (issue (DbGetRecordByID i) (issue (DbGetZone z) w)) i) = None"
    unfolding deleteRecordHandler_success_iff by blast
  have f: "find (\<lambda>r. ID r = i) (records w) = Some r0"
    using r0 by (simp add: GetRecordByID_fst split: if_splits)
  have "deleteRecordHandler L cfg now w z (Some i) =
        (responseJSON StatusOK (MessageData ''Record deleted successfully''),
         invalidate_and_publish L
           (bump_unless_SOA L cfg now
              (snd (DeleteRecord (issue (DbGetRecordByID i) (issue (DbGetZone z) w)) i)) z r0) r0)"
    using zn r0 ok unfolding deleteRecordHandler_def
    by (auto simp add: case_prod_beta GetZone_snd GetRecordByID_snd)
  with f show ?thesis by blast
qed

lemma updateRecordHandler_success_find:
  assumes "Success (fst (updateRecordHandler L cfg now w z (Some i) (Some upd)))"
  shows "\<exists>r0. find (\<lambda>r. ID r = i) (records w) = Some r0 \<and> Zone r0 = z \<and>
      updateRecordHandler L cfg now w z (Some i) (Some upd) =
        (responseJSON StatusOK (RecordData (apply_update upd r0)),
         invalidate_and_publish L
           (bump_unless_SOA L cfg now
              (snd (UpdateRecord (issue (DbGetRecordByID i) (issue (DbGetZone z) w))
                     (apply_update upd r0))) z (apply_update upd r0))
           (apply_update upd r0))"
proof -
  from updateRecordHandler_success[OF assms] obtain r0 where
    r0: "fst (GetRecordByID (issue (DbGetZone z) w) i) = Inr (Some r0)" "Zone r0 = z" and
    res: "updateRecordHandler L cfg now w z (Some i) (Some upd) =
        (responseJSON StatusOK (RecordData (apply_update upd r0)),
         invalidate_and_publish L
           (bump_unless_SOA L cfg now
              (snd (UpdateRecord (issue (DbGetRecordByID i) (issue (DbGetZone z) w))
                     (apply_update upd r0))) z (apply_update upd r0))
           (apply_update upd r0))" by blast
  have f: "find (\<lambda>r. ID r = i) (records w) = Some r0"
    using r0 by (simp add: GetRecordByID_fst split: if_splits)
  with r0 res show ?thesis by blast
qed

text \<open>The operations a successful mutation issues up to and after its store write.\<close>

lemma create_trace_not_SOA:
  assumes "Success (fst (createRecordHandler L cfg now w z (Some r)))" "Type r \<noteq> TypeSOA"
  defines "rc \<equiv> default_TTL (qualify_name z (r\<lparr>Zone := z\<rparr>))"
  defines "w2 \<equiv> snd (snd (CreateRecord (issue (DbGetZone z) w) rc))"
  shows "(\<exists>ops. trace (snd (createRecordHandler L cfg now w z (Some r))) =
            trace w @ [DbGetZone z, DbCreateRecord rc, DbGetRecordsByNameAndType z z TypeSOA] @ ops)
       \<and> records (snd (createRecordHandler L cfg now w z (Some r))) =
           records (snd (updateZoneSOASerial L cfg now w2 z))
       \<and> kv (snd (createRecordHandler L cfg now w z (Some r))) =
           kv (snd (updateZoneSOASerial L cfg now w2 z))"
proof -
  have t: "Type (rc\<lparr>ID := next_id w\<rparr>) \<noteq> TypeSOA" using assms(2) by (simp add: rc_def)
  obtain ops where ops: "trace (snd (updateZoneSOASerial L cfg now w2 z)) =
      trace w2 @ DbGetRecordsByNameAndType z z TypeSOA # ops"
    using updateZoneSOASerial_trace by blast
  show ?thesis
    unfolding createRecordHandler_success[OF assms(1)] rc_def[symmetric] w2_def[symmetric]
    using ops by (simp add: bump_not_SOA[OF t] w2_def)
qed

lemma create_trace_SOA:
  assumes "Success (fst (createRecordHandler L cfg now w z (Some r)))" "Type r = TypeSOA"
  defines "rc \<equiv> default_TTL (qualify_name z (r\<lparr>Zone := z\<rparr>))"
  shows "trace (snd (createRecordHandler L cfg now w z (Some r))) =
            trace w @ [DbGetZone z, DbCreateRecord rc,
                       RedisPublish ''dns:record:update'' (marshal_Record L (rc\<lparr>ID := next_id w\<rparr>))]
       \<and> records (snd (createRecordHandler L cfg now w z (Some r))) =
           records w @ [rc\<lparr>ID := next_id w\<rparr>]"
proof -
  have t: "Type (rc\<lparr>ID := next_id w\<rparr>) = TypeSOA" using assms(2) by (simp add: rc_def)
  have ok: "fst (CreateRecord (issue (DbGetZone z) w) rc) = None"
    using assms(1) unfolding createRecordHandler_success_iff rc_def by blast
  show ?thesis
    unfolding createRecordHandler_success[OF assms(1)] rc_def[symmetric]
    using ok by (simp add: t CreateRecord_records)
qed


lemma update_trace_not_SOA:
  assumes "Success (fst (updateRecordHandler L cfg now w z (Some i) (Some upd)))"
    and "find (\<lambda>x. ID x = i) (records w) = Some r0" "Type r0 \<noteq> TypeSOA"
  defines "ru \<equiv> apply_update upd r0"
  defines "w3 \<equiv> snd (UpdateRecord (issue (DbGetRecordByID i) (issue (DbGetZone z) w)) ru)"
  shows "(\<exists>ops. trace (snd (updateRecordHandler L cfg now w z (Some i) (Some upd))) =
            trace w @ [DbGetZone z, DbGetRecordByID i, DbUpdateRecord ru,
                       DbGetRecordsByNameAndType z z TypeSOA] @ ops)
       \<and> records (snd (updateRecordHandler L cfg now w z (Some i) (Some upd))) =
           records (snd (updateZoneSOASerial L cfg now w3 z))"
proof -
  from updateRecordHandler_success_find[OF assms(1)] assms(2)
  have res: "updateRecordHandler L cfg now w z (Some i) (Some upd) =
        (responseJSON StatusOK (RecordData ru),
         invalidate_and_publish L (bump_unless_SOA L cfg now w3 z ru) ru)"
    by (auto simp: ru_def w3_def)
  have t: "Type ru \<noteq> TypeSOA" using assms(3) by (simp add: ru_def)
  obtain ops where ops: "trace (snd (updateZoneSOASerial L cfg now w3 z)) =
      trace w3 @ DbGetRecordsByNameAndType z z TypeSOA # ops"
    using updateZoneSOASerial_trace by blast
  show ?thesis unfolding res using ops
    by (simp add: bump_not_SOA[OF t] invalidate_and_publish_trace w3_def)
qed

lemma update_trace_SOA:
  assumes "Success (fst (updateRecordHandler L cfg now w z (Some i) (Some upd)))"
    and "find (\<lambda>x. ID x = i) (records w) = Some r0" "Type r0 = TypeSOA"
  defines "ru \<equiv> apply_update upd r0"
  shows "trace (snd (updateRecordHandler L cfg now w z (Some i) (Some upd))) =
            trace w @ [DbGetZone z, DbGetRecordByID i, DbUpdateRecord ru,
                       RedisDel [singleCacheKey (Zone r0) (Name r0) (Type r0)],
                       RedisDel [multiCacheKey (Zone r0) (Name r0) (Type r0)],
                       RedisPublish ''dns:record:update'' (marshal_Record L ru)]"
proof -
  from updateRecordHandler_success_find[OF assms(1)] assms(2)
  have res: "updateRecordHandler L cfg now w z (Some i) (Some upd) =
        (responseJSON StatusOK (RecordData ru),
         invalidate_and_publish L (bump_unless_SOA L cfg now
           (snd (UpdateRecord (issue (DbGetRecordByID i) (issue (DbGetZone z) w)) ru)) z ru) ru)"
    by (auto simp: ru_def)
  have t: "Type ru = TypeSOA" using assms(3) by (simp add: ru_def)
  show ?thesis unfolding res
    by (simp add: t invalidate_and_publish_trace) (simp add: ru_def assms(3))
qed

lemma delete_trace_not_SOA:
  assumes "Success (fst (deleteRecordHandler L cfg now w z (Some i)))"
    and "find (\<lambda>x. ID x = i) (records w) = Some r0" "Type r0 \<noteq> TypeSOA"
  defines "w3 \<equiv> snd (DeleteRecord (issue (DbGetRecordByID i) (issue (DbGetZone z) w)) i)"
  shows "(\<exists>ops. trace (snd (deleteRecordHandler L cfg now w z (Some i))) =
            trace w @ [DbGetZone z, DbGetRecordByID i, DbDeleteRecord i,
                       DbGetRecordsByNameAndType z z TypeSOA] @ ops)
       \<and> records (snd (deleteRecordHandler L cfg now w z (Some i))) =
           records (snd (updateZoneSOASerial L cfg now w3 z))"
proof -
  from deleteRecordHandler_success[OF assms(1)] assms(2)
  have res: "deleteRecordHandler L cfg now w z (Some i) =
        (responseJSON StatusOK (MessageData ''Record deleted successfully''),
         invalidate_and_publish L (bump_unless_SOA L cfg now w3 z r0) r0)"
    by (auto simp: w3_def)
  obtain ops where ops: "trace (snd (updateZoneSOASerial L cfg now w3 z)) =
      trace w3 @ DbGetRecordsByNameAndType z z TypeSOA # ops"
    using updateZoneSOASerial_trace by blast
  show ?thesis unfolding res using ops
    by (simp add: bump_not_SOA[OF assms(3)] invalidate_and_publish_trace w3_def)
qed

lemma delete_trace_SOA:
  assumes "Success (fst (deleteRecordHandler L cfg now w z (Some i)))"
    and "find (\<lambda>x. ID x = i) (records w) = Some r0" "Type r0 = TypeSOA"
  shows "trace (snd (deleteRecordHandler L cfg now w z (Some i))) =
            trace w @ [DbGetZone z, DbGetRecordByID i, DbDeleteRecord i,
                       RedisDel [singleCacheKey (Zone r0) (Name r0) (Type r0)],
                       RedisDel [multiCacheKey (Zone r0) (Name r0) (Type r0)],
                       RedisPublish ''dns:record:update'' (marshal_Record L r0)]"
proof -
  from deleteRecordHandler_success[OF assms(1)] assms(2)
  have res: "deleteRecordHandler L cfg now w z (Some i) =
        (responseJSON StatusOK (MessageData ''Record deleted successfully''),
         invalidate_and_publish L (bump_unless_SOA L cfg now
           (snd (DeleteRecord (issue (DbGetRecordByID i) (issue (DbGetZone z) w)) i)) z r0) r0)"
    by auto
  show ?thesis unfolding res
    by (simp add: assms(3) invalidate_and_publish_trace)
qed

lemma soa_zone_fields [simp]:
  "collation soa_zone = general_ci"
  "\<not> fails soa_zone c" "records soa_zone = [www_a, soa_rec]" "next_id soa_zone = 3"
  "zones soa_zone = [\<lparr>zone_ID = 1, zone_Name = ''example.com''\<rparr>]"
  "trace soa_zone = []" "kv soa_zone = Map.empty"
  by (simp_all add: soa_zone_def)

lemma soa_zone_exists [simp]: "zone_exists soa_zone z \<longleftrightarrow> general_ci ''example.com'' z"
  by (simp add: zone_exists_def)

lemma demo_records [simp]:
  "ID www_a = 1" "Type www_a = ''A''" "Zone www_a = ''example.com''" "TTL www_a = 3600"
  "Name www_a = ''www.example.com''"
  "ID soa_rec = 2" "Type soa_rec = ''SOA''" "Zone soa_rec = ''example.com''"
  "Name soa_rec = ''example.com''" "Content soa_rec = ''soa:5''"
  "Type (new_record t) = ''A''" "Name (new_record t) = ''mail''" "TTL (new_record t) = t"
  "Content (new_record t) = ''192.0.2.2''"
  "Type new_soa = ''SOA''" "Name new_soa = ''@''" "TTL new_soa = 0" "Content new_soa = ''soa:5''"
  by (simp_all add: www_a_def soa_rec_def new_record_def new_soa_def)

lemma demo_SOA_codec [simp]:
  "unmarshal_SOA demo_lib ''soa:5'' = Some (demo_soa 5)"
  "Serial s = 7 \<Longrightarrow> marshal_SOA demo_lib s = ''soa:7''"
  "Serial s = 8 \<Longrightarrow> marshal_SOA demo_lib s = ''soa:8''"
  "unmarshal_SOA demo_lib ''soa:7'' = Some (demo_soa 7)"
  "unmarshal_SOA demo_lib ''soa:8'' = Some (demo_soa 8)"
  "Serial (demo_soa n) = n"
  by (simp_all add: demo_lib_def demo_soa_def)

lemma demo_stored_SOA [simp]:
  "stored_set soa_zone ''example.com'' ''example.com'' TypeSOA = [soa_rec]"
  "stored_set one_zone ''example.com'' ''example.com'' TypeSOA = []"
  by (simp_all add: stored_set_def matches_def TypeSOA_def general_ci_def)

lemma demo_success:
  "Success (fst (createRecordHandler demo_lib demo_cfg 7 soa_zone ''example.com''
                  (Some (new_record 0))))"
  "Success (fst (createRecordHandler demo_lib demo_cfg 7 one_zone ''example.com'' (Some new_soa)))"
  "Success (fst (updateRecordHandler demo_lib demo_cfg 7 soa_zone ''example.com'' (Some 1)
                  (Some (new_ttl 0))))"
  "Success (fst (updateRecordHandler demo_lib demo_cfg 7 soa_zone ''example.com'' (Some 2)
                  (Some (new_ttl 0))))"
  "Success (fst (deleteRecordHandler demo_lib demo_cfg 7 soa_zone ''example.com'' (Some 1)))"
  "Success (fst (deleteRecordHandler demo_lib demo_cfg 7 soa_zone ''example.com'' (Some 2)))"
  by (simp_all add: createRecordHandler_success_iff updateRecordHandler_success_iff
      deleteRecordHandler_success_iff GetZone_fst GetRecordByID_fst CreateRecord_fst UpdateRecord_fst
      DeleteRecord_fst new_ttl_def isValid_def)

section \<open>The serial after a mutation\<close>

lemma wf_store_cong:
  "records w1 = records w2 \<Longrightarrow> next_id w1 = next_id w2 \<Longrightarrow> wf_store w1 = wf_store w2"
  by (simp add: wf_store_def)

lemma soa_serial_cong:
  "stored_set w1 z z TypeSOA = stored_set w2 z z TypeSOA \<Longrightarrow> soa_serial L w1 z = soa_serial L w2 z"
  by (simp add: soa_serial_def)

lemma wf_store_unique:
  assumes "wf_store w" "x \<in> set (records w)" "y \<in> set (records w)" "ID x = ID y"
  shows "x = y"
proof -
  have "inj_on ID (set (records w))" using assms(1) by (simp add: wf_store_def distinct_map)
  then show ?thesis using assms(2-4) by (auto dest: inj_onD)
qed

text \<open>The serial update on a store that answers: the zone's serial becomes the time of the
  call, truncated to 32 bits.\<close>

lemma bump_serial:
  assumes g: "\<not> fails v (DbGetRecordsByNameAndType z z TypeSOA)"
    and c: "\<not> fails v (DbCreateRecord (default_SOA L cfg now z))"
    and u: "\<And>r. \<not> fails v (DbUpdateRecord r)"
    and ze: "zone_exists v z"
    and codec: "\<And>d. Serial d = uint32 now \<Longrightarrow>
                  map_option Serial (unmarshal_SOA L (marshal_SOA L d)) = Some (uint32 now)"
    and dec: "stored_set v z z TypeSOA = [] \<or> soa_serial L v z \<noteq> None"
    and refl: "\<And>s. collation v s s"
  shows "soa_serial L (snd (updateZoneSOASerial L cfg now v z)) z = Some (uint32 now)"
    and "wf_store v \<Longrightarrow> wf_store (snd (updateZoneSOASerial L cfg now v z))"
proof -
  let ?v' = "snd (updateZoneSOASerial L cfg now v z)"
  have "soa_serial L ?v' z = Some (uint32 now) \<and> (wf_store v \<longrightarrow> wf_store ?v')"
  proof (cases "stored_set v z z TypeSOA")
    case Nil
    from serial_update_no_SOA(4)[OF g Nil c ze]
    have r: "records ?v' = records v @ [(default_SOA L cfg now z)\<lparr>ID := next_id v\<rparr>]"
      and n: "next_id ?v' = next_id v + 1" by simp_all
    have s: "stored_set ?v' z z TypeSOA = [(default_SOA L cfg now z)\<lparr>ID := next_id v\<rparr>]"
      using Nil by (simp add: stored_set_def r matches_def default_SOA_def refl)
    have 1: "soa_serial L ?v' z = Some (uint32 now)"
      using codec[of "\<lparr>Mname = soa_PrimaryNameserver cfg, Rname = soa_MailAddress cfg,
         Serial = uint32 now, Refresh = uint32 (soa_Refresh cfg), Retry = uint32 (soa_Retry cfg),
         Expire = uint32 (soa_Expire cfg), Minimum = uint32 (soa_Minimum cfg)\<rparr>"]
      by (simp add: soa_serial_def s default_SOA_def)
    have 2: "wf_store ?v'" if "wf_store v"
      using that by (auto simp add: wf_store_def r n list_all_iff)
    from 1 2 show ?thesis by blast
  next
    case (Cons soa rest)
    with dec obtain d where d: "unmarshal_SOA L (Content soa) = Some d"
      by (auto simp add: soa_serial_def)
    define soa' where "soa' = soa\<lparr>Content := marshal_SOA L (d\<lparr>Serial := uint32 now\<rparr>)\<rparr>"
    define f :: "Record \<Rightarrow> Record" where "f = (\<lambda>x. if ID x = ID soa
                       then x\<lparr>Content := Content soa', TTL := TTL soa, Priority := Priority soa\<rparr>
                       else x)"
    from serial_update_existing(2)[OF g Cons d u, where cfg=cfg]
    have r: "records ?v' = map f (records v)" and n: "next_id ?v' = next_id v"
      by (simp_all add: soa'_def f_def)
    have m: "matches (collation v) z z TypeSOA (f x) = matches (collation v) z z TypeSOA x" for x
      by (simp add: f_def matches_def)
    have i: "ID (f x) = ID x" for x by (simp add: f_def)
    have "stored_set ?v' z z TypeSOA = map f (stored_set v z z TypeSOA)"
      by (simp add: stored_set_def r filter_map o_def m)
    then have s: "stored_set ?v' z z TypeSOA = f soa # map f rest" by (simp add: Cons)
    have 1: "soa_serial L ?v' z = Some (uint32 now)"
      using codec[of "d\<lparr>Serial := uint32 now\<rparr>"]
      by (simp add: soa_serial_def s f_def soa'_def)
    have 2: "wf_store ?v'" if "wf_store v"
      using that by (simp add: wf_store_def r n o_def i list_all_iff)
    from 1 2 show ?thesis by blast
  qed
  then show "soa_serial L ?v' z = Some (uint32 now)" and "wf_store v \<Longrightarrow> wf_store ?v'"
    by blast+
qed

text \<open>The store writes of the three handlers leave the zone's SOA records as they were when
  the record written is not of SOA type.\<close>

lemma create_post:
  assumes "fst (CreateRecord w r) = None" "\<not> collation w (Type r) TypeSOA"
  shows "stored_set (snd (snd (CreateRecord w r))) z z TypeSOA = stored_set w z z TypeSOA"
    and "wf_store w \<Longrightarrow> wf_store (snd (snd (CreateRecord w r)))"
  using assms by (auto simp add: stored_set_def CreateRecord_records matches_def wf_store_def
      list_all_iff)

lemma update_post:
  assumes f: "find (\<lambda>x. ID x = ID r) (records w) = Some old"
    and t: "\<not> collation w (Type old) TypeSOA"
    and wf: "wf_store w"
  shows "stored_set (snd (UpdateRecord w r)) z z TypeSOA = stored_set w z z TypeSOA"
    and "wf_store (snd (UpdateRecord w r))"
proof -
  define f :: "Record \<Rightarrow> Record" where "f = (\<lambda>x. if ID x = ID r
                     then x\<lparr>Content := Content r, TTL := TTL r, Priority := Priority r\<rparr>
                     else x)"
  have old: "old \<in> set (records w)" "ID old = ID r" using find_SomeD[OF assms(1)] by simp_all
  have m: "matches (collation w) z z TypeSOA (f x) = matches (collation w) z z TypeSOA x" for x
    by (simp add: f_def matches_def)
  have i: "ID (f x) = ID x" for x by (simp add: f_def)
  have k: "f x = x" if "x \<in> set (records w)" "matches (collation w) z z TypeSOA x" for x
  proof -
    have "ID x \<noteq> ID r"
    proof
      assume "ID x = ID r"
      then have "x = old" using wf_store_unique[OF wf that(1) old(1)] old(2) by simp
      with that(2) t show False by (simp add: matches_def)
    qed
    then show ?thesis by (simp add: f_def)
  qed
  have "filter (matches (collation w) z z TypeSOA) (map f (records w)) =
        map f (filter (matches (collation w) z z TypeSOA) (records w))"
    by (simp add: filter_map o_def m)
  also have "\<dots> = filter (matches (collation w) z z TypeSOA) (records w)"
    by (rule map_idI) (simp add: k)
  finally show "stored_set (snd (UpdateRecord w r)) z z TypeSOA = stored_set w z z TypeSOA"
    by (simp add: stored_set_def UpdateRecord_records f_def)
  show "wf_store (snd (UpdateRecord w r))"
    using wf by (simp add: wf_store_def UpdateRecord_records f_def[symmetric] o_def i list_all_iff)
qed

lemma delete_post:
  assumes f: "find (\<lambda>x. ID x = i) (records w) = Some old"
    and t: "\<not> collation w (Type old) TypeSOA"
    and wf: "wf_store w"
  shows "stored_set (snd (DeleteRecord w i)) z z TypeSOA = stored_set w z z TypeSOA"
    and "wf_store (snd (DeleteRecord w i))"
proof -
  have old: "old \<in> set (records w)" "ID old = i" using find_SomeD[OF assms(1)] by simp_all
  have k: "ID x \<noteq> i" if "x \<in> set (records w)" "matches (collation w) z z TypeSOA x" for x
  proof
    assume "ID x = i"
    then have "x = old" using wf_store_unique[OF wf that(1) old(1)] old(2) by simp
    with that(2) t show False by (simp add: matches_def)
  qed
  have "filter (matches (collation w) z z TypeSOA) (filter (\<lambda>x. ID x \<noteq> i) (records w)) =
        filter (matches (collation w) z z TypeSOA) (records w)"
    unfolding filter_filter by (rule filter_cong) (use k in auto)
  then show "stored_set (snd (DeleteRecord w i)) z z TypeSOA = stored_set w z z TypeSOA"
    by (simp add: stored_set_def DeleteRecord_records)
  show "wf_store (snd (DeleteRecord w i))"
    using wf by (simp add: wf_store_def DeleteRecord_records distinct_map_filter list_all_iff)
qed

lemma after_bump:
  assumes r: "records w' = records (bump_unless_SOA L cfg now v z r)"
    and n: "next_id w' = next_id (bump_unless_SOA L cfg now v z r)"
    and t: "Type r \<noteq> TypeSOA"
    and store: "\<And>c. is_db_op c \<Longrightarrow> \<not> fails v c"
    and ze: "zone_exists v z"
    and codec: "\<And>d. Serial d = uint32 now \<Longrightarrow>
                  map_option Serial (unmarshal_SOA L (marshal_SOA L d)) = Some (uint32 now)"
    and dec: "stored_set v z z TypeSOA = [] \<or> soa_serial L v z \<noteq> None"
    and wf: "wf_store v"
    and refl: "\<And>s. collation v s s"
    and cl: "collation w' = collation v"
  shows "soa_serial L w' z = Some (uint32 now)" and "wf_store w'"
proof -
  let ?v' = "snd (updateZoneSOASerial L cfg now v z)"
  have g: "\<not> fails v (DbGetRecordsByNameAndType z z TypeSOA)"
    and c: "\<not> fails v (DbCreateRecord (default_SOA L cfg now z))"
    and u: "\<And>r. \<not> fails v (DbUpdateRecord r)"
    by (simp_all add: store is_db_op_def)
  have r': "records w' = records ?v'" and n': "next_id w' = next_id ?v'"
    by (simp_all add: r n bump_not_SOA[OF t])
  have "stored_set w' z z TypeSOA = stored_set ?v' z z TypeSOA"
    by (simp add: stored_set_def r' cl)
  from soa_serial_cong[OF this] bump_serial(1)[OF g c u ze codec dec refl]
  show "soa_serial L w' z = Some (uint32 now)" by simp
  from wf_store_cong[OF r' n'] bump_serial(2)[OF g c u ze codec dec refl wf]
  show "wf_store w'" by simp
qed

lemma GetZone_exists: "fst (GetZone w z) = Inr (Some zn) \<Longrightarrow> zone_exists w z"
  using find_zone_Some[of w z zn] by (simp add: GetZone_fst split: if_splits)

text \<open>After a successful mutation of a record that is not of SOA type, on a store that
  answers and whose SOA record decodes, the zone's serial is the time of the mutation.\<close>

lemma create_serial:
  assumes s: "Success (fst (createRecordHandler L cfg now w z (Some r)))"
    and t: "\<not> collation w (Type r) TypeSOA"
    and store: "\<And>c. is_db_op c \<Longrightarrow> \<not> fails w c"
    and codec: "\<And>d. Serial d = uint32 now \<Longrightarrow>
                  map_option Serial (unmarshal_SOA L (marshal_SOA L d)) = Some (uint32 now)"
    and dec: "stored_set w z z TypeSOA = [] \<or> soa_serial L w z \<noteq> None"
    and wf: "wf_store w"
    and refl: "\<And>s. collation w s s"
  shows "soa_serial L (snd (createRecordHandler L cfg now w z (Some r))) z = Some (uint32 now)"
    and "wf_store (snd (createRecordHandler L cfg now w z (Some r)))"
    and "fails (snd (createRecordHandler L cfg now w z (Some r))) = fails w"
    and "zones (snd (createRecordHandler L cfg now w z (Some r))) = zones w"
    and "collation (snd (createRecordHandler L cfg now w z (Some r))) = collation w"
proof -
  define rc where "rc = default_TTL (qualify_name z (r\<lparr>Zone := z\<rparr>))"
  define v where "v = snd (snd (CreateRecord (issue (DbGetZone z) w) rc))"
  let ?w' = "snd (createRecordHandler L cfg now w z (Some r))"
  from s obtain zn where zn: "fst (GetZone w z) = Inr (Some zn)"
    and ok: "fst (CreateRecord (issue (DbGetZone z) w) rc) = None"
    unfolding createRecordHandler_success_iff rc_def by blast
  have ne: "Type r \<noteq> TypeSOA" using t refl by auto
  have t': "Type (rc\<lparr>ID := next_id w\<rparr>) \<noteq> TypeSOA"
    "\<not> collation (issue (DbGetZone z) w) (Type rc) TypeSOA"
    using t ne by (simp_all add: rc_def)
  have wf1: "wf_store (issue (DbGetZone z) w)" using wf by (simp add: wf_store_def)
  have r: "records ?w' = records (bump_unless_SOA L cfg now v z (rc\<lparr>ID := next_id w\<rparr>))"
    and n: "next_id ?w' = next_id (bump_unless_SOA L cfg now v z (rc\<lparr>ID := next_id w\<rparr>))"
    and f: "fails ?w' = fails w" and zs: "zones ?w' = zones w"
    and cl: "collation ?w' = collation w" and cv: "collation ?w' = collation v"
    unfolding createRecordHandler_success[OF s] rc_def[symmetric] v_def[symmetric]
    by (simp_all add: v_def)
  have st: "stored_set v z z TypeSOA = stored_set w z z TypeSOA"
    unfolding v_def using create_post(1)[OF ok t'(2)] by simp
  have dec': "stored_set v z z TypeSOA = [] \<or> soa_serial L v z \<noteq> None"
    using dec soa_serial_cong[OF st] by (simp add: st)
  have wfv: "wf_store v" unfolding v_def by (rule create_post(2)[OF ok t'(2) wf1])
  have store': "\<And>c. is_db_op c \<Longrightarrow> \<not> fails v c" by (simp add: v_def store)
  have refl': "\<And>s. collation v s s" by (simp add: v_def refl)
  have ze: "zone_exists v z"
    using GetZone_exists[OF zn] zone_exists_cong[of v w z] by (simp add: v_def)
  show "soa_serial L ?w' z = Some (uint32 now)"
    by (rule after_bump(1)[OF r n t'(1) store' ze codec dec' wfv refl' cv])
  show "wf_store ?w'"
    by (rule after_bump(2)[OF r n t'(1) store' ze codec dec' wfv refl' cv])
  show "fails ?w' = fails w" by (rule f)
  show "zones ?w' = zones w" by (rule zs)
  show "collation ?w' = collation w" by (rule cl)
qed

lemma update_serial:
  assumes s: "Success (fst (updateRecordHandler L cfg now w z (Some i) (Some upd)))"
    and fd: "find (\<lambda>x. ID x = i) (records w) = Some old"
    and t: "\<not> collation w (Type old) TypeSOA"
    and store: "\<And>c. is_db_op c \<Longrightarrow> \<not> fails w c"
    and codec: "\<And>d. Serial d = uint32 now \<Longrightarrow>
                  map_option Serial (unmarshal_SOA L (marshal_SOA L d)) = Some (uint32 now)"
    and dec: "stored_set w z z TypeSOA = [] \<or> soa_serial L w z \<noteq> None"
    and wf: "wf_store w"
    and refl: "\<And>s. collation w s s"
  shows "soa_serial L (snd (updateRecordHandler L cfg now w z (Some i) (Some upd))) z =
           Some (uint32 now)"
    and "wf_store (snd (updateRecordHandler L cfg now w z (Some i) (Some upd)))"
    and "fails (snd (updateRecordHandler L cfg now w z (Some i) (Some upd))) = fails w"
    and "zones (snd (updateRecordHandler L cfg now w z (Some i) (Some upd))) = zones w"
    and "collation (snd (updateRecordHandler L cfg now w z (Some i) (Some upd))) = collation w"
    and "Zone old = z"
proof -
  define ru where "ru = apply_update upd old"
  define w2 where "w2 = issue (DbGetRecordByID i) (issue (DbGetZone z) w)"
  define v where "v = snd (UpdateRecord w2 ru)"
  let ?w' = "snd (updateRecordHandler L cfg now w z (Some i) (Some upd))"
  from s obtain zn where zn: "fst (GetZone w z) = Inr (Some zn)"
    unfolding updateRecordHandler_success_iff by blast
  from updateRecordHandler_success_find[OF s] fd
  have res: "updateRecordHandler L cfg now w z (Some i) (Some upd) =
        (responseJSON StatusOK (RecordData ru),
         invalidate_and_publish L (bump_unless_SOA L cfg now v z ru) ru)"
    and zo: "Zone old = z"
    by (auto simp: ru_def v_def w2_def)
  have ne: "Type old \<noteq> TypeSOA" using t refl by auto
  have t': "Type ru \<noteq> TypeSOA" using ne by (simp add: ru_def)
  have t2: "\<not> collation w2 (Type old) TypeSOA" using t by (simp add: w2_def)
  have id: "ID ru = i" using find_SomeD[OF fd] by (simp add: ru_def)
  have wf2: "wf_store w2" using wf by (simp add: wf_store_def w2_def)
  have fd2: "find (\<lambda>x. ID x = ID ru) (records w2) = Some old" using fd by (simp add: id w2_def)
  have r: "records ?w' = records (bump_unless_SOA L cfg now v z ru)"
    and n: "next_id ?w' = next_id (bump_unless_SOA L cfg now v z ru)"
    and f: "fails ?w' = fails w" and zs: "zones ?w' = zones w"
    and cl: "collation ?w' = collation w" and cv: "collation ?w' = collation v"
    unfolding res by (simp_all add: v_def w2_def)
  have st: "stored_set v z z TypeSOA = stored_set w z z TypeSOA"
    unfolding v_def using update_post(1)[OF fd2 t2 wf2] by (simp add: w2_def)
  have dec': "stored_set v z z TypeSOA = [] \<or> soa_serial L v z \<noteq> None"
    using dec soa_serial_cong[OF st] by (simp add: st)
  have wfv: "wf_store v" unfolding v_def by (rule update_post(2)[OF fd2 t2 wf2])
  have store': "\<And>c. is_db_op c \<Longrightarrow> \<not> fails v c" by (simp add: v_def w2_def store)
  have refl': "\<And>s. collation v s s" by (simp add: v_def w2_def refl)
  have ze: "zone_exists v z"
    using GetZone_exists[OF zn] zone_exists_cong[of v w z] by (simp add: v_def w2_def)
  show "soa_serial L ?w' z = Some (uint32 now)"
    by (rule after_bump(1)[OF r n t' store' ze codec dec' wfv refl' cv])
  show "wf_store ?w'"
    by (rule after_bump(2)[OF r n t' store' ze codec dec' wfv refl' cv])
  show "fails ?w' = fails w" by (rule f)
  show "zones ?w' = zones w" by (rule zs)
  show "collation ?w' = collation w" by (rule cl)
  show "Zone old = z" by (rule zo)
qed

lemma delete_serial:
  assumes s: "Success (fst (deleteRecordHandler L cfg now w z (Some i)))"
    and fd: "find (\<lambda>x. ID x = i) (records w) = Some old"
    and t: "\<not> collation w (Type old) TypeSOA"
    and store: "\<And>c. is_db_op c \<Longrightarrow> \<not> fails w c"
    and codec: "\<And>d. Serial d = uint32 now \<Longrightarrow>
                  map_option Serial (unmarshal_SOA L (marshal_SOA L d)) = Some (uint32 now)"
    and dec: "stored_set w z z TypeSOA = [] \<or> soa_serial L w z \<noteq> None"
    and wf: "wf_store w"
    and refl: "\<And>s. collation w s s"
  shows "soa_serial L (snd (deleteRecordHandler L cfg now w z (Some i))) z = Some (uint32 now)"
    and "wf_store (snd (deleteRecordHandler L cfg now w z (Some i)))"
    and "fails (snd (deleteRecordHandler L cfg now w z (Some i))) = fails w"
    and "zones (snd (deleteRecordHandler L cfg now w z (Some i))) = zones w"
    and "collation (snd (deleteRecordHandler L cfg now w z (Some i))) = collation w"
proof -
  define w2 where "w2 = issue (DbGetRecordByID i) (issue (DbGetZone z) w)"
  define v where "v = snd (DeleteRecord w2 i)"
  let ?w' = "snd (deleteRecordHandler L cfg now w z (Some i))"
  from s obtain zn where zn: "fst (GetZone w z) = Inr (Some zn)"
    unfolding deleteRecordHandler_success_iff by blast
  from deleteRecordHandler_success[OF s] fd
  have res: "deleteRecordHandler L cfg now w z (Some i) =
        (responseJSON StatusOK (MessageData ''Record deleted successfully''),
         invalidate_and_publish L (bump_unless_SOA L cfg now v z old) old)"
    by (auto simp: v_def w2_def)
  have ne: "Type old \<noteq> TypeSOA" using t refl by auto
  have t2: "\<not> collation w2 (Type old) TypeSOA" using t by (simp add: w2_def)
  have wf2: "wf_store w2" using wf by (simp add: wf_store_def w2_def)
  have fd2: "find (\<lambda>x. ID x = i) (records w2) = Some old" using fd by (simp add: w2_def)
  have r: "records ?w' = records (bump_unless_SOA L cfg now v z old)"
    and n: "next_id ?w' = next_id (bump_unless_SOA L cfg now v z old)"
    and f: "fails ?w' = fails w" and zs: "zones ?w' = zones w"
    and cl: "collation ?w' = collation w" and cv: "collation ?w' = collation v"
    unfolding res by (simp_all add: v_def w2_def)
  have st: "stored_set v z z TypeSOA = stored_set w z z TypeSOA"
    unfolding v_def using delete_post(1)[OF fd2 t2 wf2] by (simp add: w2_def)
  have dec': "stored_set v z z TypeSOA = [] \<or> soa_serial L v z \<noteq> None"
    using dec soa_serial_cong[OF st] by (simp add: st)
  have wfv: "wf_store v" unfolding v_def by (rule delete_post(2)[OF fd2 t2 wf2])
  have store': "\<And>c. is_db_op c \<Longrightarrow> \<not> fails v c" by (simp add: v_def w2_def store)
  have refl': "\<And>s. collation v s s" by (simp add: v_def w2_def refl)
  have ze: "zone_exists v z"
    using GetZone_exists[OF zn] zone_exists_cong[of v w z] by (simp add: v_def w2_def)
  show "soa_serial L ?w' z = Some (uint32 now)"
    by (rule after_bump(1)[OF r n ne store' ze codec dec' wfv refl' cv])
  show "wf_store ?w'"
    by (rule after_bump(2)[OF r n ne store' ze codec dec' wfv refl' cv])
  show "fails ?w' = fails w" by (rule f)
  show "zones ?w' = zones w" by (rule zs)
  show "collation ?w' = collation w" by (rule cl)
qed

lemma createRecordHandler_succeeds:
  assumes "\<And>c. is_db_op c \<Longrightarrow> \<not> fails w c" "zone_exists w z"
    and "Name r \<noteq> []" "Type r \<noteq> []" "Content r \<noteq> []" "TTL r \<le> 0 \<or> isValid (TTL r)"
  shows "Success (fst (createRecordHandler L cfg now w z (Some r)))"
proof -
  have "\<not> fails w (DbGetZone z)" by (simp add: assms(1) is_db_op_def)
  from GetZone_found[OF this assms(2)] obtain zn where "fst (GetZone w z) = Inr (Some zn)" ..
  moreover have "fst (CreateRecord (issue (DbGetZone z) w)
                        (default_TTL (qualify_name z (r\<lparr>Zone := z\<rparr>)))) = None"
    by (simp add: CreateRecord_fst assms(1,2) is_db_op_def)
  ultimately show ?thesis
    unfolding createRecordHandler_success_iff using assms(3-6) by blast
qed

lemma demo_codec:
  "Serial d = 7 \<Longrightarrow> map_option Serial (unmarshal_SOA demo_lib (marshal_SOA demo_lib d)) = Some 7"
  "Serial d = 8 \<Longrightarrow> map_option Serial (unmarshal_SOA demo_lib (marshal_SOA demo_lib d)) = Some 8"
  by simp_all

lemma soa_zone_serial:
  "soa_serial demo_lib soa_zone ''example.com'' = Some 5" "wf_store soa_zone"
  by (simp_all add: soa_serial_def wf_store_def)

lemma not_SOA_type [simp]: "\<not> general_ci ''A'' TypeSOA"
  by (simp add: general_ci_def TypeSOA_def)

lemma first_create_facts:
  "Success (fst (createRecordHandler demo_lib demo_cfg 7 soa_zone ''example.com''
                   (Some (new_record 0))))"
  "soa_serial demo_lib first_create ''example.com'' = Some 7"
  "wf_store first_create" "\<not> fails first_create c" "zone_exists first_create ''example.com''"
  "collation first_create = general_ci"
proof -
  show s: "Success (fst (createRecordHandler demo_lib demo_cfg 7 soa_zone ''example.com''
                   (Some (new_record 0))))"
    by (rule createRecordHandler_succeeds) simp_all
  have t: "\<not> collation soa_zone (Type (new_record 0)) TypeSOA" by simp
  have u: "uint32 7 = 7" by (simp add: uint32_def)
  have d: "stored_set soa_zone ''example.com'' ''example.com'' TypeSOA = [] \<or>
           soa_serial demo_lib soa_zone ''example.com'' \<noteq> None"
    by (simp add: soa_zone_serial)
  note c = create_serial[where L=demo_lib and cfg=demo_cfg and now=7, OF s t _ _ d soa_zone_serial(2),
      unfolded u, OF _ demo_codec(1)]
  show "soa_serial demo_lib first_create ''example.com'' = Some 7"
    unfolding first_create_def by (rule c(1)) simp_all
  show "wf_store first_create" unfolding first_create_def by (rule c(2)) simp_all
  have "fails first_create = fails soa_zone" unfolding first_create_def by (rule c(3)) simp_all
  then show "\<not> fails first_create c" by simp
  have cl: "collation first_create = collation soa_zone"
    unfolding first_create_def by (rule c(5)) simp_all
  then show "collation first_create = general_ci" by simp
  have "zones first_create = zones soa_zone" unfolding first_create_def by (rule c(4)) simp_all
  from zone_exists_cong[OF this cl] show "zone_exists first_create ''example.com''" by simp
qed

text \<open>
  C4 as stated fails: the serial is the second of the mutation, so two records created within
  the same second leave the same serial.
\<close>

theorem serial_after_mutation_counterexample:
  "Success (fst (createRecordHandler demo_lib demo_cfg 7 soa_zone ''example.com''
                   (Some (new_record 0))))
   \<and> Success (fst (createRecordHandler demo_lib demo_cfg 7 first_create ''example.com''
                     (Some (new_record 60))))
   \<and> Type (new_record 0) \<noteq> TypeSOA \<and> Type (new_record 60) \<noteq> TypeSOA
   \<and> soa_serial demo_lib first_create ''example.com'' = Some 7
   \<and> soa_serial demo_lib
        (snd (createRecordHandler demo_lib demo_cfg 7 first_create ''example.com''
                (Some (new_record 60)))) ''example.com'' = Some 7"
proof -
  have s: "Success (fst (createRecordHandler demo_lib demo_cfg 7 first_create ''example.com''
                     (Some (new_record 60))))"
    by (rule createRecordHandler_succeeds)
       (simp_all add: first_create_facts isValid_def validTTLs_def)
  have t: "Type (new_record 60) \<noteq> TypeSOA" "Type (new_record 0) \<noteq> TypeSOA"
    by (simp_all add: TypeSOA_def)
  have t': "\<not> collation first_create (Type (new_record 60)) TypeSOA"
    by (simp add: first_create_facts)
  have u: "uint32 7 = 7" by (simp add: uint32_def)
  have d: "stored_set first_create ''example.com'' ''example.com'' TypeSOA = [] \<or>
           soa_serial demo_lib first_create ''example.com'' \<noteq> None"
    by (simp add: first_create_facts)
  have "soa_serial demo_lib
        (snd (createRecordHandler demo_lib demo_cfg 7 first_create ''example.com''
                (Some (new_record 60)))) ''example.com'' = Some 7"
    by (rule create_serial(1)[where now=7, OF s t' _ _ d first_create_facts(3), unfolded u,
          OF _ demo_codec(1)]) (simp_all add: first_create_facts)
  with s t first_create_facts(1,2) show ?thesis by blast
qed

text \<open>
  C4 (amended). On a store that answers, whose rows have distinct ids, whose collation holds
  every string equal to itself and whose first SOA record of the zone decodes (or which holds
  none), and with a JSON codec that gives back the serial it has encoded: after a successful
  create or update of a record, or delete of a record of the zone named in the request, whose
  type the store does not hold equal to SOA, the serial of the zone named in the request is
  the Unix time of the mutation truncated to 32 bits; the store again has distinct ids and
  the same failure behaviour, zones and collation. A record that is updated successfully is
  one of the zone named in the request.
\<close>

theorem serial_after_mutation:
  fixes L :: lib and cfg :: Config and now :: int and w :: world and z :: string
    and r old :: Record and upd :: updateData and i :: int
  defines "created \<equiv> snd (createRecordHandler L cfg now w z (Some r))"
  defines "updated \<equiv> snd (updateRecordHandler L cfg now w z (Some i) (Some upd))"
  defines "deleted \<equiv> snd (deleteRecordHandler L cfg now w z (Some i))"
  assumes store: "\<forall>c. is_db_op c \<longrightarrow> \<not> fails w c"
    and codec: "\<forall>d. Serial d = uint32 now \<longrightarrow>
                  map_option Serial (unmarshal_SOA L (marshal_SOA L d)) = Some (uint32 now)"
    and dec: "stored_set w z z TypeSOA = [] \<or> soa_serial L w z \<noteq> None"
    and wf: "wf_store w"
    and refl: "\<forall>s. collation w s s"
  shows
    "(Success (fst (createRecordHandler L cfg now w z (Some r)))
        \<and> \<not> collation w (Type r) TypeSOA \<longrightarrow>
        soa_serial L created z = Some (uint32 now) \<and> wf_store created
        \<and> fails created = fails w \<and> zones created = zones w
        \<and> collation created = collation w)
   \<and> (Success (fst (updateRecordHandler L cfg now w z (Some i) (Some upd)))
        \<and> find (\<lambda>x. ID x = i) (records w) = Some old
        \<and> \<not> collation w (Type old) TypeSOA \<longrightarrow>
        Zone old = z
        \<and> soa_serial L updated z = Some (uint32 now) \<and> wf_store updated
        \<and> fails updated = fails w \<and> zones updated = zones w
        \<and> collation updated = collation w)
   \<and> (Success (fst (deleteRecordHandler L cfg now w z (Some i)))
        \<and> find (\<lambda>x. ID x = i) (records w) = Some old \<and> Zone old = z
        \<and> \<not> collation w (Type old) TypeSOA \<longrightarrow>
        soa_serial L deleted (Zone old) = Some (uint32 now) \<and> wf_store deleted
        \<and> fails deleted = fails w \<and> zones deleted = zones w
        \<and> collation deleted = collation w)"
proof -
  have st: "\<And>c. is_db_op c \<Longrightarrow> \<not> fails w c" using store by blast
  have cd: "\<And>d. Serial d = uint32 now \<Longrightarrow>
                  map_option Serial (unmarshal_SOA L (marshal_SOA L d)) = Some (uint32 now)"
    using codec by blast
  have rf: "\<And>s. collation w s s" using refl by blast
  note c = create_serial[where L=L and cfg=cfg and now=now and w=w and z=z and r=r,
      OF _ _ st cd dec wf rf]
  note u = update_serial[where L=L and cfg=cfg and now=now and w=w and z=z and i=i and upd=upd
      and old=old, OF _ _ _ st cd dec wf rf]
  note d = delete_serial[where L=L and cfg=cfg and now=now and w=w and z=z and i=i
      and old=old, OF _ _ _ st cd dec wf rf]
  have 1: "Success (fst (createRecordHandler L cfg now w z (Some r)))
        \<and> \<not> collation w (Type r) TypeSOA \<longrightarrow>
        soa_serial L created z = Some (uint32 now) \<and> wf_store created
        \<and> fails created = fails w \<and> zones created = zones w
        \<and> collation created = collation w"
    unfolding created_def using c by blast
  have 2: "Success (fst (updateRecordHandler L cfg now w z (Some i) (Some upd)))
        \<and> find (\<lambda>x. ID x = i) (records w) = Some old
        \<and> \<not> collation w (Type old) TypeSOA \<longrightarrow>
        Zone old = z
        \<and> soa_serial L updated z = Some (uint32 now) \<and> wf_store updated
        \<and> fails updated = fails w \<and> zones updated = zones w
        \<and> collation updated = collation w"
    unfolding updated_def using u by blast
  have 3: "Success (fst (deleteRecordHandler L cfg now w z (Some i)))
        \<and> find (\<lambda>x. ID x = i) (records w) = Some old \<and> Zone old = z
        \<and> \<not> collation w (Type old) TypeSOA \<longrightarrow>
        soa_serial L deleted (Zone old) = Some (uint32 now) \<and> wf_store deleted
        \<and> fails deleted = fails w \<and> zones deleted = zones w
        \<and> collation deleted = collation w"
    unfolding deleted_def using d by blast
  from 1 2 3 show ?thesis by (intro conjI)
qed

theorem serial_after_mutation_witness:
  "soa_serial demo_lib soa_zone ''example.com'' = Some 5
   \<and> soa_serial demo_lib first_create ''example.com'' = Some 7
   \<and> soa_serial demo_lib
        (snd (updateRecordHandler demo_lib demo_cfg 7 soa_zone ''example.com'' (Some 1)
                (Some (new_ttl 0)))) ''example.com'' = Some 7
   \<and> soa_serial demo_lib
        (snd (deleteRecordHandler demo_lib demo_cfg 7 soa_zone ''example.com'' (Some 1)))
        ''example.com'' = Some 7
   \<and> soa_serial demo_lib
        (snd (createRecordHandler demo_lib demo_cfg 8 first_create ''example.com''
                (Some (new_record 60)))) ''example.com'' = Some 8"
proof -
  have u: "uint32 7 = 7" "uint32 8 = 8" by (simp_all add: uint32_def)
  have s: "Success (fst (createRecordHandler demo_lib demo_cfg 8 first_create ''example.com''
                     (Some (new_record 60))))"
    by (rule createRecordHandler_succeeds)
       (simp_all add: first_create_facts isValid_def validTTLs_def)
  have f: "find (\<lambda>x. ID x = 1) (records soa_zone) = Some www_a" by simp
  note a = serial_after_mutation[where L=demo_lib and cfg=demo_cfg and now=7 and w=soa_zone
      and z="''example.com''" and r="new_record 0" and i=1 and upd="new_ttl 0" and old=www_a,
      unfolded u]
  note b = serial_after_mutation[where L=demo_lib and cfg=demo_cfg and now=8 and w=first_create
      and z="''example.com''" and r="new_record 60", unfolded u]
  have ha: "soa_serial demo_lib first_create ''example.com'' = Some 7
   \<and> soa_serial demo_lib
        (snd (updateRecordHandler demo_lib demo_cfg 7 soa_zone ''example.com'' (Some 1)
                (Some (new_ttl 0)))) ''example.com'' = Some 7
   \<and> soa_serial demo_lib
        (snd (deleteRecordHandler demo_lib demo_cfg 7 soa_zone ''example.com'' (Some 1)))
        ''example.com'' = Some 7"
    using a demo_success(1,3,5) f
    by (simp add: soa_zone_serial first_create_def)
  have hb: "soa_serial demo_lib
        (snd (createRecordHandler demo_lib demo_cfg 8 first_create ''example.com''
                (Some (new_record 60)))) ''example.com'' = Some 8"
    using b s by (simp add: first_create_facts)
  from ha hb soa_zone_serial(1) show ?thesis by blast
qed

lemma shared_store_fields [simp]:
  "collation shared_store = general_ci" "\<not> fails shared_store c"
  "records shared_store = [www_a, soa_rec]" "next_id shared_store = 3"
  "zones shared_store = [\<lparr>zone_ID = 1, zone_Name = ''example.com''\<rparr>,
                         \<lparr>zone_ID = 2, zone_Name = ''sub.example.com''\<rparr>]"
  "trace shared_store = []" "kv shared_store = Map.empty"
  by (simp_all add: shared_store_def two_zones_def no_faults_def)

text \<open>
  C5. \<open>deleteRecordHandler\<close> does not compare the zone of the record it deletes with the zone
  named in the request, as \<open>updateRecordHandler\<close> does. A request on \<open>sub.example.com\<close> for the
  id of an address record of \<open>example.com\<close> succeeds and deletes the record; the serial update
  is invoked for \<open>sub.example.com\<close>, which gets a default SOA record, and the SOA record of
  \<open>example.com\<close>, the zone of the deleted record, keeps its serial. The same request as an
  update is refused and changes nothing.
\<close>

theorem delete_updates_request_zone:
  "find (\<lambda>x. ID x = 1) (records shared_store) = Some www_a
   \<and> Zone www_a = ''example.com'' \<and> Type www_a \<noteq> TypeSOA
   \<and> soa_serial demo_lib shared_store ''example.com'' = Some 5
   \<and> soa_serial demo_lib shared_store ''sub.example.com'' = None
   \<and> Success (fst (deleteRecordHandler demo_lib demo_cfg 7 shared_store ''sub.example.com''
                     (Some 1)))
   \<and> trace (snd (deleteRecordHandler demo_lib demo_cfg 7 shared_store ''sub.example.com''
                    (Some 1))) =
       [DbGetZone ''sub.example.com'', DbGetRecordByID 1, DbDeleteRecord 1,
        DbGetRecordsByNameAndType ''sub.example.com'' ''sub.example.com'' TypeSOA,
        DbCreateRecord (default_SOA demo_lib demo_cfg 7 ''sub.example.com''),
        RedisDel [singleCacheKey ''example.com'' ''www.example.com'' ''A''],
        RedisDel [multiCacheKey ''example.com'' ''www.example.com'' ''A''],
        RedisPublish ''dns:record:update'' (marshal_Record demo_lib www_a)]
   \<and> records (snd (deleteRecordHandler demo_lib demo_cfg 7 shared_store ''sub.example.com''
                      (Some 1))) =
       [soa_rec, (default_SOA demo_lib demo_cfg 7 ''sub.example.com'')\<lparr>ID := 3\<rparr>]
   \<and> soa_serial demo_lib
        (snd (deleteRecordHandler demo_lib demo_cfg 7 shared_store ''sub.example.com'' (Some 1)))
        ''example.com'' = Some 5
   \<and> soa_serial demo_lib
        (snd (deleteRecordHandler demo_lib demo_cfg 7 shared_store ''sub.example.com'' (Some 1)))
        ''sub.example.com'' = Some 7
   \<and> fst (updateRecordHandler demo_lib demo_cfg 7 shared_store ''sub.example.com'' (Some 1)
             (Some (new_ttl 0))) =
       responseError StatusBadRequest ''Record does not belong to the specified zone''
   \<and> records (snd (updateRecordHandler demo_lib demo_cfg 7 shared_store ''sub.example.com''
                      (Some 1) (Some (new_ttl 0)))) = records shared_store
   \<and> trace (snd (updateRecordHandler demo_lib demo_cfg 7 shared_store ''sub.example.com''
                    (Some 1) (Some (new_ttl 0)))) =
       [DbGetZone ''sub.example.com'', DbGetRecordByID 1]"
proof -
  let ?z = "''sub.example.com''"
  let ?w3 = "snd (DeleteRecord (issue (DbGetRecordByID 1) (issue (DbGetZone ?z) shared_store)) 1)"
  let ?d = "deleteRecordHandler demo_lib demo_cfg 7 shared_store ?z (Some 1)"
  let ?u = "updateRecordHandler demo_lib demo_cfg 7 shared_store ?z (Some 1) (Some (new_ttl 0))"
  have f: "find (\<lambda>x. ID x = 1) (records shared_store) = Some www_a" by (simp add: www_a_def)
  have t: "Zone www_a = ''example.com''" "Type www_a \<noteq> TypeSOA"
    by (simp_all add: www_a_def TypeSOA_def)
  have b1: "soa_serial demo_lib shared_store ''example.com'' = Some 5"
    "soa_serial demo_lib shared_store ''sub.example.com'' = None"
    by (simp_all add: soa_serial_def stored_set_def matches_def www_a_def soa_rec_def
        general_ci_def TypeSOA_def demo_lib_def demo_soa_def)
  have gz: "fst (GetZone shared_store ?z) = Inr (Some \<lparr>zone_ID = 2, zone_Name = ?z\<rparr>)"
    by (simp add: GetZone_fst general_ci_def)
  have s: "Success (fst ?d)"
    by (simp add: deleteRecordHandler_success_iff gz GetRecordByID_fst DeleteRecord_fst f)
  from deleteRecordHandler_success[OF s] f
  have res: "?d = (responseJSON StatusOK (MessageData ''Record deleted successfully''),
         invalidate_and_publish demo_lib (bump_unless_SOA demo_lib demo_cfg 7 ?w3 ?z www_a) www_a)"
    by auto
  have rv: "records ?w3 = [soa_rec]" "next_id ?w3 = 3"
    "trace ?w3 = [DbGetZone ?z, DbGetRecordByID 1, DbDeleteRecord 1]"
    by (simp_all add: DeleteRecord_records www_a_def soa_rec_def)
  have sv: "stored_set ?w3 ?z ?z TypeSOA = []"
    by (simp add: stored_set_def rv matches_def soa_rec_def general_ci_def TypeSOA_def)
  have g: "\<not> fails ?w3 (DbGetRecordsByNameAndType ?z ?z TypeSOA)"
    "\<not> fails ?w3 (DbCreateRecord (default_SOA demo_lib demo_cfg 7 ?z))"
    by simp_all
  have ze: "zone_exists ?w3 ?z" by (simp add: zone_exists_def)
  note b = serial_update_no_SOA[OF g(1) sv, where L=demo_lib and cfg=demo_cfg and now=7]
  have k: "singleCacheKey (Zone www_a) (Name www_a) (Type www_a) =
             singleCacheKey ''example.com'' ''www.example.com'' ''A''"
    "multiCacheKey (Zone www_a) (Name www_a) (Type www_a) =
             multiCacheKey ''example.com'' ''www.example.com'' ''A''"
    by (simp_all add: www_a_def del: demo_keys)
  have tr: "trace (snd ?d) =
       [DbGetZone ?z, DbGetRecordByID 1, DbDeleteRecord 1,
        DbGetRecordsByNameAndType ?z ?z TypeSOA,
        DbCreateRecord (default_SOA demo_lib demo_cfg 7 ?z),
        RedisDel [singleCacheKey ''example.com'' ''www.example.com'' ''A''],
        RedisDel [multiCacheKey ''example.com'' ''www.example.com'' ''A''],
        RedisPublish ''dns:record:update'' (marshal_Record demo_lib www_a)]"
    unfolding res snd_conv invalidate_and_publish_trace bump_not_SOA(1)[OF t(2)] b(2) rv(3) k
    by simp
  have rs: "records (snd ?d) = [soa_rec, (default_SOA demo_lib demo_cfg 7 ?z)\<lparr>ID := 3\<rparr>]"
    unfolding res using b(4)[OF g(2) ze] by (simp add: bump_not_SOA(2)[OF t(2)] rv)
  have cl: "collation (snd ?d) = general_ci" unfolding res by simp
  have ss: "stored_set (snd ?d) ''example.com'' ''example.com'' TypeSOA = [soa_rec]"
    "stored_set (snd ?d) ?z ?z TypeSOA = [(default_SOA demo_lib demo_cfg 7 ?z)\<lparr>ID := 3\<rparr>]"
    by (simp_all add: stored_set_def rs cl matches_def soa_rec_def default_SOA_def
        general_ci_def TypeSOA_def)
  have a1: "soa_serial demo_lib (snd ?d) ''example.com'' = Some 5"
    unfolding soa_serial_def ss by (simp add: soa_rec_def demo_lib_def demo_soa_def)
  have a2: "soa_serial demo_lib (snd ?d) ?z = Some 7"
    unfolding soa_serial_def ss
    by (simp add: default_SOA_def demo_lib_def demo_soa_def uint32_def)
  have u: "?u = (responseError StatusBadRequest ''Record does not belong to the specified zone'',
                 issue (DbGetRecordByID 1) (issue (DbGetZone ?z) shared_store))"
    by (simp add: updateRecordHandler_def GetZone_def GetRecordByID_def general_ci_def www_a_def)
  have u1: "fst ?u =
       responseError StatusBadRequest ''Record does not belong to the specified zone''"
    "records (snd ?u) = records shared_store"
    "trace (snd ?u) = [DbGetZone ?z, DbGetRecordByID 1]"
    unfolding u by simp_all
  show ?thesis
    by (intro conjI f t b1 s tr rs a1 a2 u1)
qed

section \<open>The cache after a mutation\<close>

lemma warm_cache_more [simp]:
  "next_id warm_cache = 2" "zone_exists warm_cache z \<longleftrightarrow> general_ci ''example.com'' z"
  "wf_store warm_cache" "collation warm_cache = general_ci"
  "stored_set warm_cache ''example.com'' ''example.com'' TypeSOA = []"
  "kv warm_cache ''dns:records:example.com:www.example.com:A'' =
     Some (''records:www.example.com'', 5000000000)"
  "kv warm_cache ''dns:record:example.com:www.example.com:A'' =
     Some (''record:www.example.com'', 5000000000)"
  by (simp_all add: warm_cache_def one_zone_def zone_exists_def wf_store_def stored_set_def
      matches_def www_a_def TypeSOA_def general_ci_def)

lemma second_www_stored:
  "default_TTL (qualify_name ''example.com'' (second_www\<lparr>Zone := ''example.com''\<rparr>)) =
     second_www\<lparr>Zone := ''example.com'', Name := ''www.example.com''\<rparr>"
  by (simp add: default_TTL_def qualify_name_def second_www_def)

lemma after_create_facts:
  "Success (fst (createRecordHandler demo_lib demo_cfg 7 warm_cache ''example.com''
                   (Some second_www)))"
  "records after_create =
     [www_a, second_www\<lparr>Zone := ''example.com'', Name := ''www.example.com'', ID := 2\<rparr>,
      (default_SOA demo_lib demo_cfg 7 ''example.com'')\<lparr>ID := 3\<rparr>]"
  "kv after_create = kv warm_cache"
  "fails after_create = fails warm_cache" "zones after_create = zones warm_cache"
  "collation after_create = general_ci"
proof -
  let ?rc = "second_www\<lparr>Zone := ''example.com'', Name := ''www.example.com''\<rparr>"
  let ?v = "snd (snd (CreateRecord (issue (DbGetZone ''example.com'') warm_cache) ?rc))"
  show s: "Success (fst (createRecordHandler demo_lib demo_cfg 7 warm_cache ''example.com''
                   (Some second_www)))"
    by (rule createRecordHandler_succeeds) (simp_all add: second_www_def isValid_def validTTLs_def)
  have t: "Type second_www \<noteq> TypeSOA"
    "\<not> collation (issue (DbGetZone ''example.com'') warm_cache) (Type ?rc) TypeSOA"
    by (simp_all add: second_www_def TypeSOA_def general_ci_def)
  have ok: "fst (CreateRecord (issue (DbGetZone ''example.com'') warm_cache) ?rc) = None"
    by (simp add: CreateRecord_fst)
  have rv: "records ?v = [www_a, ?rc\<lparr>ID := 2\<rparr>]" "next_id ?v = 3"
    by (simp_all add: CreateRecord_records ok)
  have sv: "stored_set ?v ''example.com'' ''example.com'' TypeSOA = []"
    using create_post(1)[OF ok t(2), of "''example.com''"] by simp
  have g: "\<not> fails ?v (DbGetRecordsByNameAndType ''example.com'' ''example.com'' TypeSOA)"
    "\<not> fails ?v (DbCreateRecord (default_SOA demo_lib demo_cfg 7 ''example.com''))"
    by simp_all
  have ze: "zone_exists ?v ''example.com''"
    using zone_exists_cong[of ?v warm_cache "''example.com''"] by simp
  note c = create_trace_not_SOA[OF s t(1), unfolded second_www_stored]
  note b = serial_update_no_SOA[OF g(1) sv, where L=demo_lib and cfg=demo_cfg and now=7]
  show "records after_create =
     [www_a, second_www\<lparr>Zone := ''example.com'', Name := ''www.example.com'', ID := 2\<rparr>,
      (default_SOA demo_lib demo_cfg 7 ''example.com'')\<lparr>ID := 3\<rparr>]"
    unfolding after_create_def using c b(4)[OF g(2) ze] by (simp add: rv)
  show "kv after_create = kv warm_cache"
    unfolding after_create_def using c b(3) by simp
  show "fails after_create = fails warm_cache" "zones after_create = zones warm_cache"
    "collation after_create = general_ci"
    unfolding after_create_def createRecordHandler_success[OF s] by simp_all
qed

lemma after_create_trace:
  "trace after_create =
     [DbGetZone ''example.com'',
      DbCreateRecord (second_www\<lparr>Zone := ''example.com'', Name := ''www.example.com''\<rparr>),
      DbGetRecordsByNameAndType ''example.com'' ''example.com'' TypeSOA,
      DbCreateRecord (default_SOA demo_lib demo_cfg 7 ''example.com''),
      RedisPublish ''dns:record:update''
        (marshal_Record demo_lib
           (second_www\<lparr>Zone := ''example.com'', Name := ''www.example.com'', ID := 2\<rparr>))]"
proof -
  let ?rc = "second_www\<lparr>Zone := ''example.com'', Name := ''www.example.com''\<rparr>"
  let ?v = "snd (snd (CreateRecord (issue (DbGetZone ''example.com'') warm_cache) ?rc))"
  have t: "Type (?rc\<lparr>ID := 2\<rparr>) \<noteq> TypeSOA"
    "\<not> collation (issue (DbGetZone ''example.com'') warm_cache) (Type ?rc) TypeSOA"
    by (simp_all add: second_www_def TypeSOA_def general_ci_def)
  have ok: "fst (CreateRecord (issue (DbGetZone ''example.com'') warm_cache) ?rc) = None"
    by (simp add: CreateRecord_fst)
  have sv: "stored_set ?v ''example.com'' ''example.com'' TypeSOA = []"
    using create_post(1)[OF ok t(2), of "''example.com''"] by simp
  have g: "\<not> fails ?v (DbGetRecordsByNameAndType ''example.com'' ''example.com'' TypeSOA)"
    by simp
  note b = serial_update_no_SOA(2)[OF g sv, where L=demo_lib and cfg=demo_cfg and now=7]
  show ?thesis
    unfolding after_create_def createRecordHandler_success[OF after_create_facts(1)]
      second_www_stored
    by (simp add: bump_not_SOA(1)[OF t(1)] b)
qed

text \<open>
  C6. \<open>createRecordHandler\<close> deletes neither cache key of the record it creates: after a second
  address record for a cached name is created, both keys still hold the entry of before and
  the next query on the same instance is answered from it, without the new record.
  \<open>updateRecordHandler\<close> and \<open>deleteRecordHandler\<close> delete both keys.
\<close>

theorem create_leaves_cache_stale:
  "Success (fst (createRecordHandler demo_lib demo_cfg 7 warm_cache ''example.com''
                   (Some second_www)))
   \<and> trace after_create =
       [DbGetZone ''example.com'',
        DbCreateRecord (second_www\<lparr>Zone := ''example.com'', Name := ''www.example.com''\<rparr>),
        DbGetRecordsByNameAndType ''example.com'' ''example.com'' TypeSOA,
        DbCreateRecord (default_SOA demo_lib demo_cfg 7 ''example.com''),
        RedisPublish ''dns:record:update''
          (marshal_Record demo_lib
             (second_www\<lparr>Zone := ''example.com'', Name := ''www.example.com'', ID := 2\<rparr>))]
   \<and> stored_set after_create ''example.com'' ''www.example.com'' ''A'' =
       [www_a, second_www\<lparr>Zone := ''example.com'', Name := ''www.example.com'', ID := 2\<rparr>]
   \<and> kv after_create (multiCacheKey ''example.com'' ''www.example.com'' ''A'') =
       Some (''records:www.example.com'', 5000000000)
   \<and> kv after_create (singleCacheKey ''example.com'' ''www.example.com'' ''A'') =
       Some (''record:www.example.com'', 5000000000)
   \<and> cached_set demo_lib after_create ''example.com'' ''www.example.com'' ''A'' = [www_a]
   \<and> fst (snd (handleQuery demo_lib demo_cfg after_create reply q_www)) =
       reply\<lparr>Answer := [www_answer]\<rparr>
   \<and> kv (snd (updateRecordHandler demo_lib demo_cfg 7 warm_cache ''example.com'' (Some 1)
                (Some (new_ttl 60))))
        (multiCacheKey ''example.com'' ''www.example.com'' ''A'') = None
   \<and> kv (snd (updateRecordHandler demo_lib demo_cfg 7 warm_cache ''example.com'' (Some 1)
                (Some (new_ttl 60))))
        (singleCacheKey ''example.com'' ''www.example.com'' ''A'') = None
   \<and> kv (snd (deleteRecordHandler demo_lib demo_cfg 7 warm_cache ''example.com'' (Some 1)))
        (multiCacheKey ''example.com'' ''www.example.com'' ''A'') = None
   \<and> kv (snd (deleteRecordHandler demo_lib demo_cfg 7 warm_cache ''example.com'' (Some 1)))
        (singleCacheKey ''example.com'' ''www.example.com'' ''A'') = None"
proof -
  note a = after_create_facts
  have nf: "\<And>c. \<not> fails after_create c" by (simp add: a(4))
  have st: "stored_set after_create ''example.com'' ''www.example.com'' ''A'' =
       [www_a, second_www\<lparr>Zone := ''example.com'', Name := ''www.example.com'', ID := 2\<rparr>]"
    by (simp add: stored_set_def a(2,6) matches_def www_a_def second_www_def default_SOA_def
        TypeSOA_def general_ci_def)
  have k: "kv after_create (multiCacheKey ''example.com'' ''www.example.com'' ''A'') =
       Some (''records:www.example.com'', 5000000000)"
    "kv after_create (singleCacheKey ''example.com'' ''www.example.com'' ''A'') =
       Some (''record:www.example.com'', 5000000000)"
    by (simp_all add: a(3))
  have cs: "cached_set demo_lib after_create ''example.com'' ''www.example.com'' ''A'' = [www_a]"
    using k(1) by (simp add: cached_set_eq nf demo_lib_def)
  have fz: "findZone after_create (TrimSuffix (q_Name q_www) (CHR ''.'')) =
      (Inr ''example.com'', snd (findZone after_create ''www.example.com''))"
    using findZone_example(1)[of after_create] by (simp add: prod_eq_iff a(5,6) nf)
  have hq: "fst (snd (handleQuery demo_lib demo_cfg after_create reply q_www)) =
       reply\<lparr>Answer := [www_answer]\<rparr>"
    by (subst hq_set_hit[OF fz _ refl refl]) (simp_all add: cs reply_def)
  have su: "Success (fst (updateRecordHandler demo_lib demo_cfg 7 warm_cache ''example.com''
                      (Some 1) (Some (new_ttl 60))))"
    by (simp add: updateRecordHandler_success_iff GetZone_fst GetRecordByID_fst UpdateRecord_fst
        new_ttl_def isValid_def validTTLs_def www_a_def)
  have sd: "Success (fst (deleteRecordHandler demo_lib demo_cfg 7 warm_cache ''example.com''
                      (Some 1)))"
    by (simp add: deleteRecordHandler_success_iff GetZone_fst GetRecordByID_fst DeleteRecord_fst
        www_a_def)
  have f1: "find (\<lambda>x. ID x = 1) (records warm_cache) = Some www_a" by (simp add: www_a_def)
  from updateRecordHandler_success_find[OF su] f1
  have ru: "snd (updateRecordHandler demo_lib demo_cfg 7 warm_cache ''example.com'' (Some 1)
                 (Some (new_ttl 60))) =
     invalidate_and_publish demo_lib
       (bump_unless_SOA demo_lib demo_cfg 7
          (snd (UpdateRecord (issue (DbGetRecordByID 1) (issue (DbGetZone ''example.com'') warm_cache))
                 (apply_update (new_ttl 60) www_a))) ''example.com'' (apply_update (new_ttl 60) www_a))
       (apply_update (new_ttl 60) www_a)"
    by auto
  from deleteRecordHandler_success[OF sd] f1
  have rd: "snd (deleteRecordHandler demo_lib demo_cfg 7 warm_cache ''example.com'' (Some 1)) =
     invalidate_and_publish demo_lib
       (bump_unless_SOA demo_lib demo_cfg 7
          (snd (DeleteRecord (issue (DbGetRecordByID 1) (issue (DbGetZone ''example.com'') warm_cache))
                 1)) ''example.com'' www_a) www_a"
    by auto
  have w: "Zone www_a = ''example.com''" "Name www_a = ''www.example.com''" "Type www_a = ''A''"
    by (simp_all add: www_a_def)
  have ku: "kv (snd (updateRecordHandler demo_lib demo_cfg 7 warm_cache ''example.com'' (Some 1)
                (Some (new_ttl 60))))
        (multiCacheKey ''example.com'' ''www.example.com'' ''A'') = None"
    "kv (snd (updateRecordHandler demo_lib demo_cfg 7 warm_cache ''example.com'' (Some 1)
                (Some (new_ttl 60))))
        (singleCacheKey ''example.com'' ''www.example.com'' ''A'') = None"
    unfolding ru by (simp_all add: invalidate_and_publish_kv w del: demo_keys)
  have kd: "kv (snd (deleteRecordHandler demo_lib demo_cfg 7 warm_cache ''example.com'' (Some 1)))
        (multiCacheKey ''example.com'' ''www.example.com'' ''A'') = None"
    "kv (snd (deleteRecordHandler demo_lib demo_cfg 7 warm_cache ''example.com'' (Some 1)))
        (singleCacheKey ''example.com'' ''www.example.com'' ''A'') = None"
    unfolding rd by (simp_all add: invalidate_and_publish_kv w del: demo_keys)
  show ?thesis
    by (intro conjI a(1) after_create_trace st k cs hq ku kd)
qed

section \<open>The response code of a failed query\<close>

lemma handleQuery_error_msg:
  "fst (handleQuery L cfg w m q) = Some e \<Longrightarrow> fst (snd (handleQuery L cfg w m q)) = m"
  by (auto simp add: handleQuery_def store_single_fallback_def Let_def case_prod_beta
      addAnswerFromRecord_def add_answers_fst
      split: sum.splits option.splits list.splits if_splits)

lemma findZone_no_error:
  assumes "\<And>c. is_db_op c \<Longrightarrow> \<not> fails w c"
  shows "\<exists>zone. fst (findZone w n) = Inr zone"
  unfolding findZone_def
  by (subst findZone_from_first_match) (simp_all add: assms is_db_op_def)

text \<open>With the store answering and every cache read failing, a query is answered from the
  store, whether or not the cache write fails.\<close>

lemma cache_failure_absorbed:
  fixes q :: Question and w :: world
  assumes store: "\<And>c. is_db_op c \<Longrightarrow> \<not> fails w c" and cache: "\<And>k. fails w (RedisGet k)"
  defines "name \<equiv> TrimSuffix (q_Name q) (CHR ''.'')"
  shows "fst (handleQuery L cfg w m q) = None"
    and "fst (findZone w name) = Inr zone \<Longrightarrow> zone \<noteq> [] \<Longrightarrow>
         Answer (fst (snd (handleQuery L cfg w m q))) =
           Answer m @ answers_of L q (stored_set w zone name (TypeToString L (Qtype q)))"
proof -
  define ty where "ty = TypeToString L (Qtype q)"
  define w1 where "w1 = snd (findZone w name)"
  note nm = meta_eq_to_obj_eq[OF name_def]
  have *: "fst (handleQuery L cfg w m q) = None \<and>
        (zone \<noteq> [] \<longrightarrow> Answer (fst (snd (handleQuery L cfg w m q))) =
           Answer m @ answers_of L q (stored_set w zone name ty))"
    if z: "fst (findZone w name) = Inr zone" for zone
  proof (cases "zone = []")
    case True
    with z show ?thesis by (simp add: hq_no_zone name_def)
  next
    case False
    have fz: "findZone w (TrimSuffix (q_Name q) (CHR ''.'')) = (Inr zone, w1)"
      using z by (simp add: prod_eq_iff w1_def name_def)
    have cs: "cached_set L w1 zone name ty = []" "cached_single L w1 zone name ty = None"
      by (simp_all add: cached_set_eq cached_single_eq w1_def cache)
    have g: "\<not> fails w1 (DbGetRecordsByNameAndType zone name ty)"
      "\<And>v. fails v = fails w \<Longrightarrow> \<not> fails v (DbGetRecord zone name ty)"
      by (simp_all add: w1_def store is_db_op_def)
    have st: "stored_set w1 zone name ty = stored_set w zone name ty"
      by (simp add: w1_def)
    show ?thesis
    proof (cases "stored_set w zone name ty")
      case Nil
      let ?v = "issue (DbGetRecordsByNameAndType zone name ty)
        (count_CacheMiss (issue (RedisGet (singleCacheKey zone name ty))
                        (issue (RedisGet (multiCacheKey zone name ty)) w1)))"
      have f: "find (matches (collation ?v) zone name ty) (records ?v) = None"
        using find_matches_None[OF Nil] by (simp add: w1_def)
      have "\<not> fails ?v (DbGetRecord zone name ty)" by (rule g(2)) (simp add: w1_def)
      from fallback_none[OF this f]
      show ?thesis
        unfolding hq_store_empty[OF fz False nm ty_def cs g(1) Nil[folded st]]
        by (simp add: Nil answers_of_def)
    next
      case (Cons r rs)
      show ?thesis
        unfolding hq_store_set[OF fz False nm ty_def cs g(1) Cons[folded st]]
        by (simp add: Cons)
    qed
  qed
  from findZone_no_error[OF store] obtain zone0 where "fst (findZone w name) = Inr zone0" ..
  from *[OF this] show "fst (handleQuery L cfg w m q) = None" by simp
  show "Answer (fst (snd (handleQuery L cfg w m q))) =
           Answer m @ answers_of L q (stored_set w zone name (TypeToString L (Qtype q)))"
    if "fst (findZone w name) = Inr zone" "zone \<noteq> []"
    using *[OF that(1)] that(2) by (simp add: ty_def)
qed

text \<open>A request of one question whose query fails: the response code set for the failure is
  overwritten, the answer section being empty.\<close>

lemma ServeDNS_single_error:
  assumes "fst (handleQuery L cfg (count_Query w)
                  \<lparr>Questions = [q], Answer = [], Rcode = RcodeSuccess, Authoritative = True\<rparr> q) =
           Some err"
  shows "Rcode (fst (ServeDNS L cfg w (request [q]))) = RcodeNameError"
    and "Answer (fst (ServeDNS L cfg w (request [q]))) = []"
    and "ServerFailure (stats (snd (ServeDNS L cfg w (request [q])))) =
           ServerFailure (stats (snd (snd (handleQuery L cfg (count_Query w)
                  \<lparr>Questions = [q], Answer = [], Rcode = RcodeSuccess, Authoritative = True\<rparr> q))))
           + 1"
proof -
  let ?m = "\<lparr>Questions = [q], Answer = [], Rcode = RcodeSuccess, Authoritative = True\<rparr>"
  let ?h = "handleQuery L cfg (count_Query w) ?m q"
  define w' where "w' = snd (snd ?h)"
  have h: "?h = (Some err, ?m, w')"
    using assms handleQuery_error_msg[OF assms] by (simp add: prod_eq_iff w'_def)
  show "Rcode (fst (ServeDNS L cfg w (request [q]))) = RcodeNameError"
    and "Answer (fst (ServeDNS L cfg w (request [q]))) = []"
    and "ServerFailure (stats (snd (ServeDNS L cfg w (request [q])))) =
           ServerFailure (stats (snd (snd ?h))) + 1"
    by (simp_all add: ServeDNS_def request_def h count_NXDomain_def count_ServerFailure_def)
qed

text \<open>
  C7. On the read path a failing cache is absorbed: with the store answering and every cache
  read failing, \<open>handleQuery\<close> returns no error and the answers are those of the store's
  records. A failing store makes \<open>handleQuery\<close> return an error, and \<open>ServeDNS\<close> sets the
  server-failure code for it; but for a request of one question the answer section is then
  empty, and the code the client receives is the name-error code.
\<close>

theorem store_failure_response:
  fixes L :: lib and cfg :: Config and w :: world and m :: Msg and q :: Question
    and zone :: string and err :: error
  defines "m0 \<equiv> \<lparr>Questions = [q], Answer = [], Rcode = RcodeSuccess, Authoritative = True\<rparr>"
  shows
    "((\<forall>c. is_db_op c \<longrightarrow> \<not> fails w c) \<and> (\<forall>k. fails w (RedisGet k)) \<longrightarrow>
        fst (handleQuery L cfg w m q) = None
      \<and> (fst (findZone w (TrimSuffix (q_Name q) (CHR ''.''))) = Inr zone \<and> zone \<noteq> [] \<longrightarrow>
           Answer (fst (snd (handleQuery L cfg w m q))) =
             Answer m @ answers_of L q
               (stored_set w zone (TrimSuffix (q_Name q) (CHR ''.'')) (TypeToString L (Qtype q)))))
   \<and> (fst (handleQuery L cfg (count_Query w) m0 q) = Some err \<longrightarrow>
        Rcode (fst (ServeDNS L cfg w (request [q]))) = RcodeNameError
      \<and> Answer (fst (ServeDNS L cfg w (request [q]))) = []
      \<and> RcodeNameError \<noteq> RcodeServerFailure)"
proof -
  have 1: "fst (handleQuery L cfg w m q) = None
      \<and> (fst (findZone w (TrimSuffix (q_Name q) (CHR ''.''))) = Inr zone \<and> zone \<noteq> [] \<longrightarrow>
           Answer (fst (snd (handleQuery L cfg w m q))) =
             Answer m @ answers_of L q
               (stored_set w zone (TrimSuffix (q_Name q) (CHR ''.'')) (TypeToString L (Qtype q))))"
    if "\<forall>c. is_db_op c \<longrightarrow> \<not> fails w c" "\<forall>k. fails w (RedisGet k)"
  proof -
    have s: "\<And>c. is_db_op c \<Longrightarrow> \<not> fails w c" and c: "\<And>k. fails w (RedisGet k)"
      using that by blast+
    from cache_failure_absorbed[OF s c] show ?thesis by blast
  qed
  have 2: "Rcode (fst (ServeDNS L cfg w (request [q]))) = RcodeNameError
      \<and> Answer (fst (ServeDNS L cfg w (request [q]))) = []
      \<and> RcodeNameError \<noteq> RcodeServerFailure"
    if "fst (handleQuery L cfg (count_Query w) m0 q) = Some err"
    using ServeDNS_single_error(1,2)[OF that[unfolded m0_def]]
    by (simp add: RcodeNameError_def RcodeServerFailure_def)
  from 1 2 show ?thesis by blast
qed

lemma down_fields [simp]:
  "fails store_down c = is_db_op c" "fails cache_down c = (\<not> is_db_op c)"
  "fails records_down c = (c = DbGetRecordsByNameAndType ''example.com'' ''www.example.com'' ''A'')"
  "zones store_down = zones one_zone" "zones cache_down = zones one_zone"
  "zones records_down = zones one_zone"
  "records store_down = [www_a]" "records cache_down = [www_a]" "records records_down = [www_a]"
  "kv store_down = Map.empty" "kv cache_down = Map.empty" "kv records_down = Map.empty"
  "collation store_down = general_ci" "collation cache_down = general_ci"
  "collation records_down = general_ci"
  by (simp_all add: store_down_def cache_down_def records_down_def one_zone_def)

lemma down_findZone:
  "fst (findZone (count_Query store_down) ''www.example.com'') = Inl StoreUnavailable"
  "fst (findZone (count_Query records_down) ''www.example.com'') = Inr ''example.com''"
  "fst (findZone cache_down ''www.example.com'') = Inr ''example.com''"
  by (simp_all add: findZone_def GetZone_def is_db_op_def one_zone_def general_ci_def)

theorem store_failure_response_witness:
  "fst (handleQuery demo_lib demo_cfg cache_down reply q_www) = None
   \<and> Answer (fst (snd (handleQuery demo_lib demo_cfg cache_down reply q_www))) = [www_answer]
   \<and> fst (handleQuery demo_lib demo_cfg (count_Query store_down)
             \<lparr>Questions = [q_www], Answer = [], Rcode = RcodeSuccess, Authoritative = True\<rparr> q_www) =
       Some StoreUnavailable
   \<and> Rcode (fst (ServeDNS demo_lib demo_cfg store_down (request [q_www]))) = 3
   \<and> fst (handleQuery demo_lib demo_cfg (count_Query records_down)
             \<lparr>Questions = [q_www], Answer = [], Rcode = RcodeSuccess, Authoritative = True\<rparr> q_www) =
       Some StoreUnavailable
   \<and> Rcode (fst (ServeDNS demo_lib demo_cfg records_down (request [q_www]))) = 3
   \<and> RcodeServerFailure = 2"
proof -
  let ?m = "\<lparr>Questions = [q_www], Answer = [], Rcode = RcodeSuccess, Authoritative = True\<rparr>"
  have e1: "fst (handleQuery demo_lib demo_cfg (count_Query store_down) ?m q_www) =
       Some StoreUnavailable"
    by (subst hq_zone_error[where err=StoreUnavailable]) (simp_all add: down_findZone)
  have fz: "findZone (count_Query records_down) (TrimSuffix (q_Name q_www) (CHR ''.'')) =
      (Inr ''example.com'', snd (findZone (count_Query records_down) ''www.example.com''))"
    by (simp add: prod_eq_iff down_findZone)
  have e2: "fst (handleQuery demo_lib demo_cfg (count_Query records_down) ?m q_www) =
       Some StoreUnavailable"
    by (subst hq_store_error[OF fz _ refl refl])
       (simp_all add: cached_set_eq cached_single_eq del: demo_keys)
  have st: "stored_set cache_down ''example.com'' ''www.example.com'' ''A'' = [www_a]"
    by (simp add: stored_set_def matches_def www_a_def general_ci_def)
  note a = store_failure_response[where L=demo_lib and cfg=demo_cfg and w=cache_down and m=reply
      and q=q_www and zone="''example.com''", THEN conjunct1]
  note b = store_failure_response[where L=demo_lib and cfg=demo_cfg and w=store_down
      and q=q_www and err=StoreUnavailable, THEN conjunct2]
  note c = store_failure_response[where L=demo_lib and cfg=demo_cfg and w=records_down
      and q=q_www and err=StoreUnavailable, THEN conjunct2]
  have 1: "fst (handleQuery demo_lib demo_cfg cache_down reply q_www) = None
   \<and> Answer (fst (snd (handleQuery demo_lib demo_cfg cache_down reply q_www))) = [www_answer]"
    using a by (simp add: is_db_op_def down_findZone st reply_def)
  have 2: "Rcode (fst (ServeDNS demo_lib demo_cfg store_down (request [q_www]))) = 3"
    using b e1 by (simp add: RcodeNameError_def)
  have 3: "Rcode (fst (ServeDNS demo_lib demo_cfg records_down (request [q_www]))) = 3"
    using c e2 by (simp add: RcodeNameError_def)
  have 4: "RcodeServerFailure = 2" by (simp add: RcodeServerFailure_def)
  from 1 2 3 4 e1 e2 show ?thesis by blast
qed


section \<open>A record whose answer cannot be built\<close>




lemma legacy_single_fields [simp]:
  "collation legacy_single = general_ci"
  "\<not> fails legacy_single c" "zones legacy_single = [\<lparr>zone_ID = 1, zone_Name = ''example.com''\<rparr>]"
  "kv legacy_single ''dns:records:example.com:www.example.com:A'' =
     Some (''records:www.example.com'', 5000000000)"
  "kv legacy_single ''dns:records:example.com:legacy.example.com:HINFO'' = None"
  "kv legacy_single ''dns:record:example.com:legacy.example.com:HINFO'' =
     Some (''record:legacy.example.com'', 5000000000)"
  by (simp_all add: legacy_single_def warm_cache_def)

lemma mixed_soa_fields [simp]:
  "collation mixed_soa = general_ci"
  "\<not> fails mixed_soa c" "zones mixed_soa = [\<lparr>zone_ID = 1, zone_Name = ''example.com''\<rparr>]"
  "kv mixed_soa = Map.empty" "records mixed_soa = [www_a, soa_bad, soa_rec]" "logs mixed_soa = []"
  by (simp_all add: mixed_soa_def one_zone_def no_faults_def)

lemma more_keys [simp]:
  "multiCacheKey ''example.com'' ''legacy.example.com'' ''HINFO'' =
     ''dns:records:example.com:legacy.example.com:HINFO''"
  "singleCacheKey ''example.com'' ''legacy.example.com'' ''HINFO'' =
     ''dns:record:example.com:legacy.example.com:HINFO''"
  by (simp_all add: multiCacheKey_def singleCacheKey_def)






end
